theory Spec2Isabelle
  imports Complex_Main "HOL-Library.Signed_Division" "HOL-Library.Word"
begin

unbundle bit_operations_syntax

chapter \<open>The programs\<close>

section \<open>Conventions of the embedding\<close>

text \<open>
  The C++ sources compute on \<^verbatim>\<open>float\<close> and \<^verbatim>\<open>double\<close>. Both are embedded as
  exact reals: the development verifies the control flow, the index arithmetic and the
  algebra of the algorithms, with rounding error and NaN left out. C++ \<^verbatim>\<open>int\<close> values
  are embedded as unbounded \<^typ>\<open>int\<close> and \<^verbatim>\<open>size_t\<close> values as \<^typ>\<open>nat\<close>; they
  are container sizes and indices into containers, far from the machine bounds. The one
  place where a \<^verbatim>\<open>size_t\<close> subtraction can wrap (the tail flush of the streaming
  driver) writes the wrap-around out.

  An error is a value. \<open>RuntimeError msg\<close> is a thrown \<^verbatim>\<open>std::runtime_error(msg)\<close>,
  \<open>OrtException msg\<close> an exception of the inference runtime, and \<open>OutOfBounds\<close> an
  access outside a container or buffer, which C++ leaves undefined.
\<close>

datatype failure = RuntimeError string | OrtException string | OutOfBounds

text \<open>
  \<^verbatim>\<open>std::copy(src + lo, src + hi, dst.begin() + d)\<close> on vectors, arrays and pointers
  into them: the elements \<open>lo ..< hi\<close> of \<open>src\<close> overwrite \<open>dst\<close> from position \<open>d\<close>
  on. It is the C++ operation whenever the source range lies inside \<open>src\<close> and the
  target range inside \<open>dst\<close>; every caller below that cannot guarantee this checks the
  ranges first and fails with \<open>OutOfBounds\<close>.
\<close>

definition std_copy :: "'a list \<Rightarrow> nat \<Rightarrow> nat \<Rightarrow> 'a list \<Rightarrow> nat \<Rightarrow> 'a list" where
  "std_copy src lo hi dst d =
     take d dst @ map (\<lambda>i. src ! (lo + i)) [0 ..< hi - lo] @ drop (d + (hi - lo)) dst"

section \<open>TempoCnn.cpp\<close>

subsection \<open>Constants and data\<close>

definition kSampleRate :: int where "kSampleRate = 11025"
definition kNfft :: int where "kNfft = 1024"
definition kStftHopLength :: int where "kStftHopLength = 512"
definition kMelBands :: int where "kMelBands = 40"
definition kMelMinHz :: real where "kMelMinHz = 20"
definition kMelMaxHz :: real where "kMelMaxHz = 5000"
definition kTempoClasses :: int where "kTempoClasses = 256"
definition kWindowFrames :: int where "kWindowFrames = 256"
definition kGlobalHopFrames :: int where "kGlobalHopFrames = 128"
definition kLocalHopFrames :: int where "kLocalHopFrames = 32"
definition kLocalSmoothingWindow :: int where "kLocalSmoothingWindow = 5"
definition kTempoMinBpm :: real where "kTempoMinBpm = 20"
definition kTempoMaxBpm :: real where "kTempoMaxBpm = 300"
definition kLocalTempoMinTimeDelta :: real where "kLocalTempoMinTimeDelta = 0.7"
definition kLocalTempoMinBpmDelta :: real where "kLocalTempoMinBpmDelta = 0.75"
definition kFeatureFrameSeconds :: real where "kFeatureFrameSeconds = 512 / 11025"
definition kPi :: real where "kPi = 3.14159265358979323846"

text \<open>The two tensors both have a field \<^verbatim>\<open>data\<close> in the source; the sliding-window
  tensor's is named \<open>windowData\<close> here.\<close>

record FeatureTensor =
  data :: "real list"
  totalFrames :: int

record SlidingWindowTensor =
  windowData :: "real list"
  numWindows :: int

text \<open>\<^verbatim>\<open>TempoCnn.h\<close>. The field \<^verbatim>\<open>bpm\<close> of the result is named \<open>resultBpm\<close>.\<close>

record TempoPoint =
  timeSeconds :: real
  bpm :: real

record TempoEstimateOptions =
  interpolate :: bool
  localTempo :: bool

record TempoEstimateResult =
  resultBpm :: real
  tempoMap :: "TempoPoint list"

subsection \<open>Scalar helpers\<close>

definition clampDouble :: "real \<Rightarrow> real \<Rightarrow> real \<Rightarrow> real" where
  "clampDouble value minValue maxValue = max minValue (min maxValue value)"

text \<open>\<^verbatim>\<open>std::round\<close>: to the nearest integer, halfway cases away from zero.\<close>

definition std_round :: "real \<Rightarrow> real" where
  "std_round x = (if 0 \<le> x then of_int \<lfloor>x + 1/2\<rfloor> else - of_int \<lfloor>- x + 1/2\<rfloor>)"

definition roundToDecimals :: "real \<Rightarrow> int \<Rightarrow> real" where
  "roundToDecimals value decimals =
     (let safeDecimals = max 0 (min 9 decimals);
          scale = 10 ^ nat safeDecimals
      in std_round (value * scale) / scale)"

definition hzToMelSlaney :: "real \<Rightarrow> real" where
  "hzToMelSlaney hz =
     (let fSp = 200 / 3; minLogHz = 1000; minLogMel = minLogHz / fSp;
          logStep = ln 6.4 / 27
      in if hz < minLogHz then hz / fSp
         else minLogMel + (ln (hz / minLogHz) / logStep))"

definition melToHzSlaney :: "real \<Rightarrow> real" where
  "melToHzSlaney mel =
     (let fSp = 200 / 3; minLogHz = 1000; minLogMel = minLogHz / fSp;
          logStep = ln 6.4 / 27
      in if mel < minLogMel then mel * fSp
         else minLogHz * exp (logStep * (mel - minLogMel)))"

definition makeMelFrequencies :: "int \<Rightarrow> real \<Rightarrow> real \<Rightarrow> real list" where
  "makeMelFrequencies count minHz maxHz =
     (let melMin = hzToMelSlaney minHz; melMax = hzToMelSlaney maxHz
      in map (\<lambda>i. let ratio = (if count \<le> 1 then 0 else real i / real_of_int (count - 1));
                       melValue = melMin + (melMax - melMin) * ratio
                   in melToHzSlaney melValue)
             [0 ..< nat count])"

definition makeMelFilterBank :: "real list" where
  "makeMelFilterBank =
     (let fftBins = nat (kNfft div 2 + 1);
          melFrequencies = makeMelFrequencies (kMelBands + 2) kMelMinHz kMelMaxHz;
          fftFrequencies =
            map (\<lambda>i. (real i * real_of_int kSampleRate) / real_of_int kNfft) [0 ..< fftBins];
          fdiff = map (\<lambda>i. melFrequencies ! (i + 1) - melFrequencies ! i)
                      [0 ..< nat (kMelBands + 1)]
      in concat (map (\<lambda>mel.
           let enorm = 2 / (melFrequencies ! (mel + 2) - melFrequencies ! mel)
           in map (\<lambda>bin.
                let lower = (fftFrequencies ! bin - melFrequencies ! mel) / fdiff ! mel;
                    upper = (melFrequencies ! (mel + 2) - fftFrequencies ! bin) / fdiff ! (mel + 1);
                    weight = max 0 (min lower upper)
                in weight * enorm) [0 ..< fftBins])
           [0 ..< nat kMelBands]))"

definition makeHannWindow :: "real list" where
  "makeHannWindow =
     map (\<lambda>i. 0.5 - 0.5 * cos ((2 * kPi * real i) / real_of_int kNfft)) [0 ..< nat kNfft]"

subsection \<open>The radix-2 FFT\<close>

text \<open>The carry loop of the bit reversal:
  \<^verbatim>\<open>for (; j & bit; bit >>= 1) j ^= bit;\<close> (the variable \<^verbatim>\<open>bit\<close> is \<open>bt\<close> here).\<close>

function fft_carry :: "nat \<Rightarrow> nat \<Rightarrow> nat \<times> nat" where
  "fft_carry j bt =
     (if j AND bt \<noteq> 0 then fft_carry (j XOR bt) (bt div 2) else (j, bt))"
  by pat_completeness auto
termination
proof (relation "measure (\<lambda>(j, bt). bt)")
  show "wf (measure (\<lambda>(j, bt). bt))" by simp
next
  fix j bt :: nat
  assume "j AND bt \<noteq> 0"
  then have "bt \<noteq> 0" by (cases "bt = 0") simp_all
  then show "((j XOR bt, bt div 2), (j, bt)) \<in> measure (\<lambda>(j, bt). bt)" by simp
qed

text \<open>One pass of the first loop, \<open>i = 1 ..< n\<close>; the state is \<open>(j, data)\<close>.\<close>

definition fft_reverse_step :: "nat \<Rightarrow> nat \<Rightarrow> nat \<times> complex list \<Rightarrow> nat \<times> complex list" where
  "fft_reverse_step n i st =
     (let (j0, buf) = st;
          (j1, bt) = fft_carry j0 (n div 2);
          j = j1 XOR bt
      in (j, if i < j then buf[i := buf ! j, j := buf ! i] else buf))"

text \<open>The innermost loop, \<open>k = 0 ..< len / 2\<close>; the state is \<open>(w, data)\<close>.\<close>

definition fft_butterflies :: "nat \<Rightarrow> complex \<Rightarrow> nat \<Rightarrow> complex list \<Rightarrow> complex list" where
  "fft_butterflies len wlen i buf =
     snd (fold (\<lambda>k (w, b).
            let u = b ! (i + k);
                v = b ! (i + k + len div 2) * w
            in (w * wlen, b[i + k := u + v, i + k + len div 2 := u - v]))
          [0 ..< len div 2] (1, buf))"

text \<open>\<^verbatim>\<open>for (size_t i = 0; i < n; i += len)\<close>. The loop is entered with \<open>len \<ge> 2\<close> only;
  the guard \<open>0 < len\<close> makes the recursion total.\<close>

function fft_blocks :: "nat \<Rightarrow> complex \<Rightarrow> nat \<Rightarrow> nat \<Rightarrow> complex list \<Rightarrow> complex list" where
  "fft_blocks len wlen n i buf =
     (if i < n \<and> 0 < len then fft_blocks len wlen n (i + len) (fft_butterflies len wlen i buf)
      else buf)"
  by pat_completeness auto
termination
  by (relation "measure (\<lambda>(len, wlen, n, i, buf). n - i)") auto

text \<open>\<^verbatim>\<open>for (size_t len = 2; len <= n; len <<= 1)\<close>, entered with \<open>len = 2\<close>.\<close>

function fft_stages :: "nat \<Rightarrow> nat \<Rightarrow> complex list \<Rightarrow> complex list" where
  "fft_stages len n buf =
     (if len \<le> n \<and> 0 < len then
        let angle = - 2 * kPi / real len;
            wlen = Complex (cos angle) (sin angle)
        in fft_stages (2 * len) n (fft_blocks len wlen n 0 buf)
      else buf)"
  by pat_completeness auto
termination
  by (relation "measure (\<lambda>(len, n, buf). Suc n - len)") auto

definition fft :: "complex list \<Rightarrow> complex list" where
  "fft buf =
     (let n = length buf;
          reversed = snd (fold (fft_reverse_step n) [1 ..< n] (0, buf))
      in fft_stages 2 n reversed)"

subsection \<open>The mel spectrogram\<close>

text \<open>The body of the frame loop: the 40 mel values of frame \<open>frameIndex\<close>.\<close>

definition melFrame :: "real list \<Rightarrow> real list \<Rightarrow> real list \<Rightarrow> nat \<Rightarrow> real list" where
  "melFrame filterBank hannWindow padded frameIndex =
     (let fftBins = nat (kNfft div 2 + 1);
          offset = frameIndex * nat kStftHopLength;
          fftBuffer = fft (map (\<lambda>i. Complex (padded ! (offset + i) * hannWindow ! i) 0)
                               [0 ..< nat kNfft]);
          magnitudes = map (\<lambda>bin. cmod (fftBuffer ! bin)) [0 ..< fftBins]
      in map (\<lambda>mel. fold (\<lambda>bin melValue.
                         melValue + filterBank ! (mel * fftBins + bin) * magnitudes ! bin)
                       [0 ..< fftBins] 0)
             [0 ..< nat kMelBands])"

text \<open>The frame loop writes \<^verbatim>\<open>result.data[mel * frameCount + frameIndex]\<close> for every
  band of every frame.\<close>

definition storeFrame :: "nat \<Rightarrow> nat \<Rightarrow> real list \<Rightarrow> real list \<Rightarrow> real list" where
  "storeFrame frameCount frameIndex melValues store =
     fold (\<lambda>mel d. d[mel * frameCount + frameIndex := melValues ! mel])
          [0 ..< nat kMelBands] store"

definition computeMelSpectrogram :: "real list \<Rightarrow> FeatureTensor" where
  "computeMelSpectrogram monoSamples =
     (if monoSamples = [] then \<lparr>data = [], totalFrames = 0\<rparr>
      else
        let padSamples = kNfft div 2;
            padded = std_copy monoSamples 0 (length monoSamples)
                       (replicate (length monoSamples + nat (padSamples * 2)) 0)
                       (nat padSamples)
        in if length padded < nat kNfft then \<lparr>data = [], totalFrames = 0\<rparr>
           else
             let frameCount = 1 + int ((length padded - nat kNfft) div nat kStftHopLength);
                 filterBank = makeMelFilterBank;
                 hannWindow = makeHannWindow
             in \<lparr>data = fold (\<lambda>frameIndex.
                             storeFrame (nat frameCount) frameIndex
                               (melFrame filterBank hannWindow padded frameIndex))
                           [0 ..< nat frameCount]
                           (replicate (nat (kMelBands * frameCount)) 0),
                 totalFrames = frameCount\<rparr>)"

subsection \<open>Sliding windows\<close>

text \<open>The two padding loops: for every band \<open>mel\<close>, the \<open>count\<close> frames of the band are
  copied from \<open>src\<close> (rows of \<open>srcFrames\<close>) into \<open>dst\<close> (rows of \<open>dstFrames\<close>),
  \<open>shift\<close> frames into the row.\<close>

definition copyBands :: "real list \<Rightarrow> int \<Rightarrow> int \<Rightarrow> int \<Rightarrow> real list \<Rightarrow> real list" where
  "copyBands src srcFrames dstFrames shift dst =
     fold (\<lambda>mel padded.
             let srcOffset = nat (mel * srcFrames);
                 dstOffset = nat (mel * dstFrames + shift)
             in std_copy src srcOffset (srcOffset + nat srcFrames) padded dstOffset)
          (map int [0 ..< nat kMelBands]) dst"

text \<open>The body of the window loop: the 40 band rows of window \<open>windowIndex\<close>.\<close>

definition copyWindow :: "real list \<Rightarrow> int \<Rightarrow> int \<Rightarrow> int \<Rightarrow> int \<Rightarrow> real list \<Rightarrow> real list" where
  "copyWindow workingData workingFrames windowFrames safeHop windowIndex out =
     (let offset = windowIndex * safeHop
      in fold (\<lambda>mel outData.
                 let srcOffset = nat (mel * workingFrames + offset);
                     dstOffset = nat ((windowIndex * kMelBands + mel) * windowFrames)
                 in std_copy workingData srcOffset (srcOffset + nat windowFrames) outData dstOffset)
              (map int [0 ..< nat kMelBands]) out)"

text \<open>The block under \<^verbatim>\<open>if (zeroPad)\<close>: the new working data and working length.
  C++ \<^verbatim>\<open>/\<close> on \<^verbatim>\<open>int\<close> truncates towards zero: \<open>sdiv\<close>.\<close>

definition zeroPadBands :: "real list \<Rightarrow> int \<Rightarrow> int \<Rightarrow> real list \<times> int" where
  "zeroPadBands workingData workingFrames windowFrames =
     (let totalZeros = windowFrames;
          zerosBefore = totalZeros sdiv 2;
          paddedFrames = workingFrames + totalZeros
      in (copyBands workingData workingFrames paddedFrames zerosBefore
            (replicate (nat (kMelBands * paddedFrames)) 0),
          paddedFrames))"

text \<open>The block under \<^verbatim>\<open>if (workingFrames < windowFrames)\<close>.\<close>

definition rightPadBands :: "real list \<Rightarrow> int \<Rightarrow> int \<Rightarrow> real list \<times> int" where
  "rightPadBands workingData workingFrames windowFrames =
     (copyBands workingData workingFrames windowFrames 0
        (replicate (nat (kMelBands * windowFrames)) 0),
      windowFrames)"

text \<open>From \<^verbatim>\<open>const int safeHop\<close> to the end of the function.\<close>

definition extractWindows :: "real list \<Rightarrow> int \<Rightarrow> int \<Rightarrow> int \<Rightarrow> SlidingWindowTensor" where
  "extractWindows workingData workingFrames windowFrames hopFrames =
     (let safeHop = max 1 hopFrames;
          nWindows = ((workingFrames - windowFrames) sdiv safeHop) + 1
      in \<lparr>windowData =
             fold (\<lambda>windowIndex.
                     copyWindow workingData workingFrames windowFrames safeHop windowIndex)
                  (map int [0 ..< nat nWindows])
                  (replicate (nat (nWindows * kMelBands * windowFrames)) 0),
           numWindows = nWindows\<rparr>)"

definition toSlidingWindows :: "FeatureTensor \<Rightarrow> int \<Rightarrow> int \<Rightarrow> bool \<Rightarrow> SlidingWindowTensor" where
  "toSlidingWindows features windowFrames hopFrames zeroPad =
     (if totalFrames features \<le> 0 \<or> data features = [] then \<lparr>windowData = [], numWindows = 0\<rparr>
      else
        let working0 = (data features, totalFrames features);
            working1 = (if zeroPad
                        then zeroPadBands (fst working0) (snd working0) windowFrames
                        else working0);
            working2 = (if snd working1 < windowFrames
                        then rightPadBands (fst working1) (snd working1) windowFrames
                        else working1)
        in extractWindows (fst working2) (snd working2) windowFrames hopFrames)"

subsection \<open>The sliding windows as the specification describes them\<close>

text \<open>
  The time axis of band \<open>mel\<close> in a band-major tensor with \<open>frames\<close> frames per band,
  and the working data of the specification for window width 256: with \<open>zeroPad\<close>, 128
  zero frames before and after the band; then zeros on the right up to 256 frames.
\<close>

definition bandRow :: "real list \<Rightarrow> nat \<Rightarrow> nat \<Rightarrow> real list" where
  "bandRow xs frames mel = take frames (drop (mel * frames) xs)"

definition workingRow :: "FeatureTensor \<Rightarrow> bool \<Rightarrow> nat \<Rightarrow> real list" where
  "workingRow features zeroPad mel =
     (let row = bandRow (data features) (nat (totalFrames features)) mel;
          padded = (if zeroPad then replicate 128 0 @ row @ replicate 128 0 else row)
      in padded @ replicate (256 - length padded) 0)"

subsection \<open>Interpreting the posterior\<close>

text \<open>\<^verbatim>\<open>std::max_element\<close> followed by the division of every value.\<close>

definition normalizeByMax :: "real list \<Rightarrow> real list" where
  "normalizeByMax tensor =
     (if tensor = [] then tensor
      else
        let maxValue = fold max (tl tensor) (hd tensor)
        in if maxValue \<le> 0 then tensor else map (\<lambda>v. v / maxValue) tensor)"

text \<open>The search loop of \<^verbatim>\<open>argmax\<close>, and of \<^verbatim>\<open>predictionRowsToBpmSeries\<close> on one row
  starting at \<open>rowOffset\<close>; the state is \<open>(bestIndex, bestValue)\<close>.\<close>

definition argmaxFrom :: "real list \<Rightarrow> nat \<Rightarrow> nat \<Rightarrow> int" where
  "argmaxFrom values rowOffset count =
     fst (fold (\<lambda>index (bestIndex, bestValue).
                  if values ! (rowOffset + index) > bestValue
                  then (int index, values ! (rowOffset + index))
                  else (bestIndex, bestValue))
               [1 ..< count] (0, values ! rowOffset))"

definition argmax :: "real list \<Rightarrow> int" where
  "argmax values = (if values = [] then 0 else argmaxFrom values 0 (length values))"

definition interpolateArgmax :: "real list \<Rightarrow> int \<Rightarrow> real" where
  "interpolateArgmax values index =
     (if index \<le> 0 \<or> index \<ge> int (length values) - 1 then of_int index
      else
        let left = values ! nat (index - 1);
            center = values ! nat index;
            right = values ! nat (index + 1);
            denominator = left - (2 * center) + right
        in if \<bar>denominator\<bar> < 1 / 10 ^ 12 then of_int index
           else
             let delta = 0.5 * (left - right) / denominator;
                 safeDelta = clampDouble delta (- 1) 1
             in of_int index + safeDelta)"

definition classIndexToBpm :: "real \<Rightarrow> real" where
  "classIndexToBpm index = clampDouble (index + 30) kTempoMinBpm kTempoMaxBpm"

text \<open>C++ \<^verbatim>\<open>%\<close> and \<^verbatim>\<open>/\<close> on \<^verbatim>\<open>int\<close> truncate towards zero: \<open>smod\<close> and \<open>sdiv\<close>.\<close>

text \<open>The inner loop of \<^verbatim>\<open>movingAverageSame\<close>, \<open>offset = -halfWindow .. halfWindow\<close>, for
  one output index.\<close>

definition windowSum :: "real list \<Rightarrow> int \<Rightarrow> nat \<Rightarrow> real" where
  "windowSum values halfWindow index =
     fold (\<lambda>offset sum.
             let sampleIndex = int index + offset
             in if sampleIndex < 0 \<or> sampleIndex \<ge> int (length values) then sum
                else sum + values ! nat sampleIndex)
          [- halfWindow .. halfWindow] 0"

definition movingAverageSame :: "real list \<Rightarrow> int \<Rightarrow> real list" where
  "movingAverageSame values windowSize =
     (if values = [] then []
      else
        let safeWindow0 = max 1 windowSize;
            safeWindow = (if safeWindow0 smod 2 = 0 then safeWindow0 + 1 else safeWindow0);
            halfWindow = safeWindow sdiv 2
        in map (\<lambda>index. windowSum values halfWindow index / of_int safeWindow)
               [0 ..< length values])"

definition compressTempoPoints :: "real list \<Rightarrow> real \<Rightarrow> TempoPoint list" where
  "compressTempoPoints bpmSeries hopSeconds =
     (let raw = map (\<lambda>index.
                  let b = clampDouble (bpmSeries ! index) kTempoMinBpm kTempoMaxBpm
                  in \<lparr>timeSeconds = roundToDecimals (real index * hopSeconds) 6,
                      bpm = roundToDecimals b 6\<rparr>)
                [0 ..< length bpmSeries]
      in if raw = [] then []
         else fold (\<lambda>current compressed.
                      let lastPoint = last compressed;
                          timeDelta = timeSeconds current - timeSeconds lastPoint;
                          bpmDelta = \<bar>bpm current - bpm lastPoint\<bar>
                      in if timeDelta < kLocalTempoMinTimeDelta \<and> bpmDelta < kLocalTempoMinBpmDelta
                         then compressed
                         else compressed @ [current])
                   (tl raw) [hd raw])"

definition averagePredictions :: "real list \<Rightarrow> int \<Rightarrow> real list" where
  "averagePredictions predictions nWindows =
     (let averaged0 = replicate (nat kTempoClasses) 0
      in if nWindows \<le> 0 then averaged0
         else
           let summed = fold (\<lambda>row averaged.
                          let rowOffset = row * nat kTempoClasses
                          in fold (\<lambda>col acc. acc[col := acc ! col + predictions ! (rowOffset + col)])
                                  [0 ..< nat kTempoClasses] averaged)
                        [0 ..< nat nWindows] averaged0
           in map (\<lambda>v. v / of_int nWindows) summed)"

definition predictionRowsToBpmSeries :: "real list \<Rightarrow> int \<Rightarrow> real list" where
  "predictionRowsToBpmSeries predictions nWindows =
     map (\<lambda>row.
            let rowOffset = row * nat kTempoClasses;
                bestIndex = argmaxFrom predictions rowOffset (nat kTempoClasses)
            in classIndexToBpm (of_int bestIndex))
         [0 ..< nat nWindows]"

subsection \<open>The estimator\<close>

text \<open>
  The ONNX session is the inference runtime, outside the repository: it is a parameter.
  A run throws, returns nothing usable, or returns a tensor with its shape.
\<close>

datatype ort_output = OrtThrows string | OrtNoTensor | OrtTensor "int list" "real list"

type_synonym ort_session = "real list \<Rightarrow> int list \<Rightarrow> ort_output"

definition runModel :: "ort_session \<Rightarrow> real list \<Rightarrow> int \<Rightarrow> failure + real list" where
  "runModel session inputData nWindows =
     (if nWindows \<le> 0 then Inl (RuntimeError ''TempoCNN input tensor is empty.'')
      else
        case session inputData [nWindows, kMelBands, kWindowFrames, 1] of
          OrtThrows msg \<Rightarrow> Inl (OrtException msg)
        | OrtNoTensor \<Rightarrow> Inl (RuntimeError ''TempoCNN ONNX runtime returned no tensor output.'')
        | OrtTensor shape outputData \<Rightarrow>
            if length shape \<noteq> 2 \<or> shape ! 0 \<noteq> nWindows \<or> shape ! 1 \<noteq> kTempoClasses
            then Inl (RuntimeError ''TempoCNN ONNX output shape mismatch.'')
            else Inr (take (nat (nWindows * kTempoClasses)) outputData))"

text \<open>The block under \<^verbatim>\<open>if (options.localTempo)\<close>; without usable windows the tempo map stays empty.\<close>

definition localTempoMap :: "ort_session \<Rightarrow> FeatureTensor \<Rightarrow> failure + TempoPoint list" where
  "localTempoMap session mel =
     (let localWindows = toSlidingWindows mel kWindowFrames kLocalHopFrames True
      in if numWindows localWindows > 0 \<and> windowData localWindows \<noteq> [] then
           let localInput = normalizeByMax (windowData localWindows)
           in case runModel session localInput (numWindows localWindows) of
                Inl e \<Rightarrow> Inl e
              | Inr localPrediction \<Rightarrow>
                  let localTempi0 = predictionRowsToBpmSeries localPrediction (numWindows localWindows);
                      localTempi1 = movingAverageSame localTempi0 kLocalSmoothingWindow;
                      localTempi = map (\<lambda>b. clampDouble b kTempoMinBpm kTempoMaxBpm) localTempi1;
                      hopSeconds = of_int kLocalHopFrames * kFeatureFrameSeconds
                  in Inr (compressTempoPoints localTempi hopSeconds)
         else Inr [])"

definition estimate :: "ort_session \<Rightarrow> real list \<Rightarrow> TempoEstimateOptions \<Rightarrow> failure + TempoEstimateResult" where
  "estimate session monoSamples options =
     (if monoSamples = [] then Inl (RuntimeError ''Input audio is empty.'')
      else
        let mel = computeMelSpectrogram monoSamples
        in if totalFrames mel \<le> 0 \<or> data mel = [] then Inl (RuntimeError ''Failed to compute mel features.'')
           else
             let globalWindows = toSlidingWindows mel kWindowFrames kGlobalHopFrames False
             in if numWindows globalWindows \<le> 0 \<or> windowData globalWindows = []
                then Inl (RuntimeError ''Failed to build global tempo windows.'')
                else
                  let globalInput = normalizeByMax (windowData globalWindows)
                  in case runModel session globalInput (numWindows globalWindows) of
                       Inl e \<Rightarrow> Inl e
                     | Inr globalPrediction \<Rightarrow>
                         let averaged = averagePredictions globalPrediction (numWindows globalWindows);
                             coarseIndex = argmax averaged;
                             finalIndex = (if interpolate options
                                           then interpolateArgmax averaged coarseIndex
                                           else of_int coarseIndex);
                             result = \<lparr>resultBpm = classIndexToBpm finalIndex, tempoMap = []\<rparr>
                         in if localTempo options then
                              case localTempoMap session mel of
                                Inl e \<Rightarrow> Inl e
                              | Inr points \<Rightarrow> Inr (result\<lparr>tempoMap := points\<rparr>)
                            else Inr result)"

subsection \<open>Two runtimes for concrete runs\<close>

text \<open>A runtime that returns no tensor, and one that returns the all-zero posterior of
  the required shape \<open>[N, 256]\<close> for an input of shape \<open>[N, 40, 256, 1]\<close>.\<close>

definition noTensorSession :: ort_session where
  "noTensorSession inputData shape = OrtNoTensor"

definition zeroSession :: ort_session where
  "zeroSession inputData shape =
     OrtTensor [shape ! 0, kTempoClasses] (replicate (nat (shape ! 0 * kTempoClasses)) 0)"

section \<open>BasicPitchCNN.cpp: the frame-by-frame network driver\<close>

subsection \<open>Constants, sub-networks and state\<close>

text \<open>
  Modelled from the spec: \<^verbatim>\<open>BasicPitchConstants.h\<close> is not among the sources. The
  spec gives 8 harmonics, 264 input frequency bins and 88 output bins.
\<close>

definition NUM_HARMONICS :: nat where "NUM_HARMONICS = 8"
definition NUM_FREQ_IN :: nat where "NUM_FREQ_IN = 264"
definition NUM_FREQ_OUT :: nat where "NUM_FREQ_OUT = 88"

text \<open>
  \<^verbatim>\<open>BasicPitchCNN.h\<close> is not among the sources either. The depths of the three ring
  buffers and the total lookahead are constants of that header, which the spec tells to
  take from the companion models: they are parameters here. The depths are \<^verbatim>\<open>int\<close>s,
  as \<^verbatim>\<open>_wrapIndex\<close> takes them; the lookahead is a number of frames.
\<close>

record cnn_consts =
  mNumContourStored :: int
  mNumNoteStored :: int
  mNumConcat2Stored :: int
  mTotalLookahead :: nat

text \<open>
  The four sub-networks are objects of the inference library, outside the repository:
  a network is a state \<open>'n\<close> with the three operations the driver calls.
\<close>

record 'n net_ops =
  forward :: "'n \<Rightarrow> real list \<Rightarrow> 'n"
  getOutputs :: "'n \<Rightarrow> real list"
  resetNet :: "'n \<Rightarrow> 'n"

record 'n cnn_nets =
  netContour :: "'n net_ops"
  netNote :: "'n net_ops"
  netOnsetInput :: "'n net_ops"
  netOnsetOutput :: "'n net_ops"

record 'n BasicPitchCNN =
  mCNNContour :: 'n
  mCNNNote :: 'n
  mCNNOnsetInput :: 'n
  mCNNOnsetOutput :: 'n
  mContoursCircularBuffer :: "real list list"
  mNotesCircularBuffer :: "real list list"
  mConcat2CircularBuffer :: "real list list"
  mContourIdx :: int
  mNoteIdx :: int
  mConcat2Idx :: int
  mInputArray :: "real list"
  mConcatArray :: "real list"

subsection \<open>Operations\<close>

text \<open>\<^verbatim>\<open>reset\<close>: every array is filled with zeros; the sizes are those of the array
  types.\<close>

definition reset :: "'n cnn_nets \<Rightarrow> cnn_consts \<Rightarrow> 'n BasicPitchCNN \<Rightarrow> 'n BasicPitchCNN" where
  "reset nets consts cnn =
     cnn\<lparr> mContoursCircularBuffer :=
            replicate (nat (mNumContourStored consts)) (replicate NUM_FREQ_IN 0),
          mNotesCircularBuffer :=
            replicate (nat (mNumNoteStored consts)) (replicate NUM_FREQ_OUT 0),
          mConcat2CircularBuffer :=
            replicate (nat (mNumConcat2Stored consts)) (replicate (32 * NUM_FREQ_OUT) 0),
          mCNNContour := resetNet (netContour nets) (mCNNContour cnn),
          mCNNNote := resetNet (netNote nets) (mCNNNote cnn),
          mCNNOnsetInput := resetNet (netOnsetInput nets) (mCNNOnsetInput cnn),
          mCNNOnsetOutput := resetNet (netOnsetOutput nets) (mCNNOnsetOutput cnn),
          mNoteIdx := 0,
          mContourIdx := 0,
          mConcat2Idx := 0,
          mInputArray := replicate (NUM_HARMONICS * NUM_FREQ_IN) 0 \<rparr>"

text \<open>The private members \<^verbatim>\<open>_wrapIndex\<close>, \<^verbatim>\<open>_concat\<close> and \<^verbatim>\<open>_runModels\<close> are
  \<open>wrapIndex\<close>, \<open>concatStep\<close> and \<open>runModels\<close>. C++ \<^verbatim>\<open>%\<close> truncates: \<open>smod\<close>.\<close>

definition wrapIndex :: "int \<Rightarrow> int \<Rightarrow> int" where
  "wrapIndex inIndex inSize =
     (let wrappedIndex = inIndex smod inSize
      in if wrappedIndex < 0 then wrappedIndex + inSize else wrappedIndex)"

text \<open>The slot a read takes: one position ahead of the head.\<close>

definition slotAhead :: "real list list \<Rightarrow> int \<Rightarrow> int \<Rightarrow> real list" where
  "slotAhead buffer idx stored = buffer ! nat (wrapIndex (idx + 1) stored)"

definition concatStep :: "'n cnn_nets \<Rightarrow> cnn_consts \<Rightarrow> 'n BasicPitchCNN \<Rightarrow> 'n BasicPitchCNN" where
  "concatStep nets consts cnn =
     (let slot = slotAhead (mConcat2CircularBuffer cnn) (mConcat2Idx cnn) (mNumConcat2Stored consts);
          noteOut = getOutputs (netNote nets) (mCNNNote cnn)
      in cnn\<lparr> mConcatArray :=
           fold (\<lambda>i arr. std_copy slot (i * 32) ((i + 1) * 32)
                             (arr[i * 33 := noteOut ! i]) (i * 33 + 1))
                [0 ..< NUM_FREQ_OUT] (mConcatArray cnn) \<rparr>)"

definition runModels :: "'n cnn_nets \<Rightarrow> cnn_consts \<Rightarrow> 'n BasicPitchCNN \<Rightarrow> 'n BasicPitchCNN" where
  "runModels nets consts cnn0 =
     (let onsetIn = forward (netOnsetInput nets) (mCNNOnsetInput cnn0) (mInputArray cnn0);
          cnn1 = cnn0\<lparr> mCNNOnsetInput := onsetIn,
                        mConcat2CircularBuffer :=
                          (mConcat2CircularBuffer cnn0)
                            [nat (mConcat2Idx cnn0) :=
                               std_copy (getOutputs (netOnsetInput nets) onsetIn) 0 (32 * NUM_FREQ_OUT)
                                 (mConcat2CircularBuffer cnn0 ! nat (mConcat2Idx cnn0)) 0] \<rparr>;
          contour = forward (netContour nets) (mCNNContour cnn1) (mInputArray cnn1);
          cnn2 = cnn1\<lparr> mCNNContour := contour,
                        mContoursCircularBuffer :=
                          (mContoursCircularBuffer cnn1)
                            [nat (mContourIdx cnn1) :=
                               std_copy (getOutputs (netContour nets) contour) 0 NUM_FREQ_IN
                                 (mContoursCircularBuffer cnn1 ! nat (mContourIdx cnn1)) 0] \<rparr>;
          note = forward (netNote nets) (mCNNNote cnn2) (getOutputs (netContour nets) contour);
          cnn3 = cnn2\<lparr> mCNNNote := note,
                        mNotesCircularBuffer :=
                          (mNotesCircularBuffer cnn2)
                            [nat (mNoteIdx cnn2) :=
                               std_copy (getOutputs (netNote nets) note) 0 NUM_FREQ_OUT
                                 (mNotesCircularBuffer cnn2 ! nat (mNoteIdx cnn2)) 0] \<rparr>;
          cnn4 = concatStep nets consts cnn3
      in cnn4\<lparr> mCNNOnsetOutput :=
                  forward (netOnsetOutput nets) (mCNNOnsetOutput cnn4) (mConcatArray cnn4) \<rparr>)"

text \<open>
  \<^verbatim>\<open>frameInference\<close>. \<open>inData\<close> is the memory from the pointer on; the three output
  rows are passed by reference in the source and returned here. The result is the new
  state with the rows \<open>(outContours, outNotes, outOnsets)\<close>.
\<close>

definition frameInference ::
  "'n cnn_nets \<Rightarrow> cnn_consts \<Rightarrow> 'n BasicPitchCNN \<Rightarrow> real list \<Rightarrow> real list \<Rightarrow> real list \<Rightarrow> real list \<Rightarrow>
     failure + ('n BasicPitchCNN \<times> real list \<times> real list \<times> real list)" where
  "frameInference nets consts cnn inData outContours outNotes outOnsets =
     (if \<not> (length outContours = NUM_FREQ_IN \<and> length outNotes = NUM_FREQ_OUT \<and>
              length outOnsets = NUM_FREQ_OUT)
      then Inl (RuntimeError ''Invalid output buffer size in frameInference'')
      else
        let cnn1 = cnn\<lparr> mInputArray :=
                     std_copy inData 0 (NUM_HARMONICS * NUM_FREQ_IN) (mInputArray cnn) 0 \<rparr>;
            cnn2 = runModels nets consts cnn1;
            outOnsets' = std_copy (getOutputs (netOnsetOutput nets) (mCNNOnsetOutput cnn2))
                           0 NUM_FREQ_OUT outOnsets 0;
            noteSlot = slotAhead (mNotesCircularBuffer cnn2) (mNoteIdx cnn2) (mNumNoteStored consts);
            outNotes' = std_copy noteSlot 0 (length noteSlot) outNotes 0;
            contourSlot = slotAhead (mContoursCircularBuffer cnn2) (mContourIdx cnn2)
                            (mNumContourStored consts);
            outContours' = std_copy contourSlot 0 (length contourSlot) outContours 0;
            cnn3 = cnn2\<lparr> mContourIdx := (if mContourIdx cnn2 = mNumContourStored consts - 1
                                            then 0 else mContourIdx cnn2 + 1),
                          mNoteIdx := (if mNoteIdx cnn2 = mNumNoteStored consts - 1
                                       then 0 else mNoteIdx cnn2 + 1),
                          mConcat2Idx := (if mConcat2Idx cnn2 = mNumConcat2Stored consts - 1
                                          then 0 else mConcat2Idx cnn2 + 1) \<rparr>
        in Inr (cnn3, outContours', outNotes', outOnsets'))"

subsection \<open>Runs of the driver\<close>

text \<open>
  The state after a frame, whatever the output rows are, and the state after the first
  \<open>k\<close> frames of a sequence of inputs.
\<close>

definition frameStep :: "'n cnn_nets \<Rightarrow> cnn_consts \<Rightarrow> real list \<Rightarrow> 'n BasicPitchCNN \<Rightarrow> 'n BasicPitchCNN" where
  "frameStep nets consts inData cnn =
     (case frameInference nets consts cnn inData
             (replicate NUM_FREQ_IN 0) (replicate NUM_FREQ_OUT 0) (replicate NUM_FREQ_OUT 0) of
        Inl e \<Rightarrow> cnn
      | Inr (cnn', rows) \<Rightarrow> cnn')"

definition stateAfter ::
  "'n cnn_nets \<Rightarrow> cnn_consts \<Rightarrow> 'n BasicPitchCNN \<Rightarrow> real list list \<Rightarrow> nat \<Rightarrow> 'n BasicPitchCNN" where
  "stateAfter nets consts cnn inputs k = fold (frameStep nets consts) (take k inputs) cnn"


text \<open>
  A driver for examples: every sub-network keeps its last input as its state and
  returns it as its output; the depths are 3, 2 and 1.
\<close>

definition echoNet :: "(real list) net_ops" where
  "echoNet = \<lparr> forward = (\<lambda>n x. x), getOutputs = (\<lambda>n. n), resetNet = (\<lambda>n. []) \<rparr>"

definition echoNets :: "(real list) cnn_nets" where
  "echoNets = \<lparr> netContour = echoNet, netNote = echoNet, netOnsetInput = echoNet,
                netOnsetOutput = echoNet \<rparr>"

definition smallDepths :: cnn_consts where
  "smallDepths = \<lparr> mNumContourStored = 3, mNumNoteStored = 2, mNumConcat2Stored = 1,
                   mTotalLookahead = 2 \<rparr>"

definition blankCNN :: "(real list) BasicPitchCNN" where
  "blankCNN = \<lparr> mCNNContour = [], mCNNNote = [], mCNNOnsetInput = [], mCNNOnsetOutput = [],
                mContoursCircularBuffer = [], mNotesCircularBuffer = [], mConcat2CircularBuffer = [],
                mContourIdx = 0, mNoteIdx = 0, mConcat2Idx = 0, mInputArray = [], mConcatArray = [] \<rparr>"

definition constFrame :: "real \<Rightarrow> real list" where
  "constFrame c = replicate (NUM_HARMONICS * NUM_FREQ_IN) c"

section \<open>TranscriptionIO.cpp: conversion to core events\<close>

text \<open>
  Modelled from the spec: \<^verbatim>\<open>Notes::Event\<close> is declared in \<^verbatim>\<open>Notes.h\<close>, which is not
  among the sources. The spec gives it as
  \<^verbatim>\<open>{startTime, endTime, pitchMidi:int, amplitude, optional pitchBends:[int]}\<close>;
  \<^verbatim>\<open>toCoreEvents\<close> reads the fields \<^verbatim>\<open>startTime\<close>, \<^verbatim>\<open>endTime\<close>, \<^verbatim>\<open>pitch\<close> and
  \<^verbatim>\<open>amplitude\<close>.
\<close>

record NotesEvent =
  startTime :: real
  endTime :: real
  pitch :: int
  amplitude :: real
  bends :: "int list"

text \<open>\<^verbatim>\<open>struct CoreNoteEvent\<close> of \<^verbatim>\<open>TranscriptionIO.h\<close>; its field \<^verbatim>\<open>amplitude\<close> is
  named \<open>coreAmplitude\<close> here, since record fields share one name space.\<close>

record CoreNoteEvent =
  startTimeSeconds :: real
  durationSeconds :: real
  pitchMidi :: int
  coreAmplitude :: real

definition convertEvent :: "NotesEvent \<Rightarrow> CoreNoteEvent" where
  "convertEvent event =
     \<lparr> startTimeSeconds = startTime event,
       durationSeconds = max 0 (endTime event - startTime event),
       pitchMidi = pitch event,
       coreAmplitude = amplitude event \<rparr>"

text \<open>The range-for loop with \<^verbatim>\<open>out.push_back(converted)\<close>.\<close>

fun toCoreEvents_loop :: "NotesEvent list \<Rightarrow> CoreNoteEvent list \<Rightarrow> CoreNoteEvent list" where
  "toCoreEvents_loop [] out = out"
| "toCoreEvents_loop (event # events) out = toCoreEvents_loop events (out @ [convertEvent event])"

definition toCoreEvents :: "NotesEvent list \<Rightarrow> CoreNoteEvent list" where
  "toCoreEvents events = toCoreEvents_loop events []"

section \<open>Utils.h: the diagnostic channel\<close>

subsection \<open>The process and its platform\<close>

text \<open>
  What a run can observe and change: the lines written to the standard output and to the
  standard error (a line is what one statement sends up to \<^verbatim>\<open>std::endl\<close>), the files,
  the number of readings of the steady clock so far, and the function-local static
  \<^verbatim>\<open>kStartedAt\<close> of \<^verbatim>\<open>processStartMs\<close>, which is unset until the first call.
\<close>

record world =
  stdout :: "string list"
  stderr :: "string list"
  files :: "string \<rightharpoonup> string"
  ticks :: nat
  kStartedAt :: "64 word option"

text \<open>
  What the code takes from outside the repository: the steady clock (its reading in
  milliseconds at each call, a 64-bit unsigned value), the value of the environment
  variable \<^verbatim>\<open>GH_NEURALNOTE_CPP_DIAG\<close>, the stream formats of a \<^verbatim>\<open>double\<close> (default and
  \<^verbatim>\<open>std::fixed\<close> with precision 9), \<^verbatim>\<open>std::stod\<close> and \<^verbatim>\<open>std::stoi\<close> (no value when
  they throw; \<^verbatim>\<open>std::stod\<close> may return a value that is not finite), the decoding of four
  bytes as a little-endian float, whether a stream on a path can be opened for writing
  and stays good, the ONNX runtime (creating the feature session of a model file, and the
  session itself), the JSON parser (a parsed document is kept as its text), the network
  that \<^verbatim>\<open>parseJson\<close> builds from a document and the operations of the four networks of
  the inference library, with the constants of \<^verbatim>\<open>BasicPitchCNN.h\<close>, the quotient \<^verbatim>\<open>FFT_HOP / BASIC_PITCH_SAMPLE_RATE\<close> of
  \<^verbatim>\<open>BasicPitchConstants.h\<close>, \<^verbatim>\<open>Notes::convert\<close> and the member initialisers of
  \<^verbatim>\<open>Notes::ConvertParams\<close> of \<^verbatim>\<open>Notes.h\<close>. None of these files is among the sources.
\<close>

datatype stod_result = StodThrows | StodNotFinite | StodValue real

datatype features_output = FeaturesThrows string | FeaturesTensor "int list" "real list"

type_synonym features_session = "real list \<Rightarrow> int list \<Rightarrow> features_output"

datatype PitchBendModes = MultiPitchBend

text \<open>
  Modelled from the spec: \<^verbatim>\<open>Notes::ConvertParams\<close> is declared in \<^verbatim>\<open>Notes.h\<close>, which is
  not among the sources. Its fields are those \<^verbatim>\<open>BasicPitch::setParameters\<close> assigns; the
  spec names the two thresholds, the minimum note length, the pitch range, the melodia
  trick and the energy tolerance.
\<close>

record ConvertParams =
  frameThreshold :: real
  onsetThreshold :: real
  minNoteLength :: int
  pitchBend :: PitchBendModes
  melodiaTrick :: bool
  inferOnsets :: bool
  minFrequency :: real
  maxFrequency :: real
  energyThreshold :: int

record 'n platform =
  steadyClock :: "nat \<Rightarrow> 64 word"
  diagEnv :: "string option"
  showDouble :: "real \<Rightarrow> string"
  showFixed9 :: "real \<Rightarrow> string"
  stod :: "string \<Rightarrow> stod_result"
  stoi :: "string \<Rightarrow> int option"
  floatOfBytes :: "string \<Rightarrow> real"
  readGood :: "string \<Rightarrow> bool"
  writeOpens :: "string \<Rightarrow> bool"
  writeGood :: "string \<Rightarrow> bool"
  createSession :: "(string \<rightharpoonup> string) \<Rightarrow> string \<Rightarrow> failure + features_session"
  jsonParse :: "string \<Rightarrow> failure + string"
  parseJson :: "string \<Rightarrow> 'n"
  cnnNets :: "'n cnn_nets"
  cnnConsts :: cnn_consts
  fftHopSeconds :: real
  notesConvert :: "real list list \<Rightarrow> real list list \<Rightarrow> real list list \<Rightarrow> ConvertParams \<Rightarrow> bool
                     \<Rightarrow> NotesEvent list"
  initialParams :: ConvertParams

subsection \<open>Statements that may throw\<close>

text \<open>
  A statement runs in a world and ends with a value or with a failure: a C++ exception
  (\<open>RuntimeError\<close>, \<open>OrtException\<close>), or \<open>OutOfBounds\<close> for an access outside a vector
  or a tensor, which is undefined behaviour in the source. What was written before a
  failure stays written.
\<close>

type_synonym 'a prog = "world \<Rightarrow> (failure + 'a) \<times> world"

definition returnP :: "'a \<Rightarrow> 'a prog" where
  "returnP x = (\<lambda>w. (Inr x, w))"

definition throwP :: "failure \<Rightarrow> 'a prog" where
  "throwP e = (\<lambda>w. (Inl e, w))"

definition bindP :: "'a prog \<Rightarrow> ('a \<Rightarrow> 'b prog) \<Rightarrow> 'b prog" where
  "bindP m f = (\<lambda>w. case m w of (Inl e, w') \<Rightarrow> (Inl e, w') | (Inr x, w') \<Rightarrow> f x w')"

definition thenP :: "'a prog \<Rightarrow> 'b prog \<Rightarrow> 'b prog" where
  "thenP m k = bindP m (\<lambda>x. k)"

definition doP :: "(world \<Rightarrow> world) \<Rightarrow> unit prog" where
  "doP g = (\<lambda>w. (Inr (), g w))"

definition liftP :: "failure + 'a \<Rightarrow> 'a prog" where
  "liftP r = (\<lambda>w. (r, w))"

text \<open>A \<^verbatim>\<open>for\<close> loop over the given indices, the loop body updating the object.\<close>

primrec forP :: "nat list \<Rightarrow> (nat \<Rightarrow> 's \<Rightarrow> 's prog) \<Rightarrow> 's \<Rightarrow> 's prog" where
  "forP [] body s = returnP s"
| "forP (i # indices) body s = bindP (body i s) (forP indices body)"

subsection \<open>Decimal output and lower case\<close>

text \<open>\<^verbatim>\<open>operator<<\<close> and \<^verbatim>\<open>std::to_string\<close> on integers; \<^verbatim>\<open>std::tolower\<close> in the C locale.\<close>

fun showNat :: "nat \<Rightarrow> string" where
  "showNat n = (if n < 10 then [''0123456789'' ! n]
                else showNat (n div 10) @ [''0123456789'' ! (n mod 10)])"

declare showNat.simps [simp del]

definition showInt :: "int \<Rightarrow> string" where
  "showInt i = (if i < 0 then CHR ''-'' # showNat (nat (- i)) else showNat (nat i))"

definition tolowerChar :: "char \<Rightarrow> char" where
  "tolowerChar c =
     (case map_of (zip ''ABCDEFGHIJKLMNOPQRSTUVWXYZ'' ''abcdefghijklmnopqrstuvwxyz'') c of
        None \<Rightarrow> c
      | Some l \<Rightarrow> l)"

subsection \<open>namespace NeuralNoteDiag\<close>

definition envFlagEnabled :: "string option \<Rightarrow> bool" where
  "envFlagEnabled v =
     (case v of
        None \<Rightarrow> False
      | Some text \<Rightarrow>
          let normalized = map tolowerChar text
          in normalized = ''1'' \<or> normalized = ''true'' \<or> normalized = ''yes'' \<or> normalized = ''on'')"

text \<open>\<^verbatim>\<open>enabled\<close>: the static \<^verbatim>\<open>kEnabled\<close> is computed from the environment at the first
  call; the environment does not change during a run.\<close>

definition enabled :: "'n platform \<Rightarrow> bool" where
  "enabled plat = envFlagEnabled (diagEnv plat)"

definition monotonicMs :: "'n platform \<Rightarrow> world \<Rightarrow> 64 word \<times> world" where
  "monotonicMs plat w = (steadyClock plat (ticks w), w\<lparr> ticks := ticks w + 1 \<rparr>)"

definition processStartMs :: "'n platform \<Rightarrow> world \<Rightarrow> 64 word \<times> world" where
  "processStartMs plat w =
     (case kStartedAt w of
        Some startedAt \<Rightarrow> (startedAt, w)
      | None \<Rightarrow> (let (now, w') = monotonicMs plat w in (now, w'\<lparr> kStartedAt := Some now \<rparr>)))"

definition escapeJsonChar :: "char \<Rightarrow> string" where
  "escapeJsonChar c =
     (if c = CHR 0x5C then [CHR 0x5C, CHR 0x5C]
      else if c = CHR 0x22 then [CHR 0x5C, CHR 0x22]
      else if c = CHR 0x0A then [CHR 0x5C, CHR ''n'']
      else if c = CHR 0x0D then [CHR 0x5C, CHR ''r'']
      else if c = CHR 0x09 then [CHR 0x5C, CHR ''t'']
      else if (of_char c :: nat) < 0x20 then []
      else [c])"

definition escapeJsonString :: "string \<Rightarrow> string" where
  "escapeJsonString v = concat (map escapeJsonChar v)"

text \<open>
  \<^verbatim>\<open>emit\<close>. The default arguments are written out by the callers: \<open>''''\<close> for the detail
  and \<open>-1\<close> for the progress. In \<^verbatim>\<open>monotonicMs() - processStartMs()\<close> the start is taken
  first here (C++ leaves the order of the operands open); the difference wraps at 64 bits.
\<close>

definition emit :: "'n platform \<Rightarrow> string \<Rightarrow> string \<Rightarrow> string \<Rightarrow> real \<Rightarrow> world \<Rightarrow> world" where
  \<open>emit plat component event detail progress w =
     (if \<not> enabled plat then w
      else
        let (startedAt, w1) = processStartMs plat w;
            (now, w2) = monotonicMs plat w1;
            elapsedMs = now - startedAt;
            line = ''{"type":"diag"''
                   @ '',"component":"'' @ escapeJsonString component @ ''"''
                   @ '',"event":"'' @ escapeJsonString event @ ''"''
                   @ '',"elapsedMs":'' @ showNat (unat elapsedMs)
                   @ (if detail \<noteq> [] then '',"detail":"'' @ escapeJsonString detail @ ''"'' else [])
                   @ (if progress \<ge> 0 then '',"progress":'' @ showDouble plat progress else [])
                   @ ''}''
        in w2\<lparr> stdout := stdout w2 @ [line] \<rparr>)\<close>

text \<open>The clock as a statement, for the callers that read it themselves.\<close>

definition clockP :: "'n platform \<Rightarrow> (64 word) prog" where
  "clockP plat = (\<lambda>w. let (now, w') = monotonicMs plat w in (Inr now, w'))"

definition emitP :: "'n platform \<Rightarrow> string \<Rightarrow> string \<Rightarrow> string \<Rightarrow> real \<Rightarrow> unit prog" where
  "emitP plat component event detail progress = doP (emit plat component event detail progress)"

definition cerrP :: "string \<Rightarrow> unit prog" where
  "cerrP line = doP (\<lambda>w. w\<lparr> stderr := stderr w @ [line] \<rparr>)"

section \<open>NNFeatures.cpp, BasicPitch.cpp and NeuralNoteTranscriber.cpp: the note pipeline\<close>

subsection \<open>Features::computeFeatures\<close>

text \<open>
  The result is the data of the output tensor with the number of frames (the reference
  parameter \<^verbatim>\<open>outNumFrames\<close>). The runtime answers with an exception or with a tensor.
\<close>

definition computeFeatures ::
  "'n platform \<Rightarrow> features_session \<Rightarrow> real list \<Rightarrow> nat \<Rightarrow> (real list \<times> nat) prog" where
  "computeFeatures plat session inAudio inNumSamples =
     thenP (emitP plat ''features'' ''compute_start'' (''samples='' @ showNat inNumSamples) 0.48)
    (thenP (emitP plat ''features'' ''session_run_start'' [] 0.5)
    (case session (take inNumSamples inAudio) [1, int inNumSamples, 1] of
       FeaturesThrows msg \<Rightarrow> throwP (OrtException msg)
     | FeaturesTensor outShape outData \<Rightarrow>
         thenP (emitP plat ''features'' ''session_run_done'' [] 0.62)
        (if \<not> (length outShape = 4 \<and> outShape ! 0 = 1 \<and> outShape ! 2 = int NUM_FREQ_IN \<and>
                 outShape ! 3 = int NUM_HARMONICS)
         then throwP (RuntimeError ''Unexpected ONNX features output shape'')
         else
           let outNumFrames = nat (outShape ! 1)
           in thenP (emitP plat ''features'' ''shape_validated''
                       (''frames='' @ showNat outNumFrames) 0.64)
                    (returnP (outData, outNumFrames)))))"

subsection \<open>class BasicPitch\<close>

text \<open>The members of \<^verbatim>\<open>BasicPitch.h\<close>; \<^verbatim>\<open>mNotesCreator\<close> is the platform's
  \<open>notesConvert\<close>.\<close>

record 'n BasicPitch =
  mContoursPG :: "real list list"
  mNotesPG :: "real list list"
  mOnsetsPG :: "real list list"
  mNoteEvents :: "NotesEvent list"
  mParams :: ConvertParams
  mNumFrames :: nat
  mFeaturesCalculator :: features_session
  mBasicPitchCNN :: "'n BasicPitchCNN"

definition computeHeartbeatEvery :: "nat \<Rightarrow> nat" where
  "computeHeartbeatEvery frameCount =
     (if frameCount \<le> 120 then 8
      else if frameCount \<le> 600 then 20
      else max 30 (frameCount div 24))"

definition emitFrameHeartbeat ::
  "'n platform \<Rightarrow> string \<Rightarrow> nat \<Rightarrow> nat \<Rightarrow> real \<Rightarrow> real \<Rightarrow> world \<Rightarrow> world" where
  "emitFrameHeartbeat plat event frameIdx frameCount progressStart progressSpan w =
     (if \<not> enabled plat then w
      else
        let ratio = (if frameCount = 0 then 1 else real frameIdx / real frameCount);
            progress = min 0.88 (progressStart + progressSpan * max 0 (min 1 ratio));
            detail = ''frame='' @ showNat frameIdx @ ''/'' @ showNat frameCount
        in emit plat ''basic_pitch'' event detail progress w)"

text \<open>\<^verbatim>\<open>if (beat) emitFrameHeartbeat(...)\<close> as a statement.\<close>

definition heartbeatP ::
  "'n platform \<Rightarrow> bool \<Rightarrow> string \<Rightarrow> nat \<Rightarrow> nat \<Rightarrow> real \<Rightarrow> real \<Rightarrow> unit prog" where
  "heartbeatP plat beat event frameIdx frameCount progressStart progressSpan =
     (if beat then doP (emitFrameHeartbeat plat event frameIdx frameCount progressStart progressSpan)
      else returnP ())"

definition BasicPitch_reset :: "'n platform \<Rightarrow> 'n BasicPitch \<Rightarrow> 'n BasicPitch" where
  "BasicPitch_reset plat bp =
     bp\<lparr> mBasicPitchCNN := reset (cnnNets plat) (cnnConsts plat) (mBasicPitchCNN bp),
         mContoursPG := [], mNotesPG := [], mOnsetsPG := [], mNoteEvents := [],
         mNumFrames := 0 \<rparr>"

text \<open>\<^verbatim>\<open>static_cast<int>\<close> of a \<^verbatim>\<open>float\<close> drops the fraction.\<close>

definition truncToInt :: "real \<Rightarrow> int" where
  "truncToInt x = (if 0 \<le> x then \<lfloor>x\<rfloor> else \<lceil>x\<rceil>)"

definition setParameters ::
  "'n platform \<Rightarrow> real \<Rightarrow> real \<Rightarrow> real \<Rightarrow> bool \<Rightarrow> real \<Rightarrow> real \<Rightarrow> int \<Rightarrow> 'n BasicPitch \<Rightarrow> 'n BasicPitch" where
  "setParameters plat inNoteSensitivity inSplitSensitivity inMinNoteDurationMs inMelodiaTrick
       inMinPitchHz inMaxPitchHz inEnergyTolerance bp =
     bp\<lparr> mParams := (mParams bp)
          \<lparr> frameThreshold := 1 - inNoteSensitivity,
            onsetThreshold := 1 - inSplitSensitivity,
            minNoteLength := truncToInt (std_round (inMinNoteDurationMs / 1000 / fftHopSeconds plat)),
            pitchBend := MultiPitchBend,
            melodiaTrick := inMelodiaTrick,
            inferOnsets := True,
            minFrequency := (if inMinPitchHz > 0 then inMinPitchHz else - 1),
            maxFrequency := (if inMaxPitchHz > 0 then inMaxPitchHz else - 1),
            energyThreshold := max 1 inEnergyTolerance \<rparr> \<rparr>"

subsection \<open>BasicPitch::transcribeToMIDI\<close>

text \<open>
  \<^verbatim>\<open>vector::resize(n, row)\<close>; \<^verbatim>\<open>size_t\<close> subtraction, which wraps at 64 bits; the
  2112 values of the feature tensor from frame \<open>frameIdx\<close> on (reading past the end of the
  tensor is out of bounds); and one call of \<^verbatim>\<open>frameInference\<close> with the rows \<open>row\<close> of the
  three posteriorgrams as its outputs (indexing a vector past its size is out of bounds).
\<close>

definition resizeRows :: "real list list \<Rightarrow> nat \<Rightarrow> real list \<Rightarrow> real list list" where
  "resizeRows rows n row = take n rows @ replicate (n - length rows) row"

definition size_sub :: "nat \<Rightarrow> nat \<Rightarrow> nat" where
  "size_sub a b = (a + 2 ^ 64 - b) mod 2 ^ 64"

definition cqtFrame :: "real list \<Rightarrow> nat \<Rightarrow> failure + real list" where
  "cqtFrame stackedCqt frameIdx =
     (if (frameIdx + 1) * (NUM_HARMONICS * NUM_FREQ_IN) \<le> length stackedCqt
      then Inr (drop (frameIdx * (NUM_HARMONICS * NUM_FREQ_IN)) stackedCqt)
      else Inl OutOfBounds)"

definition inferInto :: "'n platform \<Rightarrow> real list \<Rightarrow> nat \<Rightarrow> 'n BasicPitch \<Rightarrow> failure + 'n BasicPitch" where
  "inferInto plat inData row bp =
     (if \<not> (row < length (mContoursPG bp) \<and> row < length (mNotesPG bp) \<and> row < length (mOnsetsPG bp))
      then Inl OutOfBounds
      else
        case frameInference (cnnNets plat) (cnnConsts plat) (mBasicPitchCNN bp) inData
               (mContoursPG bp ! row) (mNotesPG bp ! row) (mOnsetsPG bp ! row) of
          Inl e \<Rightarrow> Inl e
        | Inr (cnn, outContours, outNotes, outOnsets) \<Rightarrow>
            Inr (bp\<lparr> mBasicPitchCNN := cnn,
                     mContoursPG := (mContoursPG bp)[row := outContours],
                     mNotesPG := (mNotesPG bp)[row := outNotes],
                     mOnsetsPG := (mOnsetsPG bp)[row := outOnsets] \<rparr>))"

text \<open>From the start to \<^verbatim>\<open>inference_setup\<close>: the features, the posteriorgrams resized to
  \<open>mNumFrames\<close> rows, the network driver reset. The result is the feature tensor.\<close>

definition prepare ::
  "'n platform \<Rightarrow> real list \<Rightarrow> int \<Rightarrow> 'n BasicPitch \<Rightarrow> (64 word \<times> real list \<times> 'n BasicPitch) prog" where
  "prepare plat inAudio inNumSamples bp =
     thenP (emitP plat ''basic_pitch'' ''transcribe_start'' (''samples='' @ showInt inNumSamples) 0.46)
    (bindP (clockP plat) (\<lambda>transcribeStartMs.
     thenP (emitP plat ''basic_pitch'' ''features_start'' [] 0.48)
    (bindP (computeFeatures plat (mFeaturesCalculator bp) inAudio (nat inNumSamples))
       (\<lambda>(stackedCqt, numFrames).
     bindP (clockP plat) (\<lambda>now.
     thenP (emitP plat ''basic_pitch'' ''features_done''
              (''frames='' @ showNat numFrames @ '' featuresMs='' @ showNat (unat (now - transcribeStartMs)))
              0.64)
    (thenP (emitP plat ''basic_pitch'' ''buffers_resize_start'' [] 0.66)
    (thenP (emitP plat ''basic_pitch'' ''buffers_resize_done'' [] 0.68)
    (thenP (emitP plat ''basic_pitch'' ''cnn_reset_done'' [] 0.69)
    (thenP (emitP plat ''basic_pitch'' ''inference_setup''
              (''lookaheadFrames='' @ showNat (mTotalLookahead (cnnConsts plat))
               @ '' heartbeatEvery='' @ showNat (computeHeartbeatEvery numFrames)) 0.7)
    (returnP (transcribeStartMs, stackedCqt,
        bp\<lparr> mNumFrames := numFrames,
            mOnsetsPG := resizeRows (mOnsetsPG bp) numFrames (replicate NUM_FREQ_OUT 0),
            mNotesPG := resizeRows (mNotesPG bp) numFrames (replicate NUM_FREQ_OUT 0),
            mContoursPG := resizeRows (mContoursPG bp) numFrames (replicate NUM_FREQ_IN 0),
            mBasicPitchCNN := reset (cnnNets plat) (cnnConsts plat) (mBasicPitchCNN bp) \<rparr>)))))))))))"

text \<open>The four loops. \<open>numLhFrames\<close> is \<^verbatim>\<open>BasicPitchCNN::getNumFramesLookahead()\<close>.\<close>

definition warmupZero :: "'n platform \<Rightarrow> real list \<Rightarrow> 'n BasicPitch \<Rightarrow> 'n BasicPitch prog" where
  "warmupZero plat zeroStackedCqt =
     (let numLhFrames = mTotalLookahead (cnnConsts plat)
      in forP [0 ..< numLhFrames] (\<lambda>i bp.
           thenP (heartbeatP plat (i = 0 \<or> i + 1 = numLhFrames) ''warmup_zero_pre'' (i + 1) numLhFrames 0.705 0.01)
          (bindP (liftP (inferInto plat zeroStackedCqt 0 bp)) (\<lambda>bp'.
           thenP (heartbeatP plat (i = 0 \<or> i + 1 = numLhFrames) ''warmup_zero_post'' (i + 1) numLhFrames 0.705 0.01)
          (returnP bp')))))"

definition warmupCqt :: "'n platform \<Rightarrow> real list \<Rightarrow> 'n BasicPitch \<Rightarrow> 'n BasicPitch prog" where
  "warmupCqt plat stackedCqt =
     (let numLhFrames = mTotalLookahead (cnnConsts plat)
      in forP [0 ..< numLhFrames] (\<lambda>frameIdx bp.
           thenP (heartbeatP plat (frameIdx = 0 \<or> frameIdx + 1 = numLhFrames) ''warmup_cqt_pre''
                    (frameIdx + 1) numLhFrames 0.72 0.01)
          (bindP (liftP (cqtFrame stackedCqt frameIdx)) (\<lambda>inData.
           bindP (liftP (inferInto plat inData 0 bp)) (\<lambda>bp'.
           thenP (heartbeatP plat (frameIdx = 0 \<or> frameIdx + 1 = numLhFrames) ''warmup_cqt_post''
                    (frameIdx + 1) numLhFrames 0.72 0.01)
          (returnP bp'))))))"

definition streamInference :: "'n platform \<Rightarrow> real list \<Rightarrow> 'n BasicPitch \<Rightarrow> 'n BasicPitch prog" where
  "streamInference plat stackedCqt bp0 =
     (let numLhFrames = mTotalLookahead (cnnConsts plat);
          heartbeatEvery = computeHeartbeatEvery (mNumFrames bp0)
      in forP [numLhFrames ..< mNumFrames bp0] (\<lambda>frameIdx bp.
           let processed = frameIdx - numLhFrames + 1;
               total = (if mNumFrames bp0 > numLhFrames then mNumFrames bp0 - numLhFrames else 0);
               emitHeartbeat = (processed = 1 \<or> processed = total \<or>
                                (heartbeatEvery > 0 \<and> processed mod heartbeatEvery = 0))
           in thenP (heartbeatP plat emitHeartbeat ''stream_inference_pre'' processed total 0.735 0.11)
             (bindP (liftP (cqtFrame stackedCqt frameIdx)) (\<lambda>inData.
              bindP (liftP (inferInto plat inData (frameIdx - numLhFrames) bp)) (\<lambda>bp'.
              thenP (heartbeatP plat emitHeartbeat ''stream_inference_post'' processed total 0.735 0.11)
             (returnP bp'))))) bp0)"

definition tailFlush :: "'n platform \<Rightarrow> real list \<Rightarrow> 'n BasicPitch \<Rightarrow> 'n BasicPitch prog" where
  "tailFlush plat zeroStackedCqt bp0 =
     (let numLhFrames = mTotalLookahead (cnnConsts plat)
      in forP [mNumFrames bp0 ..< mNumFrames bp0 + numLhFrames] (\<lambda>frameIdx bp.
           let processed = frameIdx - mNumFrames bp0 + 1
           in thenP (heartbeatP plat (processed = 1 \<or> processed = numLhFrames) ''tail_flush_pre''
                       processed numLhFrames 0.85 0.01)
             (bindP (liftP (inferInto plat zeroStackedCqt (size_sub frameIdx numLhFrames) bp)) (\<lambda>bp'.
              thenP (heartbeatP plat (processed = 1 \<or> processed = numLhFrames) ''tail_flush_post''
                       processed numLhFrames 0.85 0.01)
             (returnP bp')))) bp0)"

definition transcribeToMIDI :: "'n platform \<Rightarrow> real list \<Rightarrow> int \<Rightarrow> 'n BasicPitch \<Rightarrow> 'n BasicPitch prog" where
  "transcribeToMIDI plat inAudio inNumSamples bp =
     bindP (prepare plat inAudio inNumSamples bp) (\<lambda>(transcribeStartMs, stackedCqt, bp1).
     let zeroStackedCqt = replicate (NUM_HARMONICS * NUM_FREQ_IN) 0
     in thenP (emitP plat ''basic_pitch'' ''warmup_zero_start'' [] 0.705)
       (bindP (warmupZero plat zeroStackedCqt bp1) (\<lambda>bp2.
        thenP (emitP plat ''basic_pitch'' ''warmup_zero_done'' [] 0.715)
       (thenP (emitP plat ''basic_pitch'' ''warmup_cqt_start'' [] 0.72)
       (bindP (warmupCqt plat stackedCqt bp2) (\<lambda>bp3.
        thenP (emitP plat ''basic_pitch'' ''warmup_cqt_done'' [] 0.73)
       (thenP (emitP plat ''basic_pitch'' ''stream_inference_start'' [] 0.735)
       (bindP (streamInference plat stackedCqt bp3) (\<lambda>bp4.
        thenP (emitP plat ''basic_pitch'' ''stream_inference_done'' [] 0.845)
       (thenP (emitP plat ''basic_pitch'' ''tail_flush_start'' [] 0.85)
       (bindP (tailFlush plat zeroStackedCqt bp4) (\<lambda>bp5.
        thenP (emitP plat ''basic_pitch'' ''tail_flush_done'' [] 0.86)
       (thenP (emitP plat ''basic_pitch'' ''notes_convert_start'' [] 0.87)
       (let events = notesConvert plat (mNotesPG bp5) (mOnsetsPG bp5) (mContoursPG bp5) (mParams bp5) True
        in bindP (clockP plat) (\<lambda>now.
           thenP (emitP plat ''basic_pitch'' ''notes_convert_done''
                    (''events='' @ showNat (length events) @ '' totalMs=''
                     @ showNat (unat (now - transcribeStartMs))) 0.9)
          (returnP (bp5\<lparr> mNoteEvents := events \<rparr>)))))))))))))))))"

subsection \<open>The constructors\<close>

text \<open>
  \<^verbatim>\<open>readJsonFile\<close> and the constructor of \<^verbatim>\<open>BasicPitchCNN\<close>: the four model files are
  read and parsed in turn, then each network is built by \<^verbatim>\<open>parseJson\<close>. Modelled from the
  spec: the member initialisers of \<^verbatim>\<open>BasicPitchCNN.h\<close> are not among the sources; the arrays
  start as \<^verbatim>\<open>reset\<close> leaves them and the heads at 0, the state in which the spec lets every
  run begin.
\<close>

definition readJsonFile :: "'n platform \<Rightarrow> (string \<rightharpoonup> string) \<Rightarrow> string \<Rightarrow> failure + string" where
  "readJsonFile plat fs filePath =
     (case fs filePath of
        None \<Rightarrow> Inl (RuntimeError (''Cannot open model file: '' @ filePath))
      | Some content \<Rightarrow> jsonParse plat content)"

definition newBasicPitchCNN :: "'n platform \<Rightarrow> (string \<rightharpoonup> string) \<Rightarrow> string \<Rightarrow> failure + 'n BasicPitchCNN" where
  "newBasicPitchCNN plat fs modelDir =
     (case readJsonFile plat fs (modelDir @ ''/cnn_contour_model.json'') of
        Inl e \<Rightarrow> Inl e
      | Inr contour \<Rightarrow>
     (case readJsonFile plat fs (modelDir @ ''/cnn_note_model.json'') of
        Inl e \<Rightarrow> Inl e
      | Inr note \<Rightarrow>
     (case readJsonFile plat fs (modelDir @ ''/cnn_onset_1_model.json'') of
        Inl e \<Rightarrow> Inl e
      | Inr onset1 \<Rightarrow>
     (case readJsonFile plat fs (modelDir @ ''/cnn_onset_2_model.json'') of
        Inl e \<Rightarrow> Inl e
      | Inr onset2 \<Rightarrow>
          Inr \<lparr> mCNNContour = parseJson plat contour,
                mCNNNote = parseJson plat note,
                mCNNOnsetInput = parseJson plat onset1,
                mCNNOnsetOutput = parseJson plat onset2,
                mContoursCircularBuffer =
                  replicate (nat (mNumContourStored (cnnConsts plat))) (replicate NUM_FREQ_IN 0),
                mNotesCircularBuffer =
                  replicate (nat (mNumNoteStored (cnnConsts plat))) (replicate NUM_FREQ_OUT 0),
                mConcat2CircularBuffer =
                  replicate (nat (mNumConcat2Stored (cnnConsts plat))) (replicate (32 * NUM_FREQ_OUT) 0),
                mContourIdx = 0, mNoteIdx = 0, mConcat2Idx = 0,
                mInputArray = replicate (NUM_HARMONICS * NUM_FREQ_IN) 0,
                mConcatArray = replicate (33 * NUM_FREQ_OUT) 0 \<rparr>))))"

text \<open>The constructor of \<^verbatim>\<open>BasicPitch\<close>: the members in the order of their declaration,
  the feature session first.\<close>

definition newBasicPitch :: "'n platform \<Rightarrow> (string \<rightharpoonup> string) \<Rightarrow> string \<Rightarrow> failure + 'n BasicPitch" where
  "newBasicPitch plat fs modelDir =
     (case createSession plat fs (modelDir @ ''/features_model.onnx'') of
        Inl e \<Rightarrow> Inl e
      | Inr session \<Rightarrow>
     (case newBasicPitchCNN plat fs modelDir of
        Inl e \<Rightarrow> Inl e
      | Inr cnn \<Rightarrow>
          Inr \<lparr> mContoursPG = [], mNotesPG = [], mOnsetsPG = [], mNoteEvents = [],
                mParams = initialParams plat, mNumFrames = 0,
                mFeaturesCalculator = session, mBasicPitchCNN = cnn \<rparr>))"

subsection \<open>class NeuralNoteTranscriber\<close>

text \<open>\<^verbatim>\<open>struct NeuralNoteBalancedPreset\<close>; its field \<^verbatim>\<open>melodiaTrick\<close> is named
  \<open>presetMelodiaTrick\<close> here, since record fields share one name space.\<close>

record NeuralNoteBalancedPreset =
  noteSensitivity :: real
  splitSensitivity :: real
  minNoteDurationMs :: real
  presetMelodiaTrick :: bool
  minPitchHz :: real
  maxPitchHz :: real
  energyTolerance :: int

definition defaultPreset :: NeuralNoteBalancedPreset where
  "defaultPreset =
     \<lparr> noteSensitivity = 0.645, splitSensitivity = 0.69, minNoteDurationMs = 24,
       presetMelodiaTrick = False, minPitchHz = 1, maxPitchHz = 3000, energyTolerance = 11 \<rparr>"

definition newTranscriber :: "'n platform \<Rightarrow> string \<Rightarrow> 'n BasicPitch prog" where
  "newTranscriber plat modelDir =
     (\<lambda>w. case newBasicPitch plat (files w) modelDir of
             Inl e \<Rightarrow> (Inl e, w)
           | Inr bp \<Rightarrow> (Inr bp, emit plat ''transcriber'' ''constructed'' modelDir (- 1) w))"

text \<open>\<^verbatim>\<open>transcribe\<close> returns the events; the object after the call is returned with them.\<close>

definition transcribe ::
  "'n platform \<Rightarrow> real list \<Rightarrow> NeuralNoteBalancedPreset \<Rightarrow> 'n BasicPitch
     \<Rightarrow> (NotesEvent list \<times> 'n BasicPitch) prog" where
  "transcribe plat audio22050Mono preset bp =
     (if audio22050Mono = [] then throwP (RuntimeError ''Input audio is empty'')
      else
        thenP (emitP plat ''transcriber'' ''reset_start''
                 (''samples='' @ showNat (length audio22050Mono)) (- 1))
       (thenP (emitP plat ''transcriber'' ''set_params_start'' [] (- 1))
       (thenP (emitP plat ''transcriber'' ''set_params_done'' [] (- 1))
       (thenP (emitP plat ''transcriber'' ''basic_pitch_transcribe_start'' [] (- 1))
       (bindP (transcribeToMIDI plat audio22050Mono (int (length audio22050Mono))
                 (setParameters plat (noteSensitivity preset) (splitSensitivity preset)
                    (minNoteDurationMs preset) (presetMelodiaTrick preset) (minPitchHz preset)
                    (maxPitchHz preset) (energyTolerance preset) (BasicPitch_reset plat bp)))
          (\<lambda>bp'.
        thenP (emitP plat ''transcriber'' ''basic_pitch_transcribe_done'' [] 0.9)
       (thenP (emitP plat ''transcriber'' ''events_ready''
                 (''events='' @ showNat (length (mNoteEvents bp'))) 0.95)
       (returnP (mNoteEvents bp', bp')))))))))"

section \<open>TranscriptionIO.cpp and cli/main.cpp: files and the command line\<close>

subsection \<open>Reading and writing\<close>

text \<open>
  \<^verbatim>\<open>readFloat32LeFile\<close>: the error text, or the samples. A file is its bytes;
  \<^verbatim>\<open>tellg\<close> at the end gives their number.
\<close>

definition readFloat32LeFile :: "'n platform \<Rightarrow> (string \<rightharpoonup> string) \<Rightarrow> string \<Rightarrow> string + real list" where
  "readFloat32LeFile plat fs path =
     (case fs path of
        None \<Rightarrow> Inl (''Could not open PCM file: '' @ path)
      | Some bytes \<Rightarrow>
          let size = int (length bytes)
          in if size \<le> 0 \<or> size smod 4 \<noteq> 0 then Inl ''PCM file has invalid size''
             else if \<not> readGood plat path then Inl ''Failed reading PCM file''
             else Inr (map (\<lambda>i. floatOfBytes plat (take 4 (drop (4 * i) bytes)))
                         [0 ..< nat (size sdiv 4)]))"

text \<open>\<^verbatim>\<open>writeCoreEventsJson\<close>: the error text if there is one. Opening the stream creates
  the file; what a failed write leaves in it is not modelled, the file holds the text.\<close>

definition eventJson :: "'n platform \<Rightarrow> CoreNoteEvent \<Rightarrow> string" where
  \<open>eventJson plat event =
     ''    {"startTimeSeconds":'' @ showFixed9 plat (startTimeSeconds event)
     @ '',"durationSeconds":'' @ showFixed9 plat (durationSeconds event)
     @ '',"pitchMidi":'' @ showInt (pitchMidi event)
     @ '',"amplitude":'' @ showFixed9 plat (coreAmplitude event)
     @ ''}''\<close>

definition eventsJson :: "'n platform \<Rightarrow> CoreNoteEvent list \<Rightarrow> string" where
  \<open>eventsJson plat events =
     ''{'' @ [CHR 0x0A] @ ''  "events": ['' @ [CHR 0x0A]
     @ concat (map (\<lambda>i. eventJson plat (events ! i)
                          @ (if i + 1 < length events then '','' else [])
                          @ [CHR 0x0A])
                 [0 ..< length events])
     @ ''  ]'' @ [CHR 0x0A] @ ''}'' @ [CHR 0x0A]\<close>

definition writeCoreEventsJson :: "'n platform \<Rightarrow> string \<Rightarrow> CoreNoteEvent list \<Rightarrow> (string option) prog" where
  "writeCoreEventsJson plat path events =
     (\<lambda>w. if \<not> writeOpens plat path
           then (Inr (Some (''Could not open output JSON path: '' @ path)), w)
           else
             let w' = w\<lparr> files := (files w)(path \<mapsto> eventsJson plat events) \<rparr>
             in if \<not> writeGood plat path then (Inr (Some ''Failed writing JSON output''), w')
                else (Inr None, w'))"

subsection \<open>The command line\<close>

text \<open>\<^verbatim>\<open>parseArgs\<close> over \<^verbatim>\<open>argv[1]\<close>, \<^verbatim>\<open>argv[2]\<close>, ...: a token that starts with
  \<^verbatim>\<open>--\<close> and is not the last one takes the next token as its value.\<close>

fun parseArgs :: "string list \<Rightarrow> (string \<rightharpoonup> string) \<Rightarrow> (string \<rightharpoonup> string)" where
  "parseArgs (token # v # rest) args =
     (if take 2 token = ''--'' then parseArgs rest (args(token \<mapsto> v))
      else parseArgs (v # rest) args)"
| "parseArgs tokens args = args"

definition printProgress :: "'n platform \<Rightarrow> string \<Rightarrow> real \<Rightarrow> unit prog" where
  \<open>printProgress plat stage progress =
     doP (\<lambda>w. w\<lparr> stdout := stdout w @
        [''{"type":"progress","stage":"'' @ stage @ ''","progress":'' @ showDouble plat progress @ ''}''] \<rparr>)\<close>

text \<open>The three parsers return the error text, or the new value of the output parameter
  (the old one when the key is absent).\<close>

definition parseDoubleArg :: "'n platform \<Rightarrow> (string \<rightharpoonup> string) \<Rightarrow> string \<Rightarrow> real \<Rightarrow> string + real" where
  "parseDoubleArg plat args key outValue =
     (case args key of
        None \<Rightarrow> Inr outValue
      | Some v \<Rightarrow>
          (case stod plat v of
             StodThrows \<Rightarrow> Inl (''Invalid numeric value for '' @ key)
           | StodNotFinite \<Rightarrow> Inl (''Invalid numeric value for '' @ key)
           | StodValue parsed \<Rightarrow> Inr parsed))"

definition parseIntArg :: "'n platform \<Rightarrow> (string \<rightharpoonup> string) \<Rightarrow> string \<Rightarrow> int \<Rightarrow> string + int" where
  "parseIntArg plat args key outValue =
     (case args key of
        None \<Rightarrow> Inr outValue
      | Some v \<Rightarrow>
          (case stoi plat v of
             None \<Rightarrow> Inl (''Invalid integer value for '' @ key)
           | Some parsed \<Rightarrow> Inr parsed))"

definition parseBoolArg :: "(string \<rightharpoonup> string) \<Rightarrow> string \<Rightarrow> bool \<Rightarrow> string + bool" where
  "parseBoolArg args key outValue =
     (case args key of
        None \<Rightarrow> Inr outValue
      | Some v \<Rightarrow>
          let normalized = map tolowerChar v
          in if normalized = ''1'' \<or> normalized = ''true'' \<or> normalized = ''yes'' \<or> normalized = ''on''
             then Inr True
             else if normalized = ''0'' \<or> normalized = ''false'' \<or> normalized = ''no'' \<or> normalized = ''off''
             then Inr False
             else Inl (''Invalid boolean value for '' @ key @ '' (expected 0/1/true/false)''))"

text \<open>
  \<^verbatim>\<open>main\<close> from the first override to the last range check: the preset with the overrides
  of the command line, or the text that goes to the standard error before \<^verbatim>\<open>return 1\<close>.
  \<open>parsedDouble\<close> is the variable that the numeric parsers share.
\<close>

definition bindS :: "'e + 'a \<Rightarrow> ('a \<Rightarrow> 'e + 'b) \<Rightarrow> 'e + 'b" where
  "bindS r f = (case r of Inl e \<Rightarrow> Inl e | Inr x \<Rightarrow> f x)"

definition parseOverrides :: "'n platform \<Rightarrow> (string \<rightharpoonup> string) \<Rightarrow> string + NeuralNoteBalancedPreset" where
  "parseOverrides plat args =
     bindS (parseDoubleArg plat args ''--note-sensitivity'' 0) (\<lambda>parsedDouble1.
     let p1 = (if args ''--note-sensitivity'' \<noteq> None
               then defaultPreset\<lparr> noteSensitivity := parsedDouble1 \<rparr> else defaultPreset)
     in bindS (parseDoubleArg plat args ''--split-sensitivity'' parsedDouble1) (\<lambda>parsedDouble2.
     let p2 = (if args ''--split-sensitivity'' \<noteq> None
               then p1\<lparr> splitSensitivity := parsedDouble2 \<rparr> else p1)
     in bindS (parseDoubleArg plat args ''--min-note-ms'' parsedDouble2) (\<lambda>parsedDouble3.
     let p3 = (if args ''--min-note-ms'' \<noteq> None
               then p2\<lparr> minNoteDurationMs := parsedDouble3 \<rparr> else p2)
     in bindS (parseBoolArg args ''--melodia-trick'' False) (\<lambda>parsedBool.
     let p4 = (if args ''--melodia-trick'' \<noteq> None
               then p3\<lparr> presetMelodiaTrick := parsedBool \<rparr> else p3)
     in bindS (parseDoubleArg plat args ''--min-pitch-hz'' parsedDouble3) (\<lambda>parsedDouble4.
     let p5 = (if args ''--min-pitch-hz'' \<noteq> None
               then p4\<lparr> minPitchHz := parsedDouble4 \<rparr> else p4)
     in bindS (parseDoubleArg plat args ''--max-pitch-hz'' parsedDouble4) (\<lambda>parsedDouble5.
     let p6 = (if args ''--max-pitch-hz'' \<noteq> None
               then p5\<lparr> maxPitchHz := parsedDouble5 \<rparr> else p5)
     in bindS (parseIntArg plat args ''--energy-tolerance'' 0) (\<lambda>parsedInt.
     Inr (if args ''--energy-tolerance'' \<noteq> None
          then p6\<lparr> energyTolerance := parsedInt \<rparr> else p6))))))))"

definition checkPreset :: "NeuralNoteBalancedPreset \<Rightarrow> string option" where
  "checkPreset presetValues =
     (if noteSensitivity presetValues < 0 \<or> noteSensitivity presetValues > 1
      then Some ''--note-sensitivity must be in [0,1]''
      else if splitSensitivity presetValues < 0 \<or> splitSensitivity presetValues > 1
      then Some ''--split-sensitivity must be in [0,1]''
      else if minNoteDurationMs presetValues \<le> 0 then Some ''--min-note-ms must be > 0''
      else if minPitchHz presetValues < 0 then Some ''--min-pitch-hz must be >= 0''
      else if maxPitchHz presetValues < 0 then Some ''--max-pitch-hz must be >= 0''
      else if maxPitchHz presetValues > 0 \<and> minPitchHz presetValues > 0 \<and>
              maxPitchHz presetValues < minPitchHz presetValues
      then Some ''--max-pitch-hz must be >= --min-pitch-hz''
      else if energyTolerance presetValues < 1 then Some ''--energy-tolerance must be >= 1''
      else None)"

definition presetDetail :: "'n platform \<Rightarrow> NeuralNoteBalancedPreset \<Rightarrow> string" where
  "presetDetail plat presetValues =
     ''noteSensitivity='' @ showDouble plat (noteSensitivity presetValues)
     @ '' splitSensitivity='' @ showDouble plat (splitSensitivity presetValues)
     @ '' minNoteMs='' @ showDouble plat (minNoteDurationMs presetValues)
     @ '' melodiaTrick='' @ (if presetMelodiaTrick presetValues then ''1'' else ''0'')
     @ '' minPitchHz='' @ showDouble plat (minPitchHz presetValues)
     @ '' maxPitchHz='' @ showDouble plat (maxPitchHz presetValues)
     @ '' energyTolerance='' @ showInt (energyTolerance presetValues)"

text \<open>The body of the \<^verbatim>\<open>try\<close> block; the value is the exit code.\<close>

definition tryBlock ::
  "'n platform \<Rightarrow> string \<Rightarrow> string \<Rightarrow> string \<Rightarrow> NeuralNoteBalancedPreset \<Rightarrow> int prog" where
  "tryBlock plat inputPath outputPath modelDir presetValues =
     thenP (printProgress plat ''Loading audio features...'' 0.12)
    (thenP (emitP plat ''cli'' ''read_input_start'' inputPath (- 1))
    (\<lambda>w. (case readFloat32LeFile plat (files w) inputPath of
        Inl ioError \<Rightarrow> thenP (cerrP ioError) (returnP 1)
      | Inr inputAudio \<Rightarrow>
          thenP (emitP plat ''cli'' ''read_input_done'' (''samples='' @ showNat (length inputAudio)) 0.12)
         (if inputAudio = [] then thenP (cerrP ''Input audio is empty'') (returnP 1)
          else
            thenP (printProgress plat ''Running NeuralNote model...'' 0.45)
           (thenP (emitP plat ''cli'' ''transcriber_create_start'' modelDir 0.45)
           (bindP (newTranscriber plat modelDir) (\<lambda>transcriber.
            thenP (emitP plat ''cli'' ''transcriber_create_done'' [] 0.45)
           (thenP (emitP plat ''cli'' ''transcribe_start'' [] 0.45)
           (bindP (transcribe plat inputAudio presetValues transcriber) (\<lambda>(events, transcriber').
            thenP (emitP plat ''cli'' ''transcribe_done'' (''events='' @ showNat (length events)) 0.9)
           (if events = [] then thenP (cerrP ''No notes detected in uploaded audio.'') (returnP 2)
            else
              thenP (printProgress plat ''Building MIDI events...'' 0.92)
             (thenP (emitP plat ''cli'' ''write_output_start''
                       (''core_events='' @ showNat (length (toCoreEvents events))) 0.94)
             (bindP (writeCoreEventsJson plat outputPath (toCoreEvents events)) (\<lambda>ioError.
                case ioError of
                  Some message \<Rightarrow> thenP (cerrP message) (returnP 1)
                | None \<Rightarrow>
                    thenP (emitP plat ''cli'' ''write_output_done'' outputPath 1.0)
                   (thenP (printProgress plat ''Conversion complete.'' 1.0)
                   (thenP (emitP plat ''cli'' ''done'' [] 1.0)
                   (returnP 0))))))))))))))) w))"

text \<open>\<^verbatim>\<open>catch (const std::exception& e)\<close>: an exception is reported and becomes exit code 1;
  undefined behaviour is not an exception and is not caught.\<close>

definition what :: "failure \<Rightarrow> string" where
  "what e = (case e of RuntimeError message \<Rightarrow> message | OrtException message \<Rightarrow> message
             | OutOfBounds \<Rightarrow> [])"

definition catchException :: "'n platform \<Rightarrow> int prog \<Rightarrow> int prog" where
  "catchException plat body =
     (\<lambda>w. case body w of
             (Inr code, w') \<Rightarrow> (Inr code, w')
           | (Inl OutOfBounds, w') \<Rightarrow> (Inl OutOfBounds, w')
           | (Inl e, w') \<Rightarrow>
               thenP (emitP plat ''cli'' ''exception'' (what e) (- 1))
              (thenP (cerrP (what e)) (returnP 1)) w')"

text \<open>\<^verbatim>\<open>main\<close>; \<open>argv\<close> holds \<^verbatim>\<open>argv[1]\<close>, \<^verbatim>\<open>argv[2]\<close>, ...\<close>

definition main :: "'n platform \<Rightarrow> string list \<Rightarrow> int prog" where
  "main plat argv =
     thenP (emitP plat ''cli'' ''start'' [] (- 1))
    (let args = parseArgs argv Map.empty
     in thenP (emitP plat ''cli'' ''args_parsed'' (''argc='' @ showNat (length argv + 1)) (- 1))
       (if args ''--input-f32le'' = None \<or> args ''--output-json'' = None \<or> args ''--model-dir'' = None
        then thenP (cerrP ''Usage: nn_transcriber_cli --input-f32le <audio.f32> --output-json <events.json> --model-dir <modeldir> [--preset balanced]'')
                   (returnP 1)
        else if (case args ''--preset'' of None \<Rightarrow> ''balanced'' | Some preset \<Rightarrow> preset) \<noteq> ''balanced''
        then thenP (cerrP ''Only preset 'balanced' is supported'') (returnP 1)
        else
          case parseOverrides plat args of
            Inl parseError \<Rightarrow> thenP (cerrP parseError) (returnP 1)
          | Inr presetValues \<Rightarrow>
              (case checkPreset presetValues of
                 Some message \<Rightarrow> thenP (cerrP message) (returnP 1)
               | None \<Rightarrow>
                   thenP (emitP plat ''cli'' ''preset_values'' (presetDetail plat presetValues) 0.2)
                  (catchException plat
                     (tryBlock plat (the (args ''--input-f32le'')) (the (args ''--output-json''))
                        (the (args ''--model-dir'')) presetValues)))))"

subsection \<open>What the claims observe\<close>


definition isDiagLine :: "string \<Rightarrow> bool" where
  \<open>isDiagLine line = (take 14 line = ''{"type":"diag"'')\<close>

subsection \<open>A platform for concrete runs\<close>





text \<open>
  What a run does apart from its diagnostics: the other lines of the standard output, the
  standard error and the files. Two statements agree when, from worlds that are the same
  apart from diagnostics, they fail alike or give related values, in worlds that are again
  the same apart from diagnostics.
\<close>

definition functional :: "world \<Rightarrow> string list \<times> string list \<times> (string \<rightharpoonup> string)" where
  "functional w = (filter (\<lambda>line. \<not> isDiagLine line) (stdout w), stderr w, files w)"

definition agreesR :: "('a \<Rightarrow> 'b \<Rightarrow> bool) \<Rightarrow> 'a prog \<Rightarrow> 'b prog \<Rightarrow> bool" where
  "agreesR R m m' =
     (\<forall>w w'. functional w = functional w' \<longrightarrow>
        (case (fst (m w), fst (m' w')) of
           (Inl e, Inl e') \<Rightarrow> e = e'
         | (Inr x, Inr y) \<Rightarrow> R x y
         | (Inl e, Inr y) \<Rightarrow> False
         | (Inr x, Inl e') \<Rightarrow> False) \<and>
        functional (snd (m w)) = functional (snd (m' w')))"

chapter \<open>Properties\<close>

section \<open>The copy primitive\<close>

lemma length_std_copy:
  "d + (hi - lo) \<le> length dst \<Longrightarrow> length (std_copy src lo hi dst d) = length dst"
  by (simp add: std_copy_def)

lemma nth_std_copy:
  assumes "d + (hi - lo) \<le> length dst" "k < length dst"
  shows "std_copy src lo hi dst d ! k =
           (if d \<le> k \<and> k < d + (hi - lo) then src ! (lo + (k - d)) else dst ! k)"
  using assms by (auto simp add: std_copy_def nth_append)

lemma std_copy_whole:
  "length dst = n \<Longrightarrow> std_copy src 0 n dst 0 = map (\<lambda>i. src ! i) [0 ..< n]"
  by (simp add: std_copy_def)

text \<open>A run of block copies into pairwise disjoint target blocks.\<close>

lemma fold_block_copy:
  fixes srcOff dstOff :: "nat \<Rightarrow> nat"
  assumes dst_ok': "\<forall>i < m. dstOff i + len \<le> length dst"
    and src_ok': "\<forall>i < m. srcOff i + len \<le> length src"
    and disj': "\<forall>j < m. \<forall>i < j. dstOff i + len \<le> dstOff j \<or> dstOff j + len \<le> dstOff i"
  defines "R \<equiv> fold (\<lambda>i d. std_copy src (srcOff i) (srcOff i + len) d (dstOff i)) [0 ..< m] dst"
  shows "length R = length dst"
    and "\<And>i j. i < m \<Longrightarrow> j < len \<Longrightarrow> R ! (dstOff i + j) = src ! (srcOff i + j)"
    and "\<And>k. k < length dst \<Longrightarrow> (\<And>i. i < m \<Longrightarrow> k < dstOff i \<or> dstOff i + len \<le> k) \<Longrightarrow> R ! k = dst ! k"
proof -
  let ?F = "\<lambda>i d. std_copy src (srcOff i) (srcOff i + len) d (dstOff i)"
  have dst_ok: "i < m \<Longrightarrow> dstOff i + len \<le> length dst" for i
    using dst_ok' by simp
  have src_ok: "i < m \<Longrightarrow> srcOff i + len \<le> length src" for i
    using src_ok' by simp
  have disj: "i < j \<Longrightarrow> j < m \<Longrightarrow> dstOff i + len \<le> dstOff j \<or> dstOff j + len \<le> dstOff i" for i j
    using disj' by simp
  have main: "n \<le> m \<Longrightarrow>
      length (fold ?F [0 ..< n] dst) = length dst \<and>
      (\<forall>i < n. \<forall>j < len. fold ?F [0 ..< n] dst ! (dstOff i + j) = src ! (srcOff i + j)) \<and>
      (\<forall>k < length dst. (\<forall>i < n. k < dstOff i \<or> dstOff i + len \<le> k) \<longrightarrow>
           fold ?F [0 ..< n] dst ! k = dst ! k)" for n
  proof (induction n)
    case 0
    show ?case by simp
  next
    case (Suc n)
    let ?P = "fold ?F [0 ..< n] dst"
    from Suc have n: "n < m" and IH_len: "length ?P = length dst"
      and IH_in: "\<And>i j. i < n \<Longrightarrow> j < len \<Longrightarrow> ?P ! (dstOff i + j) = src ! (srcOff i + j)"
      and IH_out: "\<And>k. k < length dst \<Longrightarrow> (\<forall>i < n. k < dstOff i \<or> dstOff i + len \<le> k) \<Longrightarrow> ?P ! k = dst ! k"
      by simp_all
    have step: "fold ?F [0 ..< Suc n] dst = std_copy src (srcOff n) (srcOff n + len) ?P (dstOff n)"
      by simp
    have d: "dstOff n + (srcOff n + len - srcOff n) \<le> length ?P"
      using dst_ok [OF n] IH_len by simp
    have s: "srcOff n + len \<le> length src" using src_ok [OF n] .
    have nth: "fold ?F [0 ..< Suc n] dst ! k =
        (if dstOff n \<le> k \<and> k < dstOff n + len then src ! (srcOff n + (k - dstOff n)) else ?P ! k)"
      if "k < length dst" for k
      unfolding step using nth_std_copy [OF d, of k] that IH_len by simp
    have len': "length (fold ?F [0 ..< Suc n] dst) = length dst"
      unfolding step using length_std_copy [OF d] IH_len by simp
    have in': "fold ?F [0 ..< Suc n] dst ! (dstOff i + j) = src ! (srcOff i + j)"
      if "i < Suc n" "j < len" for i j
    proof (cases "i = n")
      case True
      have "dstOff n + j < length dst" using dst_ok [OF n] that by simp
      then show ?thesis using nth [of "dstOff n + j"] that True by simp
    next
      case False
      then have i: "i < n" using that by simp
      have k: "dstOff i + j < length dst" using dst_ok [of i] i n that by simp
      have "dstOff i + len \<le> dstOff n \<or> dstOff n + len \<le> dstOff i"
        using disj [OF i n] .
      then have "(dstOff n \<le> dstOff i + j \<and> dstOff i + j < dstOff n + len) = False"
        using that by auto
      then have "fold ?F [0 ..< Suc n] dst ! (dstOff i + j) = ?P ! (dstOff i + j)"
        using nth [OF k] by (simp only: if_False)
      then show ?thesis using IH_in [OF i that(2)] by simp
    qed
    have out': "fold ?F [0 ..< Suc n] dst ! k = dst ! k"
      if "k < length dst" "\<forall>i < Suc n. k < dstOff i \<or> dstOff i + len \<le> k" for k
    proof -
      have "(dstOff n \<le> k \<and> k < dstOff n + len) = False" using that(2) by auto
      then have "fold ?F [0 ..< Suc n] dst ! k = ?P ! k"
        using nth [OF that(1)] by (simp only: if_False)
      moreover have "\<forall>i < n. k < dstOff i \<or> dstOff i + len \<le> k" using that(2) by simp
      ultimately show ?thesis using IH_out [OF that(1)] by simp
    qed
    show ?case using len' in' out' by blast
  qed
  from main [of m] show "length R = length dst"
    and "\<And>i j. i < m \<Longrightarrow> j < len \<Longrightarrow> R ! (dstOff i + j) = src ! (srcOff i + j)"
    and "\<And>k. k < length dst \<Longrightarrow> (\<And>i. i < m \<Longrightarrow> k < dstOff i \<or> dstOff i + len \<le> k) \<Longrightarrow> R ! k = dst ! k"
    unfolding R_def by auto
qed

section \<open>Conversion to core events\<close>

lemma toCoreEvents_loop_map:
  "toCoreEvents_loop events out = out @ map convertEvent events"
  by (induction events arbitrary: out) simp_all

lemma toCoreEvents_map: "toCoreEvents events = map convertEvent events"
  by (simp add: toCoreEvents_def toCoreEvents_loop_map)

text \<open>
  Claim C10. The conversion keeps the length and the order of the list: output \<open>i\<close> is
  built from input \<open>i\<close>, with \<open>startTime\<close>, \<open>pitch\<close> and \<open>amplitude\<close> copied and
  \<open>durationSeconds = max 0 (endTime - startTime)\<close>, which is never negative, also
  for an event that ends before it starts.
\<close>

theorem toCoreEvents_preserves:
  "length (toCoreEvents events) = length events \<and>
   (\<forall>i < length events.
      startTimeSeconds (toCoreEvents events ! i) = startTime (events ! i) \<and>
      pitchMidi (toCoreEvents events ! i) = pitch (events ! i) \<and>
      coreAmplitude (toCoreEvents events ! i) = amplitude (events ! i) \<and>
      durationSeconds (toCoreEvents events ! i) =
        max 0 (endTime (events ! i) - startTime (events ! i)) \<and>
      0 \<le> durationSeconds (toCoreEvents events ! i))"
  by (simp add: toCoreEvents_map convertEvent_def)

theorem toCoreEvents_preserves_witness:
  "length (toCoreEvents
      [\<lparr>startTime = 1, endTime = 3, pitch = 60, amplitude = 1/2, bends = []\<rparr>,
       \<lparr>startTime = 5, endTime = 4, pitch = 64, amplitude = 1/4, bends = [1]\<rparr>]) = 2 \<and>
   durationSeconds (toCoreEvents
      [\<lparr>startTime = 1, endTime = 3, pitch = 60, amplitude = 1/2, bends = []\<rparr>,
       \<lparr>startTime = 5, endTime = 4, pitch = 64, amplitude = 1/4, bends = [1]\<rparr>] ! 0) = 2 \<and>
   durationSeconds (toCoreEvents
      [\<lparr>startTime = 1, endTime = 3, pitch = 60, amplitude = 1/2, bends = []\<rparr>,
       \<lparr>startTime = 5, endTime = 4, pitch = 64, amplitude = 1/4, bends = [1]\<rparr>] ! 1) = 0 \<and>
   pitchMidi (toCoreEvents
      [\<lparr>startTime = 1, endTime = 3, pitch = 60, amplitude = 1/2, bends = []\<rparr>,
       \<lparr>startTime = 5, endTime = 4, pitch = 64, amplitude = 1/4, bends = [1]\<rparr>] ! 1) = 64"
  using toCoreEvents_preserves
    [of "[\<lparr>startTime = 1, endTime = 3, pitch = 60, amplitude = 1/2, bends = []\<rparr>,
          \<lparr>startTime = 5, endTime = 4, pitch = 64, amplitude = 1/4, bends = [1]\<rparr>]"]
  by (simp add: nth_Cons')

section \<open>Tempo: parabolic interpolation\<close>

lemma clampDouble_shift:
  "clampDouble (a + d) (a - 1) (a + 1) = a + clampDouble d (- 1) 1"
  by (simp add: clampDouble_def max_def min_def)

lemma interpolateArgmax_interior:
  assumes "0 < c" "c < int (length values) - 1"
    and "1 / 10 ^ 12 \<le> \<bar>values ! nat (c - 1) - 2 * values ! nat c + values ! nat (c + 1)\<bar>"
  shows "interpolateArgmax values c =
            clampDouble (of_int c + 0.5 * (values ! nat (c - 1) - values ! nat (c + 1))
                                  / (values ! nat (c - 1) - 2 * values ! nat c + values ! nat (c + 1)))
                        (of_int c - 1) (of_int c + 1)"
  unfolding clampDouble_shift
  using assms by (simp add: interpolateArgmax_def Let_def)

lemma interpolateArgmax_flat:
  assumes "0 < c" "c < int (length values) - 1"
    and "\<bar>values ! nat (c - 1) - 2 * values ! nat c + values ! nat (c + 1)\<bar> < 1 / 10 ^ 12"
  shows "interpolateArgmax values c = of_int c"
  using assms by (simp add: interpolateArgmax_def Let_def)

lemma interpolateArgmax_boundary:
  assumes "c \<le> 0 \<or> int (length values) - 1 \<le> c"
  shows "interpolateArgmax values c = of_int c"
  using assms by (auto simp add: interpolateArgmax_def)

lemma interpolateArgmax_symmetric: "interpolateArgmax [0.1, 1.0, 0.1] 1 = 1"
  by (simp add: interpolateArgmax_def clampDouble_def)

lemma interpolateArgmax_ramp: "interpolateArgmax [0.1, 0.5, 0.9] 1 = 1"
  by (simp add: interpolateArgmax_def clampDouble_def)

text \<open>
  Claim C6. On a posterior of 256 classes and for an interior index \<open>c\<close>, with
  \<open>l, m, r\<close> the values at \<open>c - 1, c, c + 1\<close>: the refined index is
  \<open>c + 0.5 (l - r) / (l - 2 m + r)\<close> clamped to \<open>[c - 1, c + 1]\<close>; it is \<open>c\<close> itself
  when \<open>\<bar>l - 2 m + r\<bar> < 10\<^sup>-\<^sup>1\<^sup>2\<close>, and for a boundary index. On \<open>[0.1, 1.0, 0.1]\<close> the
  refined index is the centre, and on \<open>[0.1, 0.5, 0.9]\<close> it lies in
  \<open>[centre, centre + 1)\<close> (the three values are collinear, so it is the centre).
\<close>

theorem interpolateArgmax_parabola:
  assumes "length values = 256"
  shows "(0 < c \<and> c < 255 \<and>
           1 / 10 ^ 12 \<le> \<bar>values ! nat (c - 1) - 2 * values ! nat c + values ! nat (c + 1)\<bar> \<longrightarrow>
          interpolateArgmax values c =
            clampDouble (of_int c + 0.5 * (values ! nat (c - 1) - values ! nat (c + 1))
                                  / (values ! nat (c - 1) - 2 * values ! nat c + values ! nat (c + 1)))
                        (of_int c - 1) (of_int c + 1)) \<and>
         (0 < c \<and> c < 255 \<and>
           \<bar>values ! nat (c - 1) - 2 * values ! nat c + values ! nat (c + 1)\<bar> < 1 / 10 ^ 12 \<longrightarrow>
          interpolateArgmax values c = of_int c) \<and>
         (c \<le> 0 \<or> 255 \<le> c \<longrightarrow> interpolateArgmax values c = of_int c) \<and>
         interpolateArgmax [0.1, 1.0, 0.1] 1 = 1 \<and>
         1 \<le> interpolateArgmax [0.1, 0.5, 0.9] 1 \<and> interpolateArgmax [0.1, 0.5, 0.9] 1 < 2"
proof (intro conjI impI)
  assume "0 < c \<and> c < 255 \<and>
      1 / 10 ^ 12 \<le> \<bar>values ! nat (c - 1) - 2 * values ! nat c + values ! nat (c + 1)\<bar>"
  then show "interpolateArgmax values c =
            clampDouble (of_int c + 0.5 * (values ! nat (c - 1) - values ! nat (c + 1))
                                  / (values ! nat (c - 1) - 2 * values ! nat c + values ! nat (c + 1)))
                        (of_int c - 1) (of_int c + 1)"
    using assms by (intro interpolateArgmax_interior) simp_all
next
  assume "0 < c \<and> c < 255 \<and>
      \<bar>values ! nat (c - 1) - 2 * values ! nat c + values ! nat (c + 1)\<bar> < 1 / 10 ^ 12"
  then show "interpolateArgmax values c = of_int c"
    using assms by (intro interpolateArgmax_flat) simp_all
next
  assume "c \<le> 0 \<or> 255 \<le> c"
  then show "interpolateArgmax values c = of_int c"
    using assms by (intro interpolateArgmax_boundary) simp
next
  show "interpolateArgmax [0.1, 1.0, 0.1] 1 = 1"
    by (rule interpolateArgmax_symmetric)
next
  show "1 \<le> interpolateArgmax [0.1, 0.5, 0.9] 1" "interpolateArgmax [0.1, 0.5, 0.9] 1 < 2"
    unfolding interpolateArgmax_ramp by simp_all
qed

theorem interpolateArgmax_parabola_witness:
  "length (replicate 100 0 @ [1, 4, 2] @ replicate 153 (0::real)) = 256 \<and>
   interpolateArgmax (replicate 100 0 @ [1, 4, 2] @ replicate 153 0) 101 = 101 + 1 / 10 \<and>
   interpolateArgmax (replicate 100 0 @ [2, 4, 7] @ replicate 153 0) 101 = 100 \<and>
   interpolateArgmax (replicate 100 0 @ [1, 2, 3] @ replicate 153 0) 101 = 101 \<and>
   interpolateArgmax (replicate 100 0 @ [1, 4, 2] @ replicate 153 0) 255 = 255"
proof -
  have len: "length (replicate 100 0 @ [a, b, c] @ replicate 153 (0::real)) = 256" for a b c
    by simp
  have a: "interpolateArgmax (replicate 100 0 @ [1, 4, 2] @ replicate 153 0) 101 = 101 + 1 / 10"
    using interpolateArgmax_parabola [OF len [of 1 4 2], of 101]
    by (simp add: nth_append clampDouble_def)
  have b: "interpolateArgmax (replicate 100 0 @ [2, 4, 7] @ replicate 153 0) 101 = 100"
    using interpolateArgmax_parabola [OF len [of 2 4 7], of 101]
    by (simp add: nth_append clampDouble_def)
  have c: "interpolateArgmax (replicate 100 0 @ [1, 2, 3] @ replicate 153 0) 101 = 101"
    using interpolateArgmax_parabola [OF len [of 1 2 3], of 101]
    by (simp add: nth_append)
  have d: "interpolateArgmax (replicate 100 0 @ [1, 4, 2] @ replicate 153 0) 255 = 255"
    using interpolateArgmax_parabola [OF len [of 1 4 2], of 255]
    by simp
  from a b c d show ?thesis by simp
qed

section \<open>Tempo: the moving average\<close>

lemma upto_m2_2: "[- 2 .. (2::int)] = [- 2, - 1, 0, 1, 2]"
  by (simp add: upto.simps)

lemma width5: "(5::int) smod 2 = 1" "(5::int) sdiv 2 = 2"
  by (simp_all add: signed_modulo_int_def signed_divide_int_def)

lemma window_fold:
  fixes g :: "int \<Rightarrow> real"
  shows "fold (\<lambda>offset sum.
             let sampleIndex = c + offset
             in if sampleIndex < 0 \<or> sampleIndex \<ge> n then sum else sum + g sampleIndex)
          [- 2 .. 2] 0
       = (if 0 \<le> c - 2 \<and> c - 2 < n then g (c - 2) else 0)
       + (if 0 \<le> c - 1 \<and> c - 1 < n then g (c - 1) else 0)
       + (if 0 \<le> c \<and> c < n then g c else 0)
       + (if 0 \<le> c + 1 \<and> c + 1 < n then g (c + 1) else 0)
       + (if 0 \<le> c + 2 \<and> c + 2 < n then g (c + 2) else 0)"
  unfolding upto_m2_2 by (simp add: Let_def)

lemma window_sum:
  fixes f :: "int \<Rightarrow> real"
  shows "(\<Sum>j \<in> {j. c - 2 \<le> j \<and> j \<le> c + 2 \<and> 0 \<le> j \<and> j < n}. f j)
       = (if 0 \<le> c - 2 \<and> c - 2 < n then f (c - 2) else 0)
       + (if 0 \<le> c - 1 \<and> c - 1 < n then f (c - 1) else 0)
       + (if 0 \<le> c \<and> c < n then f c else 0)
       + (if 0 \<le> c + 1 \<and> c + 1 < n then f (c + 1) else 0)
       + (if 0 \<le> c + 2 \<and> c + 2 < n then f (c + 2) else 0)"
proof -
  let ?A = "{c - 2, c - 1, c, c + 1, c + 2}"
  let ?P = "\<lambda>j. 0 \<le> j \<and> j < n"
  have "(\<Sum>j \<in> {j. c - 2 \<le> j \<and> j \<le> c + 2 \<and> 0 \<le> j \<and> j < n}. f j)
      = (\<Sum>j \<in> {j \<in> ?A. ?P j}. f j)"
    by (rule sum.cong) auto
  also have "\<dots> = (\<Sum>j \<in> ?A. if ?P j then f j else 0)"
    by (rule sum.inter_filter) simp
  also have "\<dots> = (if 0 \<le> c - 2 \<and> c - 2 < n then f (c - 2) else 0)
       + (if 0 \<le> c - 1 \<and> c - 1 < n then f (c - 1) else 0)
       + (if 0 \<le> c \<and> c < n then f c else 0)
       + (if 0 \<le> c + 1 \<and> c + 1 < n then f (c + 1) else 0)
       + (if 0 \<le> c + 2 \<and> c + 2 < n then f (c + 2) else 0)"
    by simp
  finally show ?thesis .
qed

lemma windowSum_2:
  "windowSum values 2 i =
     (\<Sum>j \<in> {j. int i - 2 \<le> j \<and> j \<le> int i + 2 \<and> 0 \<le> j \<and> j < int (length values)}.
        values ! nat j)"
  unfolding windowSum_def window_sum
  by (rule window_fold [where g = "\<lambda>j. values ! nat j"])

text \<open>
  Claim C7. For a non-empty series the width-5 smoother returns a series of the same
  length, and output \<open>i\<close> is the sum of the inputs at the in-range indices of
  \<open>[i - 2, i + 2]\<close> divided by 5: the divisor is the nominal width at the boundaries too.
\<close>

theorem movingAverageSame_nominal_width:
  assumes "values \<noteq> []"
  shows "length (movingAverageSame values 5) = length values \<and>
     (\<forall>i < length values. movingAverageSame values 5 ! i =
        (\<Sum>j \<in> {j. int i - 2 \<le> j \<and> j \<le> int i + 2 \<and> 0 \<le> j \<and> j < int (length values)}.
           values ! nat j) / 5)"
  using assms by (simp add: movingAverageSame_def width5 windowSum_2)

theorem movingAverageSame_nominal_width_witness:
  "length (movingAverageSame [10, 10, 10, 10, 10, 10] 5) = 6 \<and>
   movingAverageSame [10, 10, 10, 10, 10, 10] 5 ! 0 = 6 \<and>
   movingAverageSame [10, 10, 10, 10, 10, 10] 5 ! 1 = 8 \<and>
   movingAverageSame [10, 10, 10, 10, 10, 10] 5 ! 2 = 10"
proof -
  have ne: "[10, 10, 10, 10, 10, 10] \<noteq> ([] :: real list)" by simp
  note at = movingAverageSame_nominal_width [OF ne, THEN conjunct2, rule_format, unfolded window_sum]
  show ?thesis
    using movingAverageSame_nominal_width [OF ne, THEN conjunct1] at [of 0] at [of 1] at [of 2]
    by simp
qed

section \<open>Tempo: sliding windows\<close>

lemma sdiv_nonneg: "0 \<le> a \<Longrightarrow> 0 \<le> b \<Longrightarrow> a sdiv b = a div (b::int)"
  by (simp add: signed_divide_int_def sgn_if)

lemma block_mono: "i < j \<Longrightarrow> i * P + P \<le> j * (P::nat)"
proof -
  assume "i < j"
  then have "Suc i * P \<le> j * P" by (intro mult_le_mono1) simp
  then show ?thesis by (simp add: add.commute)
qed

lemma copyBands_nat:
  "copyBands src (int T) (int P) (int s) dst =
     fold (\<lambda>mel d. std_copy src (mel * T) (mel * T + T) d (mel * P + s)) [0 ..< 40] dst"
proof -
  have a: "nat (int mel * int T) = mel * T" for mel T
    by (simp add: nat_mult_distrib)
  have b: "nat (int mel * int P + int s) = mel * P + s" for mel
    by (simp add: nat_add_distrib nat_mult_distrib)
  show ?thesis
    by (simp add: copyBands_def kMelBands_def fold_map comp_def a b Let_def)
qed

lemma copyBands_zero:
  assumes fit: "s + T \<le> P" and src: "length src = 40 * T"
  defines "R \<equiv> copyBands src (int T) (int P) (int s) (replicate (40 * P) 0)"
  shows "length R = 40 * P"
    and "\<And>mel t. mel < 40 \<Longrightarrow> t < P \<Longrightarrow>
           R ! (mel * P + t) = (if s \<le> t \<and> t < s + T then src ! (mel * T + (t - s)) else 0)"
proof -
  let ?dst = "replicate (40 * P) (0::real)"
  let ?so = "\<lambda>mel. mel * T" and ?do = "\<lambda>mel. mel * P + s"
  have len_dst: "length ?dst = 40 * P" by simp
  have dst_ok: "\<forall>i < 40. ?do i + T \<le> length ?dst"
  proof (intro allI impI)
    fix i :: nat assume "i < 40"
    then show "?do i + T \<le> length ?dst"
      unfolding len_dst using block_mono [of i 40 P] fit by linarith
  qed
  have src_ok: "\<forall>i < 40. ?so i + T \<le> length src"
  proof (intro allI impI)
    fix i :: nat assume "i < 40"
    then show "?so i + T \<le> length src"
      unfolding src using block_mono [of i 40 T] by linarith
  qed
  have disj: "\<forall>j < 40. \<forall>i < j. ?do i + T \<le> ?do j \<or> ?do j + T \<le> ?do i"
  proof (intro allI impI)
    fix i j :: nat assume "j < 40" "i < j"
    then show "?do i + T \<le> ?do j \<or> ?do j + T \<le> ?do i"
      using block_mono [of i j P] fit by linarith
  qed
  note blk = fold_block_copy [of 40 ?do T ?dst ?so src, OF dst_ok src_ok disj, folded copyBands_nat, folded R_def]
  show "length R = 40 * P" using blk(1) by simp
  fix mel t :: nat assume mel: "mel < 40" and t: "t < P"
  have k: "mel * P + t < length ?dst"
    unfolding len_dst using block_mono [OF mel, of P] t by linarith
  show "R ! (mel * P + t) = (if s \<le> t \<and> t < s + T then src ! (mel * T + (t - s)) else 0)"
  proof (cases "s \<le> t \<and> t < s + T")
    case True
    then have ts: "t - s < T" by linarith
    have "R ! (?do mel + (t - s)) = src ! (?so mel + (t - s))"
      using mel ts by (rule blk(2))
    then show ?thesis using True by simp
  next
    case False
    have "mel * P + t < ?do i \<or> ?do i + T \<le> mel * P + t" if "i < 40" for i
    proof -
      consider "i < mel" | "i = mel" | "mel < i" by arith
      then show ?thesis
      proof cases
        case 1 then show ?thesis using block_mono [OF 1, of P] fit by linarith
      next
        case 2 then show ?thesis using False by auto
      next
        case 3 then show ?thesis using block_mono [OF 3, of P] t by linarith
      qed
    qed
    then have "R ! (mel * P + t) = ?dst ! (mel * P + t)"
      by (intro blk(3) k)
    also have "\<dots> = 0" using k by simp
    finally show ?thesis using False by auto
  qed
qed

lemma length_bandRow:
  assumes "length xs = 40 * T" "mel < 40"
  shows "length (bandRow xs T mel) = T"
proof -
  have "T \<le> 40 * T - mel * T" using block_mono [of mel 40 T] assms by linarith
  then show ?thesis using assms by (simp add: bandRow_def min_def)
qed

lemma nth_bandRow:
  assumes "length xs = 40 * T" "mel < 40" "t < T"
  shows "bandRow xs T mel ! t = xs ! (mel * T + t)"
proof -
  have "mel * T + t < length xs"
    using assms block_mono [of mel 40 T] by linarith
  then show ?thesis using assms by (simp add: bandRow_def)
qed

lemma length_workingRow:
  assumes "length (data features) = 40 * nat (totalFrames features)" "mel < 40"
  shows "length (workingRow features zeroPad mel) =
           max 256 (nat (totalFrames features) + (if zeroPad then 256 else 0))"
  using length_bandRow [OF assms] by (simp add: workingRow_def Let_def max_def)

lemma nth_zeros: "i < n \<Longrightarrow> (xs @ replicate n (0::real)) ! (length xs + i) = 0"
  by (simp add: nth_append)

lemma nth_workingRow_padded:
  assumes len: "length (data features) = 40 * T" and T: "T = nat (totalFrames features)"
    and mel: "mel < 40" and t: "t < T + 256"
  shows "workingRow features True mel ! t =
           (if 128 \<le> t \<and> t < 128 + T then data features ! (mel * T + (t - 128)) else 0)"
proof -
  let ?row = "bandRow (data features) T mel"
  have lr: "length ?row = T" using length_bandRow [OF len mel] .
  have w: "workingRow features True mel = replicate 128 0 @ ?row @ replicate 128 0"
    using lr by (simp add: workingRow_def Let_def T [symmetric])
  consider "t < 128" | "128 \<le> t" "t < 128 + T" | "128 + T \<le> t" by linarith
  then show ?thesis
  proof cases
    case 1
    then show ?thesis unfolding w by (simp add: nth_append)
  next
    case 2
    then have t': "t - 128 < T" by linarith
    then have "?row ! (t - 128) = data features ! (mel * T + (t - 128))"
      using nth_bandRow [OF len mel] by simp
    then show ?thesis unfolding w using 2 lr t' by (simp add: nth_append)
  next
    case 3
    then have "t - 128 - T < 128" using t by linarith
    then have "replicate 128 (0::real) ! (t - 128 - T) = 0" by simp
    moreover have "\<not> t - 128 < T" "\<not> t < 128" using 3 by linarith+
    ultimately show ?thesis unfolding w using 3 lr by (simp add: nth_append)
  qed
qed

lemma nth_workingRow_plain:
  assumes len: "length (data features) = 40 * T" and T: "T = nat (totalFrames features)"
    and mel: "mel < 40" and t: "t < max 256 T"
  shows "workingRow features False mel ! t =
           (if t < T then data features ! (mel * T + t) else 0)"
proof -
  let ?row = "bandRow (data features) T mel"
  have lr: "length ?row = T" using length_bandRow [OF len mel] .
  have w: "workingRow features False mel = ?row @ replicate (256 - T) 0"
    using lr by (simp add: workingRow_def Let_def T [symmetric])
  show ?thesis
  proof (cases "t < T")
    case True
    then have "?row ! t = data features ! (mel * T + t)"
      using nth_bandRow [OF len mel] by simp
    then show ?thesis unfolding w using True lr by (simp add: nth_append)
  next
    case False
    then have "t - T < 256 - T" using t by (simp add: max_def split: if_splits)
    then have "replicate (256 - T) (0::real) ! (t - T) = 0" by simp
    then show ?thesis unfolding w using False lr by (simp add: nth_append)
  qed
qed

text \<open>The working data of the code is the working data of the specification.\<close>

lemma toSlidingWindows_working:
  fixes features :: FeatureTensor and zeroPad :: bool and hopFrames :: int
  assumes pos: "0 < totalFrames features"
    and len: "length (data features) = 40 * nat (totalFrames features)"
  defines "wlen \<equiv> max 256 (nat (totalFrames features) + (if zeroPad then 256 else 0))"
  shows "\<exists>wd. toSlidingWindows features 256 hopFrames zeroPad = extractWindows wd (int wlen) 256 hopFrames \<and>
           length wd = 40 * wlen \<and>
           (\<forall>mel < 40. \<forall>t < wlen. wd ! (mel * wlen + t) = workingRow features zeroPad mel ! t)"
proof -
  define T where "T = nat (totalFrames features)"
  have T: "totalFrames features = int T" "0 < T" using pos by (simp_all add: T_def)
  have lenT: "length (data features) = 40 * T" using len by (simp add: T_def)
  have ne: "data features \<noteq> []" using lenT T by auto
  show ?thesis
  proof (cases zeroPad)
    case True
    let ?wd = "copyBands (data features) (int T) (int (T + 256)) (int 128) (replicate (40 * (T + 256)) 0)"
    have wlen: "wlen = T + 256" using True by (simp add: wlen_def T_def)
    have eq: "toSlidingWindows features 256 hopFrames zeroPad = extractWindows ?wd (int wlen) 256 hopFrames"
      using True T ne
      by (simp add: toSlidingWindows_def zeroPadBands_def Let_def kMelBands_def wlen sdiv_nonneg
                    nat_add_distrib nat_mult_distrib)
    have fit: "128 + T \<le> T + 256" by simp
    note cb = copyBands_zero [OF fit lenT]
    have "\<forall>mel < 40. \<forall>t < wlen. ?wd ! (mel * wlen + t) = workingRow features zeroPad mel ! t"
      using cb(2) nth_workingRow_padded [OF lenT T_def] True by (simp add: wlen)
    then show ?thesis using eq cb(1) by (auto simp add: wlen)
  next
    case False
    show ?thesis
    proof (cases "T < 256")
      case small: True
      let ?wd = "copyBands (data features) (int T) (int 256) (int 0) (replicate (40 * 256) 0)"
      have wlen: "wlen = 256" using False small by (simp add: wlen_def T_def)
      have eq: "toSlidingWindows features 256 hopFrames zeroPad = extractWindows ?wd (int wlen) 256 hopFrames"
        using False T ne small
        by (simp add: toSlidingWindows_def rightPadBands_def Let_def kMelBands_def wlen)
      have fit: "0 + T \<le> 256" using small by simp
      note cb = copyBands_zero [OF fit lenT]
      have "\<forall>mel < 40. \<forall>t < wlen. ?wd ! (mel * wlen + t) = workingRow features zeroPad mel ! t"
        using cb(2) nth_workingRow_plain [OF lenT T_def] False small by (simp add: wlen)
      then show ?thesis using eq cb(1) by (auto simp add: wlen)
    next
      case large: False
      have wlen: "wlen = T" using False large by (simp add: wlen_def T_def)
      have eq: "toSlidingWindows features 256 hopFrames zeroPad = extractWindows (data features) (int wlen) 256 hopFrames"
        using False T ne large
        by (simp add: toSlidingWindows_def Let_def wlen)
      have "\<forall>mel < 40. \<forall>t < wlen. data features ! (mel * wlen + t) = workingRow features zeroPad mel ! t"
        using nth_workingRow_plain [OF lenT T_def] False large by (simp add: wlen)
      then show ?thesis using eq lenT by (auto simp add: wlen)
    qed
  qed
qed

lemma copyWindow_nat:
  "copyWindow wd (int wl) 256 (int hop) (int n) out =
     fold (\<lambda>mel d. std_copy wd (mel * wl + n * hop) (mel * wl + n * hop + 256) d ((n * 40 + mel) * 256))
          [0 ..< 40] out"
proof -
  have a: "nat (int mel * int wl + int n * int hop) = mel * wl + n * hop" for mel
    by (simp add: nat_add_distrib nat_mult_distrib)
  have b: "nat ((int n * 40 + int mel) * 256) = (n * 40 + mel) * 256" for mel
    by (simp add: nat_add_distrib nat_mult_distrib)
  show ?thesis
    by (simp add: copyWindow_def kMelBands_def fold_map comp_def Let_def nat_add_distrib nat_mult_distrib)
qed

lemma fold_flatten:
  assumes "0 < B"
  shows "fold (\<lambda>n. fold (G n) [0 ..< B]) [0 ..< N] x = fold (\<lambda>q. G (q div B) (q mod B)) [0 ..< N * B] x"
proof (induction N)
  case 0
  show ?case by simp
next
  case (Suc N)
  have "[0 ..< Suc N * B] = [0 ..< N * B + B]"
    by (simp add: add.commute)
  also have "\<dots> = [0 ..< N * B] @ [N * B ..< N * B + B]"
    by (rule upt_add_eq_append) simp
  also have "[N * B ..< N * B + B] = map (\<lambda>mel. mel + N * B) [0 ..< B]"
    unfolding map_add_upt by (simp add: add.commute)
  finally have split: "[0 ..< Suc N * B] = [0 ..< N * B] @ map (\<lambda>mel. mel + N * B) [0 ..< B]" .
  have inner: "fold (\<lambda>q. G (q div B) (q mod B)) (map (\<lambda>mel. mel + N * B) [0 ..< B]) y = fold (G N) [0 ..< B] y" for y
    unfolding fold_map comp_def
    using assms by (intro fold_cong) simp_all
  show ?case
    unfolding split using Suc by (simp add: inner)
qed

lemma window_fits:
  assumes "n < (wl - 256) div hop + 1" "256 \<le> wl"
  shows "n * hop + 256 \<le> (wl::nat)"
proof -
  have "n \<le> (wl - 256) div hop" using assms by simp
  then have "n * hop \<le> ((wl - 256) div hop) * hop" by (rule mult_le_mono1)
  also have "\<dots> \<le> wl - 256" by simp
  finally show ?thesis using assms by linarith
qed

lemma nw_eq:
  fixes wl hop :: nat
  assumes wl: "256 \<le> wl"
  shows "((int wl - 256) sdiv int hop) + 1 = int ((wl - 256) div hop + 1)"
proof -
  have a: "int wl - 256 = int (wl - 256)" using wl by simp
  have "(int wl - 256) sdiv int hop = int (wl - 256) div int hop"
    unfolding a by (simp add: sdiv_nonneg)
  then show ?thesis by (simp add: zdiv_int)
qed

lemma extractWindows_nat:
  fixes H :: int and wl hop :: nat
  assumes wl: "256 \<le> wl" and hop: "max 1 H = int hop"
  shows "extractWindows wd (int wl) 256 H =
     \<lparr>windowData =
        fold (\<lambda>n. fold (\<lambda>mel d. std_copy wd (mel * wl + n * hop) (mel * wl + n * hop + 256) d ((n * 40 + mel) * 256)) [0 ..< 40])
             [0 ..< (wl - 256) div hop + 1] (replicate (((wl - 256) div hop + 1) * 40 * 256) 0),
       numWindows = int ((wl - 256) div hop + 1)\<rparr>"
proof -
  have cw: "copyWindow wd (int wl) 256 (int hop) (int n) = 
      fold (\<lambda>mel d. std_copy wd (mel * wl + n * hop) (mel * wl + n * hop + 256) d ((n * 40 + mel) * 256)) [0 ..< 40]" for n
    by (intro ext) (rule copyWindow_nat)
  have sz: "nat (int ((wl - 256) div hop + 1) * kMelBands * 256) = ((wl - 256) div hop + 1) * 40 * 256"
    unfolding kMelBands_def by (simp add: nat_mult_distrib)
  show ?thesis
    unfolding extractWindows_def Let_def hop nw_eq [OF wl] sz fold_map comp_def cw nat_int ..
qed

lemma extractWindows_layout:
  fixes H :: int and wl hop :: nat
  assumes wl: "256 \<le> wl" and len: "length wd = 40 * wl" and hop: "max 1 H = int hop"
  defines "N \<equiv> (wl - 256) div hop + 1"
  defines "out \<equiv> extractWindows wd (int wl) 256 H"
  shows "numWindows out = int N"
    and "length (windowData out) = N * 40 * 256"
    and "\<And>n mel j. n < N \<Longrightarrow> mel < 40 \<Longrightarrow> j < 256 \<Longrightarrow>
           windowData out ! ((n * 40 + mel) * 256 + j) = wd ! (mel * wl + n * hop + j)"
proof -
  let ?dst = "replicate (N * 40 * 256) (0::real)"
  let ?so = "\<lambda>q. (q mod 40) * wl + (q div 40) * hop" and ?do = "\<lambda>q. q * 256"
  have out: "out = \<lparr>windowData =
        fold (\<lambda>n. fold (\<lambda>mel d. std_copy wd (mel * wl + n * hop) (mel * wl + n * hop + 256) d ((n * 40 + mel) * 256)) [0 ..< 40])
             [0 ..< N] ?dst, numWindows = int N\<rparr>"
    unfolding out_def N_def by (rule extractWindows_nat [OF wl hop])
  have flat: "fold (\<lambda>n. fold (\<lambda>mel d. std_copy wd (mel * wl + n * hop) (mel * wl + n * hop + 256) d ((n * 40 + mel) * 256)) [0 ..< 40])
             [0 ..< N] ?dst
      = fold (\<lambda>q d. std_copy wd (?so q) (?so q + 256) d (?do q)) [0 ..< N * 40] ?dst"
  proof -
    have "fold (\<lambda>n. fold (\<lambda>mel d. std_copy wd (mel * wl + n * hop) (mel * wl + n * hop + 256) d ((n * 40 + mel) * 256)) [0 ..< 40])
             [0 ..< N] ?dst
       = fold (\<lambda>q. (\<lambda>mel d. std_copy wd (mel * wl + (q div 40) * hop) (mel * wl + (q div 40) * hop + 256) d (((q div 40) * 40 + mel) * 256)) (q mod 40))
             [0 ..< N * 40] ?dst"
      by (rule fold_flatten) simp
    also have "\<dots> = fold (\<lambda>q d. std_copy wd (?so q) (?so q + 256) d (?do q)) [0 ..< N * 40] ?dst"
      by (simp add: div_mult_mod_eq)
    finally show ?thesis .
  qed
  have wd_eq: "windowData out =
      fold (\<lambda>q d. std_copy wd (?so q) (?so q + 256) d (?do q)) [0 ..< N * 40] ?dst"
    unfolding out flat by simp
  have len_dst: "length ?dst = N * 40 * 256" by simp
  have dst_ok: "\<forall>q < N * 40. ?do q + 256 \<le> length ?dst"
  proof (intro allI impI)
    fix q :: nat assume "q < N * 40"
    then show "?do q + 256 \<le> length ?dst"
      unfolding len_dst using block_mono [of q "N * 40" 256] by linarith
  qed
  have src_ok: "\<forall>q < N * 40. ?so q + 256 \<le> length wd"
  proof (intro allI impI)
    fix q :: nat assume q: "q < N * 40"
    then have "q div 40 < N" by (simp add: less_mult_imp_div_less)
    then have "(q div 40) * hop + 256 \<le> wl" unfolding N_def using wl by (intro window_fits)
    moreover have "(q mod 40) * wl + wl \<le> 40 * wl" by (intro block_mono) simp
    ultimately show "?so q + 256 \<le> length wd" unfolding len by linarith
  qed
  have disj: "\<forall>j < N * 40. \<forall>i < j. ?do i + 256 \<le> ?do j \<or> ?do j + 256 \<le> ?do i"
  proof (intro allI impI)
    fix i j :: nat assume "j < N * 40" "i < j"
    then show "?do i + 256 \<le> ?do j \<or> ?do j + 256 \<le> ?do i"
      using block_mono [of i j 256] by linarith
  qed
  note blk = fold_block_copy [of "N * 40" ?do 256 ?dst ?so wd, OF dst_ok src_ok disj, folded wd_eq]
  show "numWindows out = int N"
    unfolding out by simp
  show "length (windowData out) = N * 40 * 256" using blk(1) by simp
  fix n mel j :: nat assume n: "n < N" and mel: "mel < 40" and j: "j < 256"
  have q: "n * 40 + mel < N * 40" using block_mono [of n N 40] n mel by linarith
  have "windowData out ! (?do (n * 40 + mel) + j) = wd ! (?so (n * 40 + mel) + j)"
    using q j by (rule blk(2))
  then show "windowData out ! ((n * 40 + mel) * 256 + j) = wd ! (mel * wl + n * hop + j)"
    using mel by simp
qed

lemma toSlidingWindows_core:
  fixes features :: FeatureTensor and zeroPad :: bool and H :: int
  assumes pos: "0 < totalFrames features"
    and len: "length (data features) = 40 * nat (totalFrames features)"
  defines "wl \<equiv> max 256 (nat (totalFrames features) + (if zeroPad then 256 else 0))"
  defines "hop \<equiv> nat (max 1 H)"
  defines "N \<equiv> (wl - 256) div hop + 1"
  defines "out \<equiv> toSlidingWindows features 256 H zeroPad"
  shows "numWindows out = int N"
    and "length (windowData out) = N * 40 * 256"
    and "\<And>n mel j. n < N \<Longrightarrow> mel < 40 \<Longrightarrow> j < 256 \<Longrightarrow>
           windowData out ! ((n * 40 + mel) * 256 + j) = workingRow features zeroPad mel ! (n * hop + j)"
proof -
  obtain wd where eq: "out = extractWindows wd (int wl) 256 H"
    and lwd: "length wd = 40 * wl"
    and wd: "\<forall>mel < 40. \<forall>t < wl. wd ! (mel * wl + t) = workingRow features zeroPad mel ! t"
    using toSlidingWindows_working [OF pos len, where hopFrames = H and zeroPad = zeroPad] unfolding out_def wl_def by blast
  have wl: "256 \<le> wl" by (simp add: wl_def)
  have hop: "max 1 H = int hop" by (simp add: hop_def)
  note lay = extractWindows_layout [OF wl lwd hop, folded eq, folded N_def]
  show "numWindows out = int N" by (rule lay(1))
  show "length (windowData out) = N * 40 * 256" by (rule lay(2))
  fix n mel j :: nat assume n: "n < N" and mel: "mel < 40" and j: "j < 256"
  have "n * hop + 256 \<le> wl" using n wl unfolding N_def by (intro window_fits)
  then have t: "n * hop + j < wl" using j by linarith
  have "windowData out ! ((n * 40 + mel) * 256 + j) = wd ! (mel * wl + n * hop + j)"
    using n mel j by (rule lay(3))
  also have "\<dots> = workingRow features zeroPad mel ! (n * hop + j)"
    using wd mel t by (simp add: add.assoc)
  finally show "windowData out ! ((n * 40 + mel) * 256 + j) = workingRow features zeroPad mel ! (n * hop + j)" .
qed

text \<open>The layout for a tensor with at least one frame.\<close>

lemma windows_of_frames:
  fixes features :: FeatureTensor and zeroPad :: bool and H :: int
  assumes pos: "0 < totalFrames features"
    and len: "length (data features) = 40 * nat (totalFrames features)"
  defines "out \<equiv> toSlidingWindows features 256 H zeroPad"
  defines "T' \<equiv> length (workingRow features zeroPad 0)"
  shows "T' = max 256 (nat (totalFrames features) + (if zeroPad then 256 else 0)) \<and>
         numWindows out = (int T' - 256) div max 1 H + 1 \<and>
         length (windowData out) = nat (numWindows out) * 40 * 256 \<and>
         (\<forall>n < nat (numWindows out). \<forall>mel < 40.
            length (workingRow features zeroPad mel) = T' \<and>
            take 256 (drop ((n * 40 + mel) * 256) (windowData out)) =
            take 256 (drop (n * nat (max 1 H)) (workingRow features zeroPad mel))) \<and>
         (\<not> zeroPad \<and> totalFrames features \<le> 256 \<longrightarrow> numWindows out = 1) \<and>
         (zeroPad \<longrightarrow> numWindows out = totalFrames features div max 1 H + 1)"
proof -
  define wl where "wl = max 256 (nat (totalFrames features) + (if zeroPad then 256 else 0))"
  define hop where "hop = nat (max 1 H)"
  define N where "N = (wl - 256) div hop + 1"
  note core = toSlidingWindows_core [OF pos len, where zeroPad = zeroPad and H = H, folded out_def wl_def hop_def, folded N_def]
  have T': "T' = wl" unfolding T'_def wl_def by (rule length_workingRow [OF len]) simp
  have hop: "max 1 H = int hop" "0 < hop" by (simp_all add: hop_def)
  have wl: "256 \<le> wl" by (simp add: wl_def)
  have nw: "numWindows out = (int T' - 256) div max 1 H + 1"
  proof -
    have "numWindows out = int ((wl - 256) div hop) + 1"
      unfolding core(1) N_def by simp
    also have "int ((wl - 256) div hop) = int (wl - 256) div int hop"
      by (rule zdiv_int)
    also have "int (wl - 256) = int wl - 256" using wl by simp
    finally show ?thesis unfolding T' hop .
  qed
  have rows: "length (workingRow features zeroPad mel) = T' \<and>
      take 256 (drop ((n * 40 + mel) * 256) (windowData out)) =
      take 256 (drop (n * nat (max 1 H)) (workingRow features zeroPad mel))"
    if n: "n < N" and mel: "mel < 40" for n mel
  proof
    show lw: "length (workingRow features zeroPad mel) = T'"
      unfolding T' wl_def by (rule length_workingRow [OF len mel])
    have fits: "n * hop + 256 \<le> wl" using n wl unfolding N_def by (intro window_fits)
    have q: "(n * 40 + mel) * 256 + 256 \<le> N * 40 * 256"
    proof -
      have "n * 40 + mel < N * 40" using block_mono [of n N 40] n mel by linarith
      then show ?thesis using block_mono [of "n * 40 + mel" "N * 40" 256] by linarith
    qed
    show "take 256 (drop ((n * 40 + mel) * 256) (windowData out)) =
          take 256 (drop (n * nat (max 1 H)) (workingRow features zeroPad mel))"
    proof (rule nth_equalityI)
      show "length (take 256 (drop ((n * 40 + mel) * 256) (windowData out))) =
            length (take 256 (drop (n * nat (max 1 H)) (workingRow features zeroPad mel)))"
        using q fits lw unfolding T' hop_def [symmetric] by (simp add: core(2))
    next
      fix j assume "j < length (take 256 (drop ((n * 40 + mel) * 256) (windowData out)))"
      then have j: "j < 256" by simp
      have "windowData out ! ((n * 40 + mel) * 256 + j) = workingRow features zeroPad mel ! (n * hop + j)"
        using n mel j by (rule core(3))
      then show "take 256 (drop ((n * 40 + mel) * 256) (windowData out)) ! j =
                 take 256 (drop (n * nat (max 1 H)) (workingRow features zeroPad mel)) ! j"
        using j q fits lw unfolding T' hop_def [symmetric] by (simp add: core(2))
    qed
  qed
  have one: "numWindows out = 1" if "\<not> zeroPad" "totalFrames features \<le> 256"
  proof -
    have "nat (totalFrames features) \<le> 256" using that by linarith
    then have "wl = 256" using that by (simp add: wl_def max_def)
    then show ?thesis unfolding core(1) N_def by simp
  qed
  have padded: "numWindows out = totalFrames features div max 1 H + 1" if zeroPad
  proof -
    have "wl - 256 = nat (totalFrames features)" using that by (simp add: wl_def max_def)
    then have "numWindows out = int (nat (totalFrames features) div hop) + 1"
      unfolding core(1) N_def by simp
    also have "int (nat (totalFrames features) div hop) = int (nat (totalFrames features)) div int hop"
      by (rule zdiv_int)
    also have "int (nat (totalFrames features)) = totalFrames features" using pos by simp
    finally show ?thesis unfolding hop .
  qed
  have nN: "nat (numWindows out) = N" unfolding core(1) by simp
  show ?thesis
  proof (intro conjI allI impI)
    show "T' = max 256 (nat (totalFrames features) + (if zeroPad then 256 else 0))"
      using T' unfolding wl_def .
    show "numWindows out = (int T' - 256) div max 1 H + 1" by (rule nw)
    show "length (windowData out) = nat (numWindows out) * 40 * 256"
      unfolding nN by (rule core(2))
  next
    fix n mel :: nat assume "n < nat (numWindows out)" "mel < 40"
    then have "n < N" "mel < 40" unfolding nN by simp_all
    from rows [OF this]
    show "length (workingRow features zeroPad mel) = T'"
      and "take 256 (drop ((n * 40 + mel) * 256) (windowData out)) =
           take 256 (drop (n * nat (max 1 H)) (workingRow features zeroPad mel))"
      by simp_all
  next
    assume "\<not> zeroPad \<and> totalFrames features \<le> 256"
    then show "numWindows out = 1" using one by simp
  next
    assume zeroPad
    then show "numWindows out = totalFrames features div max 1 H + 1" by (rule padded)
  qed
qed

text \<open>
  Claim C5, as amended. For a mel tensor of 40 bands and \<open>T \<ge> 1\<close> frames, window width
  256, hop \<open>H\<close> and the \<open>zeroPad\<close> flag, the working row of band \<open>mel\<close> is
  \<open>workingRow features zeroPad mel\<close>: the band with 128 zero frames before and after
  it when \<open>zeroPad\<close> is set, then padded with zeros on the right to 256 frames when it
  is shorter. All working rows have the working length \<open>T'\<close>; the builder returns
  \<open>N = (T' - 256) div max 1 H + 1\<close> windows in the layout \<open>[N][40][256]\<close>, and
  window \<open>n\<close> of band \<open>mel\<close> holds the 256 frames of the working row from offset
  \<open>n * max 1 H\<close> on. An input of at most 256 frames yields one window when \<open>zeroPad\<close>
  is off; with \<open>zeroPad\<close> the builder returns \<open>T div max 1 H + 1\<close> windows. The empty
  tensor (no frame, or no data) yields no window, whatever the width, the hop and the flag.
\<close>

theorem toSlidingWindows_layout:
  fixes features :: FeatureTensor and zeroPad :: bool and H :: int
  defines "out \<equiv> toSlidingWindows features 256 H zeroPad"
  defines "T' \<equiv> length (workingRow features zeroPad 0)"
  shows "(0 < totalFrames features \<and> length (data features) = 40 * nat (totalFrames features) \<longrightarrow>
           T' = max 256 (nat (totalFrames features) + (if zeroPad then 256 else 0)) \<and>
           numWindows out = (int T' - 256) div max 1 H + 1 \<and>
           length (windowData out) = nat (numWindows out) * 40 * 256 \<and>
           (\<forall>n < nat (numWindows out). \<forall>mel < 40.
              length (workingRow features zeroPad mel) = T' \<and>
              take 256 (drop ((n * 40 + mel) * 256) (windowData out)) =
              take 256 (drop (n * nat (max 1 H)) (workingRow features zeroPad mel))) \<and>
           (\<not> zeroPad \<and> totalFrames features \<le> 256 \<longrightarrow> numWindows out = 1) \<and>
           (zeroPad \<longrightarrow> numWindows out = totalFrames features div max 1 H + 1)) \<and>
         (totalFrames features \<le> 0 \<or> data features = [] \<longrightarrow>
           (\<forall>W. toSlidingWindows features W H zeroPad = \<lparr>windowData = [], numWindows = 0\<rparr>)) \<and>
         (\<forall>W hop pad. toSlidingWindows \<lparr>data = [], totalFrames = 0\<rparr> W hop pad =
                        \<lparr>windowData = [], numWindows = 0\<rparr>)"
  unfolding out_def T'_def
  apply (rule conjI)
   apply (rule impI)
   apply (erule conjE)
   apply (rule windows_of_frames; assumption)
  apply (simp add: toSlidingWindows_def)
  done

theorem toSlidingWindows_layout_witness:
  "numWindows (toSlidingWindows \<lparr>data = map real [0 ..< 40], totalFrames = 1\<rparr> 256 32 True) = 1 \<and>
   length (windowData (toSlidingWindows \<lparr>data = map real [0 ..< 40], totalFrames = 1\<rparr> 256 32 True)) = 10240 \<and>
   take 256 (drop 768 (windowData (toSlidingWindows \<lparr>data = map real [0 ..< 40], totalFrames = 1\<rparr> 256 32 True)))
     = replicate 128 0 @ [3] @ replicate 127 0 \<and>
   toSlidingWindows \<lparr>data = [], totalFrames = 0\<rparr> 256 32 True = \<lparr>windowData = [], numWindows = 0\<rparr>"
proof -
  let ?f = "\<lparr>data = map real [0 ..< 40], totalFrames = 1\<rparr>"
  have pos: "0 < totalFrames ?f" by simp
  have len: "length (data ?f) = 40 * nat (totalFrames ?f)" by simp
  note t = toSlidingWindows_layout [where features = "?f" and H = 32 and zeroPad = True,
      THEN conjunct1, THEN mp, OF conjI, OF pos len]
  have n: "numWindows (toSlidingWindows ?f 256 32 True) = 1"
    using t by simp
  have l: "length (windowData (toSlidingWindows ?f 256 32 True)) = 10240"
    using t n by simp
  have row: "workingRow ?f True 3 = replicate 128 0 @ [3] @ replicate 128 0"
    by (simp add: workingRow_def bandRow_def drop_map take_map)
  have "take 256 (drop ((0 * 40 + 3) * 256) (windowData (toSlidingWindows ?f 256 32 True))) =
        take 256 (drop (0 * nat (max 1 32)) (workingRow ?f True 3))"
    using t [THEN conjunct2, THEN conjunct2, THEN conjunct2, THEN conjunct1, rule_format, of 0 3] n
    by simp
  then have w: "take 256 (drop 768 (windowData (toSlidingWindows ?f 256 32 True))) = replicate 128 0 @ [3] @ replicate 127 0"
    unfolding row by simp
  have e: "toSlidingWindows \<lparr>data = [], totalFrames = 0\<rparr> 256 32 True =
             \<lparr>windowData = [], numWindows = 0\<rparr>"
    using toSlidingWindows_layout [where features = "\<lparr>data = [], totalFrames = 0\<rparr>" and H = 32
        and zeroPad = True, THEN conjunct2, THEN conjunct1]
    by simp
  from n l w e show ?thesis by simp
qed

text \<open>
  Claim C5 as stated fails in three places. The empty tensor yields no window at all. With
  \<open>zeroPad\<close>, a tensor of 32 frames (shorter than one window) and hop 32 yields two
  windows. With hop 0 the code steps by \<open>max 1 H = 1\<close>: for a one-frame tensor of ones
  and \<open>zeroPad\<close>, position 127 of window 1 (band 0) holds the frame 128 of the working
  row, which is 1, while the frame at offset \<open>n * H + 127 = 127\<close> is 0.
\<close>

theorem toSlidingWindows_counterexample:
  "numWindows (toSlidingWindows \<lparr>data = [], totalFrames = 0\<rparr> 256 128 False) = 0 \<and>
   numWindows (toSlidingWindows \<lparr>data = replicate 1280 1, totalFrames = 32\<rparr> 256 32 True) = 2 \<and>
   windowData (toSlidingWindows \<lparr>data = replicate 40 1, totalFrames = 1\<rparr> 256 0 True) ! ((1 * 40 + 0) * 256 + 127) = 1 \<and>
   workingRow \<lparr>data = replicate 40 1, totalFrames = 1\<rparr> True 0 ! (1 * 0 + 127) = 0"
proof -
  have a: "numWindows (toSlidingWindows \<lparr>data = [], totalFrames = 0\<rparr> 256 128 False) = 0"
    by (simp add: toSlidingWindows_def)
  let ?f = "\<lparr>data = replicate 1280 (1::real), totalFrames = 32\<rparr>"
  have "0 < totalFrames ?f" "length (data ?f) = 40 * nat (totalFrames ?f)" by simp_all
  from toSlidingWindows_core(1) [OF this, where H = 32 and zeroPad = True]
  have b: "numWindows (toSlidingWindows ?f 256 32 True) = 2" by simp
  let ?g = "\<lparr>data = replicate 40 (1::real), totalFrames = 1\<rparr>"
  have g: "0 < totalFrames ?g" "length (data ?g) = 40 * nat (totalFrames ?g)" by simp_all
  have row: "workingRow ?g True 0 = replicate 128 0 @ [1] @ replicate 128 0"
    by (simp add: workingRow_def bandRow_def)
  have "windowData (toSlidingWindows ?g 256 0 True) ! ((1 * 40 + 0) * 256 + 127)
          = workingRow ?g True 0 ! (1 * nat (max 1 0) + 127)"
    by (rule toSlidingWindows_core(3) [OF g, where H = 0 and zeroPad = True]) simp_all
  then have c: "windowData (toSlidingWindows ?g 256 0 True) ! ((1 * 40 + 0) * 256 + 127) = 1"
    unfolding row by (simp add: nth_append)
  have d: "workingRow ?g True 0 ! (1 * 0 + 127) = 0"
    unfolding row by (simp add: nth_append)
  from a b c d show ?thesis by blast
qed

section \<open>Tempo: the mel stage and the estimator on short inputs\<close>

lemma length_storeFrame: "length (storeFrame frameCount frameIndex melValues store) = length store"
proof -
  have "length (fold (\<lambda>mel d. d[mel * frameCount + frameIndex := melValues ! mel]) ms store) = length store" for ms
    by (induction ms arbitrary: store) simp_all
  then show ?thesis by (simp add: storeFrame_def)
qed

lemma length_fold_storeFrame:
  "length (fold (\<lambda>frameIndex. storeFrame frameCount frameIndex (g frameIndex)) fs store) = length store"
  by (induction fs arbitrary: store) (simp_all add: length_storeFrame)

lemma computeMelSpectrogram_shape:
  assumes "monoSamples \<noteq> []"
  shows "totalFrames (computeMelSpectrogram monoSamples) = 1 + int (length monoSamples div 512)"
    and "length (data (computeMelSpectrogram monoSamples)) = 40 * (1 + length monoSamples div 512)"
proof -
  let ?padded = "std_copy monoSamples 0 (length monoSamples)
                   (replicate (length monoSamples + nat (kNfft div 2 * 2)) 0) (nat (kNfft div 2))"
  have lp: "length ?padded = length monoSamples + 1024"
    by (simp add: std_copy_def kNfft_def)
  have fc: "1 + int ((length ?padded - nat kNfft) div nat kStftHopLength) = 1 + int (length monoSamples div 512)"
    unfolding lp by (simp add: kNfft_def kStftHopLength_def)
  have ge: "\<not> length ?padded < nat kNfft" unfolding lp by (simp add: kNfft_def)
  show "totalFrames (computeMelSpectrogram monoSamples) = 1 + int (length monoSamples div 512)"
    using assms ge unfolding computeMelSpectrogram_def Let_def fc by simp
  show "length (data (computeMelSpectrogram monoSamples)) = 40 * (1 + length monoSamples div 512)"
    using assms ge unfolding computeMelSpectrogram_def Let_def fc
    by (simp add: length_fold_storeFrame kMelBands_def nat_add_distrib nat_mult_distrib del: upt_Suc)
qed

lemma computeMelSpectrogram_empty: "computeMelSpectrogram [] = \<lparr>data = [], totalFrames = 0\<rparr>"
  by (simp add: computeMelSpectrogram_def)

text \<open>For a non-empty input the estimator gets as far as the run of the model on the
  global windows.\<close>

lemma estimate_reaches_model:
  assumes "monoSamples \<noteq> []"
  defines "mel \<equiv> computeMelSpectrogram monoSamples"
  defines "globalWindows \<equiv> toSlidingWindows mel kWindowFrames kGlobalHopFrames False"
  shows "0 < numWindows globalWindows"
    and "estimate session monoSamples options =
      (case runModel session (normalizeByMax (windowData globalWindows)) (numWindows globalWindows) of
         Inl e \<Rightarrow> Inl e
       | Inr globalPrediction \<Rightarrow>
           let averaged = averagePredictions globalPrediction (numWindows globalWindows);
               coarseIndex = argmax averaged;
               finalIndex = (if interpolate options
                             then interpolateArgmax averaged coarseIndex
                             else of_int coarseIndex);
               result = \<lparr>resultBpm = classIndexToBpm finalIndex, tempoMap = []\<rparr>
           in if localTempo options then
                case localTempoMap session mel of
                  Inl e \<Rightarrow> Inl e
                | Inr points \<Rightarrow> Inr (result\<lparr>tempoMap := points\<rparr>)
              else Inr result)"
proof -
  have pos: "0 < totalFrames mel" and len: "length (data mel) = 40 * nat (totalFrames mel)"
    using computeMelSpectrogram_shape [OF assms(1)] unfolding mel_def by simp_all
  have ne: "data mel \<noteq> []" using pos len by auto
  note core = toSlidingWindows_core [OF pos len, where H = 128 and zeroPad = False]
  have nw: "0 < numWindows globalWindows"
    unfolding globalWindows_def kWindowFrames_def kGlobalHopFrames_def core(1) by simp
  have "length (windowData globalWindows) \<noteq> 0"
    unfolding globalWindows_def kWindowFrames_def kGlobalHopFrames_def core(2) by simp
  then have wne: "windowData globalWindows \<noteq> []" by auto
  show "0 < numWindows globalWindows" by (rule nw)
  show "estimate session monoSamples options = (case runModel session (normalizeByMax (windowData globalWindows)) (numWindows globalWindows) of
         Inl e \<Rightarrow> Inl e
       | Inr globalPrediction \<Rightarrow>
           let averaged = averagePredictions globalPrediction (numWindows globalWindows);
               coarseIndex = argmax averaged;
               finalIndex = (if interpolate options
                             then interpolateArgmax averaged coarseIndex
                             else of_int coarseIndex);
               result = \<lparr>resultBpm = classIndexToBpm finalIndex, tempoMap = []\<rparr>
           in if localTempo options then
                case localTempoMap session mel of
                  Inl e \<Rightarrow> Inl e
                | Inr points \<Rightarrow> Inr (result\<lparr>tempoMap := points\<rparr>)
              else Inr result)"
    using assms(1) pos ne nw wne
    unfolding estimate_def Let_def mel_def [symmetric] globalWindows_def [symmetric]
    by simp
qed

lemma fold_unchanged: "(\<And>x. x \<in> set xs \<Longrightarrow> f x a = a) \<Longrightarrow> fold f xs a = a"
  by (induction xs) simp_all

lemma argmaxFrom_first:
  assumes "\<forall>i < count. values ! (rowOffset + i) \<le> values ! rowOffset"
  shows "argmaxFrom values rowOffset count = 0"
proof -
  have "fold (\<lambda>index (bestIndex, bestValue).
                  if values ! (rowOffset + index) > bestValue
                  then (int index, values ! (rowOffset + index))
                  else (bestIndex, bestValue))
               [1 ..< count] (0, values ! rowOffset) = (0, values ! rowOffset)"
    using assms by (intro fold_unchanged) (auto simp add: not_less)
  then show ?thesis by (simp add: argmaxFrom_def)
qed

lemma averagePredictions_zero:
  assumes "0 < n" "\<forall>k < nat n * 256. predictions ! k = 0"
  shows "averagePredictions predictions n = replicate 256 0"
proof -
  let ?z = "replicate (nat kTempoClasses) (0::real)"
  have inner: "fold (\<lambda>col acc. acc[col := acc ! col + predictions ! (row * nat kTempoClasses + col)])
                    [0 ..< nat kTempoClasses] acc = acc" if "row < nat n" for row acc
  proof (rule fold_unchanged)
    fix col assume "col \<in> set [0 ..< nat kTempoClasses]"
    then have col: "col < 256" by (simp add: kTempoClasses_def)
    have "row * 256 + 256 \<le> nat n * 256" using block_mono [OF that, of 256] .
    then have "row * 256 + col < nat n * 256" using col by linarith
    then have "predictions ! (row * nat kTempoClasses + col) = 0"
      using assms(2) by (simp add: kTempoClasses_def)
    then show "acc[col := acc ! col + predictions ! (row * nat kTempoClasses + col)] = acc"
      by simp
  qed
  have outer: "fold (\<lambda>row averaged.
                   fold (\<lambda>col acc. acc[col := acc ! col + predictions ! (row * nat kTempoClasses + col)])
                        [0 ..< nat kTempoClasses] averaged)
                 [0 ..< nat n] ?z = ?z"
    by (rule fold_unchanged) (simp add: inner)
  show ?thesis
    using assms(1) unfolding averagePredictions_def Let_def outer
    by (simp add: kTempoClasses_def)
qed

lemma argmax_zeros: "argmax (replicate 256 0) = 0"
  unfolding argmax_def by (simp add: argmaxFrom_first)

lemma runModel_zeroSession:
  assumes "0 < n"
  shows "runModel zeroSession input n = Inr (replicate (nat n * 256) 0)"
  using assms by (simp add: runModel_def zeroSession_def kTempoClasses_def nat_mult_distrib)

lemma runModel_noTensorSession:
  assumes "0 < n"
  shows "runModel noTensorSession input n = Inl (RuntimeError ''TempoCNN ONNX runtime returned no tensor output.'')"
  using assms by (simp add: runModel_def noTensorSession_def)

lemma runModel_Inl:
  assumes "runModel session input n = Inl e"
  shows "e = RuntimeError ''TempoCNN input tensor is empty.'' \<or>
         e = RuntimeError ''TempoCNN ONNX runtime returned no tensor output.'' \<or>
         e = RuntimeError ''TempoCNN ONNX output shape mismatch.'' \<or>
         (\<exists>msg. e = OrtException msg)"
  using assms by (auto simp add: runModel_def split: if_splits ort_output.splits)

lemma localTempoMap_Inl:
  assumes "localTempoMap session mel = Inl e"
  shows "e = RuntimeError ''TempoCNN input tensor is empty.'' \<or>
         e = RuntimeError ''TempoCNN ONNX runtime returned no tensor output.'' \<or>
         e = RuntimeError ''TempoCNN ONNX output shape mismatch.'' \<or>
         (\<exists>msg. e = OrtException msg)"
proof -
  from assms obtain input n where "runModel session input n = Inl e"
    by (auto simp add: localTempoMap_def Let_def split: if_splits sum.splits)
  then show ?thesis by (rule runModel_Inl)
qed

lemma estimate_Inl:
  assumes ne: "monoSamples \<noteq> []" and err: "estimate session monoSamples options = Inl e"
  shows "e = RuntimeError ''TempoCNN input tensor is empty.'' \<or>
         e = RuntimeError ''TempoCNN ONNX runtime returned no tensor output.'' \<or>
         e = RuntimeError ''TempoCNN ONNX output shape mismatch.'' \<or>
         (\<exists>msg. e = OrtException msg)"
proof -
  from err [unfolded estimate_reaches_model(2) [OF ne]]
  have "(\<exists>input n. runModel session input n = Inl e) \<or>
        localTempoMap session (computeMelSpectrogram monoSamples) = Inl e"
    by (auto simp add: Let_def split: sum.splits if_splits)
  then show ?thesis using runModel_Inl localTempoMap_Inl by blast
qed

lemma global_windows_short:
  assumes "monoSamples \<noteq> []" "length monoSamples < 1024"
  shows "numWindows (toSlidingWindows (computeMelSpectrogram monoSamples) kWindowFrames kGlobalHopFrames False) = 1"
proof -
  let ?mel = "computeMelSpectrogram monoSamples"
  have tf: "totalFrames ?mel = 1 + int (length monoSamples div 512)"
    and len: "length (data ?mel) = 40 * nat (totalFrames ?mel)"
    using computeMelSpectrogram_shape [OF assms(1)] by simp_all
  have pos: "0 < totalFrames ?mel" using tf by simp
  have "length monoSamples div 512 \<le> 1" using assms(2) by simp
  then have small: "nat (totalFrames ?mel) \<le> 256" using tf by simp
  show ?thesis
    unfolding kWindowFrames_def kGlobalHopFrames_def
      toSlidingWindows_core(1) [OF pos len, where H = 128 and zeroPad = False]
    using small by (simp add: max_def)
qed

lemma runModel_Inl_pos:
  assumes "0 < n" "runModel session input n = Inl e"
  shows "e = RuntimeError ''TempoCNN ONNX runtime returned no tensor output.'' \<or>
         e = RuntimeError ''TempoCNN ONNX output shape mismatch.'' \<or>
         (\<exists>msg. e = OrtException msg)"
  using assms by (auto simp add: runModel_def split: if_splits ort_output.splits)

lemma localTempoMap_Inl_session:
  assumes "localTempoMap session mel = Inl e"
  shows "e = RuntimeError ''TempoCNN ONNX runtime returned no tensor output.'' \<or>
         e = RuntimeError ''TempoCNN ONNX output shape mismatch.'' \<or>
         (\<exists>msg. e = OrtException msg)"
proof -
  from assms obtain input n where "0 < n" "runModel session input n = Inl e"
    by (auto simp add: localTempoMap_def Let_def split: if_splits sum.splits)
  then show ?thesis by (rule runModel_Inl_pos)
qed

lemma estimate_Inl_session:
  assumes ne: "monoSamples \<noteq> []" and err: "estimate session monoSamples options = Inl e"
  shows "e = RuntimeError ''TempoCNN ONNX runtime returned no tensor output.'' \<or>
         e = RuntimeError ''TempoCNN ONNX output shape mismatch.'' \<or>
         (\<exists>msg. e = OrtException msg)"
proof -
  let ?gw = "toSlidingWindows (computeMelSpectrogram monoSamples) kWindowFrames kGlobalHopFrames False"
  from err [unfolded estimate_reaches_model(2) [OF ne]]
  have "runModel session (normalizeByMax (windowData ?gw)) (numWindows ?gw) = Inl e \<or>
        localTempoMap session (computeMelSpectrogram monoSamples) = Inl e"
    by (auto simp add: Let_def split: sum.splits if_splits)
  then show ?thesis
    using runModel_Inl_pos [OF estimate_reaches_model(1) [OF ne]] localTempoMap_Inl_session by blast
qed

lemma estimate_empty_iff:
  "(estimate session samples options = Inl (RuntimeError ''Input audio is empty.'')) = (samples = [])"
proof
  assume e: "estimate session samples options = Inl (RuntimeError ''Input audio is empty.'')"
  show "samples = []"
  proof (rule ccontr)
    assume "samples \<noteq> []"
    from estimate_Inl_session [OF this e] show False by simp
  qed
next
  assume "samples = []"
  then show "estimate session samples options = Inl (RuntimeError ''Input audio is empty.'')"
    by (simp add: estimate_def)
qed

lemma runModel_one_window:
  "runModel session input 1 =
     (case session input [1, kMelBands, kWindowFrames, 1] of
        OrtThrows msg \<Rightarrow> Inl (OrtException msg)
      | OrtNoTensor \<Rightarrow> Inl (RuntimeError ''TempoCNN ONNX runtime returned no tensor output.'')
      | OrtTensor shape outputData \<Rightarrow>
          if length shape \<noteq> 2 \<or> shape ! 0 \<noteq> 1 \<or> shape ! 1 \<noteq> kTempoClasses
          then Inl (RuntimeError ''TempoCNN ONNX output shape mismatch.'')
          else Inr (take (nat kTempoClasses) outputData))"
  by (simp add: runModel_def split: ort_output.splits)

text \<open>
  Claim C4, as amended. The input is padded by 512 zeros on each side before the frames are
  counted, so a non-empty input of \<open>n < 1024\<close> samples gives a non-empty tensor of 40
  bands by \<open>1 + n div 512\<close> frames (one or two). The estimator does not stop on it: it
  builds exactly one global window of 40 by 256 values and runs the model on it, that is,
  its result is computed from the answer of the runtime to the normalised window with the
  shape \<open>[1, 40, 256, 1]\<close>; so it fails with none of its own errors, only with those of
  the runtime. For inputs of any length, it raises \<^verbatim>\<open>Input audio is empty.\<close> exactly
  for the input without samples.
\<close>

theorem short_input_reaches_model:
  assumes "monoSamples \<noteq> []" "length monoSamples < 1024"
  defines "mel \<equiv> computeMelSpectrogram monoSamples"
  defines "globalWindows \<equiv> toSlidingWindows mel kWindowFrames kGlobalHopFrames False"
  shows "totalFrames mel = 1 + int (length monoSamples div 512) \<and>
         totalFrames mel \<le> 2 \<and>
         length (data mel) = 40 * nat (totalFrames mel) \<and>
         data mel \<noteq> [] \<and>
         numWindows globalWindows = 1 \<and>
         length (windowData globalWindows) = 40 * 256 \<and>
         estimate session monoSamples options =
           (case runModel session (normalizeByMax (windowData globalWindows)) 1 of
              Inl e \<Rightarrow> Inl e
            | Inr globalPrediction \<Rightarrow>
                let averaged = averagePredictions globalPrediction 1;
                    coarseIndex = argmax averaged;
                    finalIndex = (if interpolate options
                                  then interpolateArgmax averaged coarseIndex
                                  else of_int coarseIndex);
                    result = \<lparr>resultBpm = classIndexToBpm finalIndex, tempoMap = []\<rparr>
                in if localTempo options then
                     case localTempoMap session mel of
                       Inl e \<Rightarrow> Inl e
                     | Inr points \<Rightarrow> Inr (result\<lparr>tempoMap := points\<rparr>)
                   else Inr result) \<and>
         runModel session (normalizeByMax (windowData globalWindows)) 1 =
           (case session (normalizeByMax (windowData globalWindows)) [1, kMelBands, kWindowFrames, 1] of
              OrtThrows msg \<Rightarrow> Inl (OrtException msg)
            | OrtNoTensor \<Rightarrow> Inl (RuntimeError ''TempoCNN ONNX runtime returned no tensor output.'')
            | OrtTensor shape outputData \<Rightarrow>
                if length shape \<noteq> 2 \<or> shape ! 0 \<noteq> 1 \<or> shape ! 1 \<noteq> kTempoClasses
                then Inl (RuntimeError ''TempoCNN ONNX output shape mismatch.'')
                else Inr (take (nat kTempoClasses) outputData)) \<and>
         estimate session monoSamples options \<noteq> Inl (RuntimeError ''Input audio is empty.'') \<and>
         estimate session monoSamples options \<noteq> Inl (RuntimeError ''Failed to compute mel features.'') \<and>
         estimate session monoSamples options \<noteq> Inl (RuntimeError ''Failed to build global tempo windows.'') \<and>
         estimate session monoSamples options \<noteq> Inl (RuntimeError ''TempoCNN input tensor is empty.'') \<and>
         (\<forall>samples. (estimate session samples options = Inl (RuntimeError ''Input audio is empty.''))
                      = (samples = []))"
proof -
  have tf: "totalFrames mel = 1 + int (length monoSamples div 512)"
    and len: "length (data mel) = 40 * nat (totalFrames mel)"
    unfolding mel_def using computeMelSpectrogram_shape [OF assms(1)] by simp_all
  have pos: "0 < totalFrames mel" using tf by simp
  have "length monoSamples div 512 \<le> 1" using assms(2) by simp
  then have le2: "totalFrames mel \<le> 2" using tf by simp
  have ne: "data mel \<noteq> []" using tf len by auto
  have nw: "numWindows globalWindows = 1"
    unfolding globalWindows_def mel_def by (rule global_windows_short [OF assms(1,2)])
  have small: "nat (totalFrames mel) \<le> 256" using le2 by simp
  have wl: "length (windowData globalWindows) = 40 * 256"
    unfolding globalWindows_def kWindowFrames_def kGlobalHopFrames_def
    using toSlidingWindows_core(2) [OF pos len, where H = 128 and zeroPad = False] small
    by (simp add: max_def)
  have run: "estimate session monoSamples options =
           (case runModel session (normalizeByMax (windowData globalWindows)) 1 of
              Inl e \<Rightarrow> Inl e
            | Inr globalPrediction \<Rightarrow>
                let averaged = averagePredictions globalPrediction 1;
                    coarseIndex = argmax averaged;
                    finalIndex = (if interpolate options
                                  then interpolateArgmax averaged coarseIndex
                                  else of_int coarseIndex);
                    result = \<lparr>resultBpm = classIndexToBpm finalIndex, tempoMap = []\<rparr>
                in if localTempo options then
                     case localTempoMap session mel of
                       Inl e \<Rightarrow> Inl e
                     | Inr points \<Rightarrow> Inr (result\<lparr>tempoMap := points\<rparr>)
                   else Inr result)"
    unfolding globalWindows_def mel_def estimate_reaches_model(2) [OF assms(1)]
      global_windows_short [OF assms(1,2)]
    by (rule refl)
  have errs: "estimate session monoSamples options \<noteq> Inl (RuntimeError ''Input audio is empty.'')"
    "estimate session monoSamples options \<noteq> Inl (RuntimeError ''Failed to compute mel features.'')"
    "estimate session monoSamples options \<noteq> Inl (RuntimeError ''Failed to build global tempo windows.'')"
    "estimate session monoSamples options \<noteq> Inl (RuntimeError ''TempoCNN input tensor is empty.'')"
    using estimate_Inl_session [OF assms(1), of session options] by auto
  have iff: "\<forall>samples. (estimate session samples options = Inl (RuntimeError ''Input audio is empty.''))
                      = (samples = [])"
    using estimate_empty_iff by blast
  show ?thesis
    apply (intro conjI)
                apply (rule tf)
               apply (rule le2)
              apply (rule len)
             apply (rule ne)
            apply (rule nw)
           apply (rule wl)
          apply (rule run)
         apply (rule runModel_one_window)
        apply (rule errs(1))
       apply (rule errs(2))
      apply (rule errs(3))
     apply (rule errs(4))
    apply (rule iff)
    done
qed

text \<open>On the input of one sample the result is the answer of the runtime: with the runtime
  that returns no tensor, the estimator fails with the error of that case.\<close>

theorem short_input_reaches_model_witness:
  "totalFrames (computeMelSpectrogram [0]) = 1 \<and>
   length (data (computeMelSpectrogram [0])) = 40 \<and>
   numWindows (toSlidingWindows (computeMelSpectrogram [0]) kWindowFrames kGlobalHopFrames False) = 1 \<and>
   estimate noTensorSession [0] \<lparr>interpolate = False, localTempo = False\<rparr>
     = Inl (RuntimeError ''TempoCNN ONNX runtime returned no tensor output.'') \<and>
   estimate noTensorSession [0] \<lparr>interpolate = False, localTempo = False\<rparr>
     \<noteq> Inl (RuntimeError ''Input audio is empty.'') \<and>
   estimate noTensorSession [] \<lparr>interpolate = False, localTempo = False\<rparr>
     = Inl (RuntimeError ''Input audio is empty.'')"
proof -
  have a: "[0] \<noteq> ([] :: real list)" and b: "length [0::real] < 1024" by simp_all
  note t = short_input_reaches_model [OF a b, of noTensorSession "\<lparr>interpolate = False, localTempo = False\<rparr>"]
  have shape: "totalFrames (computeMelSpectrogram [0]) = 1"
    "length (data (computeMelSpectrogram [0])) = 40"
    "numWindows (toSlidingWindows (computeMelSpectrogram [0]) kWindowFrames kGlobalHopFrames False) = 1"
    using t by simp_all
  have r: "runModel noTensorSession
             (normalizeByMax (windowData (toSlidingWindows (computeMelSpectrogram [0])
                 kWindowFrames kGlobalHopFrames False))) 1 =
           Inl (RuntimeError ''TempoCNN ONNX runtime returned no tensor output.'')"
    unfolding t [THEN conjunct2, THEN conjunct2, THEN conjunct2, THEN conjunct2, THEN conjunct2,
                 THEN conjunct2, THEN conjunct2, THEN conjunct1]
    by (simp add: noTensorSession_def)
  have e: "estimate noTensorSession [0] \<lparr>interpolate = False, localTempo = False\<rparr>
     = Inl (RuntimeError ''TempoCNN ONNX runtime returned no tensor output.'')"
    unfolding t [THEN conjunct2, THEN conjunct2, THEN conjunct2, THEN conjunct2, THEN conjunct2,
                 THEN conjunct2, THEN conjunct1] r
    by simp
  have n: "estimate noTensorSession [] \<lparr>interpolate = False, localTempo = False\<rparr>
     = Inl (RuntimeError ''Input audio is empty.'')"
    using t [THEN conjunct2, THEN conjunct2, THEN conjunct2, THEN conjunct2, THEN conjunct2,
             THEN conjunct2, THEN conjunct2, THEN conjunct2, THEN conjunct2, THEN conjunct2,
             THEN conjunct2, THEN conjunct2, rule_format, of "[]"]
    by simp
  show ?thesis using shape e n by simp
qed

text \<open>
  Claim C4 as stated fails on the input of one sample: the mel stage returns one frame of
  40 values, and with a runtime that returns the all-zero posterior the estimator returns
  30 bpm.
\<close>

theorem short_input_counterexample:
  "totalFrames (computeMelSpectrogram [0]) = 1 \<and>
   length (data (computeMelSpectrogram [0])) = 40 \<and>
   estimate zeroSession [0] \<lparr>interpolate = True, localTempo = False\<rparr>
     = Inr \<lparr>resultBpm = 30, tempoMap = []\<rparr>"
proof -
  have a: "[0] \<noteq> ([] :: real list)" and b: "length [0::real] < 1024" by simp_all
  note shape = computeMelSpectrogram_shape [OF a]
  have nw: "numWindows (toSlidingWindows (computeMelSpectrogram [0]) kWindowFrames kGlobalHopFrames False) = 1"
    by (rule global_windows_short [OF a b])
  have bpm: "classIndexToBpm (interpolateArgmax (replicate 256 0) 0) = 30"
    by (simp add: interpolateArgmax_def classIndexToBpm_def clampDouble_def kTempoMinBpm_def kTempoMaxBpm_def)
  have "estimate zeroSession [0] \<lparr>interpolate = True, localTempo = False\<rparr>
          = Inr \<lparr>resultBpm = 30, tempoMap = []\<rparr>"
    unfolding estimate_reaches_model(2) [OF a] nw
    by (simp add: runModel_zeroSession averagePredictions_zero argmax_zeros bpm)
  then show ?thesis using shape by simp
qed

section \<open>Tempo: the tempo map\<close>

subsection \<open>Rounding to six decimals\<close>

lemma std_round_nonneg: "0 \<le> x \<Longrightarrow> std_round x = of_int \<lfloor>x + 1/2\<rfloor>"
  by (simp add: std_round_def)

lemma roundToDecimals_6: "0 \<le> x \<Longrightarrow> roundToDecimals x 6 = of_int \<lfloor>x * 1000000 + 1/2\<rfloor> / 1000000"
  by (simp add: roundToDecimals_def std_round_def)

lemma roundToDecimals_range:
  assumes "20 \<le> x" "x \<le> 300"
  shows "20 \<le> roundToDecimals x 6 \<and> roundToDecimals x 6 \<le> 300"
proof -
  have x0: "0 \<le> x" using assms by simp
  have lo: "(20000000::int) \<le> \<lfloor>x * 1000000 + 1/2\<rfloor>"
    using assms by (simp add: le_floor_iff)
  have hi: "\<lfloor>x * 1000000 + 1/2\<rfloor> \<le> (300000000::int)"
  proof -
    have "x * 1000000 + 1/2 < of_int (300000001::int)" using assms by simp
    then have "\<lfloor>x * 1000000 + 1/2\<rfloor> < (300000001::int)" by (simp only: floor_less_iff)
    then show ?thesis by simp
  qed
  have "(20::real) \<le> of_int \<lfloor>x * 1000000 + 1/2\<rfloor> / 1000000"
    using lo by (simp add: le_divide_eq)
  moreover have "of_int \<lfloor>x * 1000000 + 1/2\<rfloor> / 1000000 \<le> (300::real)"
    using hi by (simp add: divide_le_eq)
  ultimately show ?thesis unfolding roundToDecimals_6 [OF x0] by simp
qed

lemma roundToDecimals_strict_mono:
  assumes "0 \<le> x" "x + 1 / 1000000 \<le> y"
  shows "roundToDecimals x 6 < roundToDecimals y 6"
proof -
  have y0: "0 \<le> y" using assms by simp
  have "x * 1000000 + 1/2 + 1 \<le> y * 1000000 + 1/2" using assms(2) by simp
  then have "\<lfloor>x * 1000000 + 1/2 + 1\<rfloor> \<le> \<lfloor>y * 1000000 + 1/2\<rfloor>" by (rule floor_mono)
  moreover have "\<lfloor>x * 1000000 + 1/2 + 1\<rfloor> = \<lfloor>x * 1000000 + 1/2\<rfloor> + 1"
    using floor_add_int [of "x * 1000000 + 1/2" 1] by simp
  ultimately have "\<lfloor>x * 1000000 + 1/2\<rfloor> < \<lfloor>y * 1000000 + 1/2\<rfloor>" by linarith
  then show ?thesis
    unfolding roundToDecimals_6 [OF assms(1)] roundToDecimals_6 [OF y0]
    by (simp add: divide_strict_right_mono)
qed

subsection \<open>The compression loop\<close>

lemma compress_loop:
  fixes lt ok :: "TempoPoint \<Rightarrow> TempoPoint \<Rightarrow> bool"
  defines "lt \<equiv> \<lambda>a b. timeSeconds a < timeSeconds b"
  defines "ok \<equiv> \<lambda>a b. kLocalTempoMinTimeDelta \<le> timeSeconds b - timeSeconds a \<or>
                          kLocalTempoMinBpmDelta \<le> \<bar>bpm b - bpm a\<bar>"
  defines "step \<equiv> \<lambda>current compressed.
                      let lastPoint = last compressed;
                          timeDelta = timeSeconds current - timeSeconds lastPoint;
                          bpmDelta = \<bar>bpm current - bpm lastPoint\<bar>
                      in if timeDelta < kLocalTempoMinTimeDelta \<and> bpmDelta < kLocalTempoMinBpmDelta
                         then compressed
                         else compressed @ [current]"
  assumes "acc \<noteq> []" "sorted_wrt lt (acc @ xs)" "successively ok acc"
  shows "set (fold step xs acc) \<subseteq> set acc \<union> set xs \<and>
         sorted_wrt lt (fold step xs acc) \<and>
         successively ok (fold step xs acc)"
  using assms(4-)
proof (induction xs arbitrary: acc)
  case Nil
  then show ?case by simp
next
  case (Cons x xs)
  show ?case
  proof (cases "timeSeconds x - timeSeconds (last acc) < kLocalTempoMinTimeDelta \<and>
                \<bar>bpm x - bpm (last acc)\<bar> < kLocalTempoMinBpmDelta")
    case True
    then have s: "step x acc = acc" by (simp add: step_def Let_def)
    have "sorted_wrt lt (acc @ xs)" using Cons.prems(2) by (auto simp add: sorted_wrt_append)
    from Cons.IH [OF Cons.prems(1) this Cons.prems(3)]
    show ?thesis by (auto simp add: s)
  next
    case False
    then have s: "step x acc = acc @ [x]" by (simp add: step_def Let_def)
    have okx: "ok (last acc) x" using False by (auto simp add: ok_def)
    have a: "acc @ [x] \<noteq> []" by simp
    have b: "sorted_wrt lt ((acc @ [x]) @ xs)" using Cons.prems(2) by simp
    have c: "successively ok (acc @ [x])"
      using Cons.prems(1,3) okx by (simp add: successively_append_iff)
    from Cons.IH [OF a b c]
    show ?thesis by (auto simp add: s)
  qed
qed

lemma compressTempoPoints_invariants:
  assumes hop: "1 / 1000000 \<le> hopSeconds"
  shows "(\<forall>p \<in> set (compressTempoPoints bpmSeries hopSeconds).
            20 \<le> bpm p \<and> bpm p \<le> 300 \<and>
            (\<exists>index b. timeSeconds p = roundToDecimals (real index * hopSeconds) 6 \<and>
                       bpm p = roundToDecimals b 6)) \<and>
         sorted_wrt (\<lambda>a b. timeSeconds a < timeSeconds b) (compressTempoPoints bpmSeries hopSeconds) \<and>
         successively (\<lambda>a b. kLocalTempoMinTimeDelta \<le> timeSeconds b - timeSeconds a \<or>
                              kLocalTempoMinBpmDelta \<le> \<bar>bpm b - bpm a\<bar>)
           (compressTempoPoints bpmSeries hopSeconds)"
proof -
  let ?pt = "\<lambda>index. \<lparr>timeSeconds = roundToDecimals (real index * hopSeconds) 6,
                        bpm = roundToDecimals (clampDouble (bpmSeries ! index) kTempoMinBpm kTempoMaxBpm) 6\<rparr>"
  let ?raw = "map ?pt [0 ..< length bpmSeries]"
  let ?lt = "\<lambda>a b. timeSeconds a < (timeSeconds b :: real)"
  have hop0: "0 \<le> hopSeconds" using hop by simp
  have raw_range: "20 \<le> bpm p \<and> bpm p \<le> 300 \<and>
            (\<exists>index b. timeSeconds p = roundToDecimals (real index * hopSeconds) 6 \<and>
                       bpm p = roundToDecimals b 6)" if "p \<in> set ?raw" for p
  proof -
    from that obtain index where p: "p = ?pt index" by auto
    have "20 \<le> clampDouble (bpmSeries ! index) kTempoMinBpm kTempoMaxBpm"
         "clampDouble (bpmSeries ! index) kTempoMinBpm kTempoMaxBpm \<le> 300"
      by (simp_all add: clampDouble_def kTempoMinBpm_def kTempoMaxBpm_def)
    from roundToDecimals_range [OF this] show ?thesis unfolding p by auto
  qed
  have mono: "timeSeconds (?pt i) < timeSeconds (?pt j)" if "i < j" for i j
  proof -
    have "real i + 1 \<le> real j" using that by simp
    then have "(real i + 1) * hopSeconds \<le> real j * hopSeconds"
      using hop0 by (rule mult_right_mono)
    then have "real i * hopSeconds + 1 / 1000000 \<le> real j * hopSeconds"
      using hop by (simp add: algebra_simps)
    moreover have "0 \<le> real i * hopSeconds" using hop0 by simp
    ultimately show ?thesis by (simp add: roundToDecimals_strict_mono)
  qed
  have raw_sorted: "sorted_wrt ?lt ?raw"
    unfolding sorted_wrt_map
    by (rule sorted_wrt_mono_rel [of _ "(<)"]) (use mono in auto)
  show ?thesis
  proof (cases "bpmSeries = []")
    case True
    then show ?thesis by (simp add: compressTempoPoints_def)
  next
    case False
    then have ne: "?raw \<noteq> []" by simp
    then have split: "[hd ?raw] @ tl ?raw = ?raw" by simp
    have c: "compressTempoPoints bpmSeries hopSeconds =
        fold (\<lambda>current compressed.
                      let lastPoint = last compressed;
                          timeDelta = timeSeconds current - timeSeconds lastPoint;
                          bpmDelta = \<bar>bpm current - bpm lastPoint\<bar>
                      in if timeDelta < kLocalTempoMinTimeDelta \<and> bpmDelta < kLocalTempoMinBpmDelta
                         then compressed
                         else compressed @ [current]) (tl ?raw) [hd ?raw]"
      using False unfolding compressTempoPoints_def Let_def by simp
    have "sorted_wrt ?lt ([hd ?raw] @ tl ?raw)" unfolding split by (rule raw_sorted)
    from compress_loop [OF _ this, folded c]
    have "set (compressTempoPoints bpmSeries hopSeconds) \<subseteq> set [hd ?raw] \<union> set (tl ?raw)"
      and s: "sorted_wrt ?lt (compressTempoPoints bpmSeries hopSeconds)"
      and k: "successively (\<lambda>a b. kLocalTempoMinTimeDelta \<le> timeSeconds b - timeSeconds a \<or>
                              kLocalTempoMinBpmDelta \<le> \<bar>bpm b - bpm a\<bar>)
           (compressTempoPoints bpmSeries hopSeconds)"
      by simp_all
    then have "set (compressTempoPoints bpmSeries hopSeconds) \<subseteq> set ?raw"
      using split by (metis set_append)
    then show ?thesis using raw_range s k by blast
  qed
qed

lemma localTempoMap_Inr:
  assumes "localTempoMap session mel = Inr points"
  shows "points = [] \<or> (\<exists>series. points = compressTempoPoints series (32 * (512 / 11025)))"
  using assms
  by (auto simp add: localTempoMap_def Let_def kLocalHopFrames_def kFeatureFrameSeconds_def
           split: if_splits sum.splits)

lemma estimate_Inr:
  assumes "estimate session monoSamples options = Inr result"
  shows "tempoMap result = [] \<or>
         (\<exists>series. tempoMap result = compressTempoPoints series (32 * (512 / 11025)))"
proof -
  have ne: "monoSamples \<noteq> []" using assms by (auto simp add: estimate_def)
  from assms [unfolded estimate_reaches_model(2) [OF ne]]
  have "tempoMap result = [] \<or>
        (\<exists>points. localTempoMap session (computeMelSpectrogram monoSamples) = Inr points \<and>
                  tempoMap result = points)"
    by (auto simp add: Let_def split: sum.splits if_splits)
  then show ?thesis using localTempoMap_Inr by blast
qed

text \<open>
  Claim C3. Whenever the estimator returns a result (in particular with \<open>localTempo\<close>
  enabled, the only case in which the tempo map is filled), every point of its tempo map
  has a bpm in \<open>[20, 300]\<close>, and its time and bpm are values rounded to six decimals;
  the times are strictly increasing; and two consecutive points are at least 0.7 s or at
  least 0.75 bpm apart, compared on the rounded values.
\<close>

theorem tempoMap_invariants:
  assumes "estimate session monoSamples options = Inr result"
  shows "(\<forall>p \<in> set (tempoMap result).
            20 \<le> bpm p \<and> bpm p \<le> 300 \<and>
            (\<exists>index b. timeSeconds p = roundToDecimals (real index * (32 * (512 / 11025))) 6 \<and>
                       bpm p = roundToDecimals b 6)) \<and>
         sorted_wrt (\<lambda>a b. timeSeconds a < timeSeconds b) (tempoMap result) \<and>
         successively (\<lambda>a b. 0.7 \<le> timeSeconds b - timeSeconds a \<or> 0.75 \<le> \<bar>bpm b - bpm a\<bar>)
           (tempoMap result)"
proof -
  have hop: "1 / 1000000 \<le> (32 * (512 / 11025) :: real)" by simp
  from estimate_Inr [OF assms] show ?thesis
  proof
    assume "tempoMap result = []"
    then show ?thesis by simp
  next
    assume "\<exists>series. tempoMap result = compressTempoPoints series (32 * (512 / 11025))"
    then obtain series where tm: "tempoMap result = compressTempoPoints series (32 * (512 / 11025))" ..
    show ?thesis
      unfolding tm
      using compressTempoPoints_invariants [OF hop, of series]
      by (simp add: kLocalTempoMinTimeDelta_def kLocalTempoMinBpmDelta_def)
  qed
qed

lemma predictionRows_zero:
  assumes "0 \<le> n"
  shows "predictionRowsToBpmSeries (replicate (nat n * 256) 0) n = replicate (nat n) 30"
proof -
  have "classIndexToBpm (of_int (argmaxFrom (replicate (nat n * 256) 0) (row * nat kTempoClasses) (nat kTempoClasses))) = 30"
    if "row < nat n" for row
  proof -
    have "row * 256 + 256 \<le> nat n * 256" using block_mono [OF that, of 256] .
    then have "\<forall>i < 256. replicate (nat n * 256) (0::real) ! (row * 256 + i) \<le> replicate (nat n * 256) 0 ! (row * 256)"
      by simp
    then have "argmaxFrom (replicate (nat n * 256) 0) (row * 256) 256 = 0"
      by (rule argmaxFrom_first)
    then show ?thesis
      by (simp add: kTempoClasses_def classIndexToBpm_def clampDouble_def kTempoMinBpm_def kTempoMaxBpm_def)
  qed
  then have "map (\<lambda>row. classIndexToBpm (of_int (argmaxFrom (replicate (nat n * 256) 0) (row * nat kTempoClasses) (nat kTempoClasses)))) [0 ..< nat n]
           = map (\<lambda>row. 30) [0 ..< nat n]"
    by (intro map_cong refl) simp
  then show ?thesis
    unfolding predictionRowsToBpmSeries_def Let_def by (simp add: map_replicate_const)
qed

lemma local_windows_32_frames:
  assumes "totalFrames mel = 32" "length (data mel) = 1280"
  shows "numWindows (toSlidingWindows mel kWindowFrames kLocalHopFrames True) = 2"
    and "windowData (toSlidingWindows mel kWindowFrames kLocalHopFrames True) \<noteq> []"
proof -
  have pos: "0 < totalFrames mel" and len: "length (data mel) = 40 * nat (totalFrames mel)"
    using assms by simp_all
  note core = toSlidingWindows_core [OF pos len, where H = 32 and zeroPad = True]
  show "numWindows (toSlidingWindows mel kWindowFrames kLocalHopFrames True) = 2"
    unfolding kWindowFrames_def kLocalHopFrames_def core(1) using assms by simp
  have "length (windowData (toSlidingWindows mel kWindowFrames kLocalHopFrames True)) \<noteq> 0"
    unfolding kWindowFrames_def kLocalHopFrames_def core(2) using assms by simp
  then show "windowData (toSlidingWindows mel kWindowFrames kLocalHopFrames True) \<noteq> []" by auto
qed

lemma compress_two_points:
  "compressTempoPoints [20, 20] (32 * (512 / 11025)) =
     [\<lparr>timeSeconds = 0, bpm = 20\<rparr>, \<lparr>timeSeconds = 1486077 / 1000000, bpm = 20\<rparr>]"
proof -
  have r0: "roundToDecimals 0 6 = 0" by (simp add: roundToDecimals_6)
  have r20: "roundToDecimals 20 6 = 20" by (simp add: roundToDecimals_6)
  have "\<lfloor>(16384 / 11025) * 1000000 + 1/2 :: real\<rfloor> = 1486077"
    by (simp add: floor_eq_iff)
  then have r1: "roundToDecimals (16384 / 11025) 6 = 1486077 / 1000000"
    by (simp add: roundToDecimals_6)
  show ?thesis
    by (simp add: compressTempoPoints_def Let_def upt_rec [of 0] upt_rec [of 1] r0 r20 r1
          clampDouble_def kTempoMinBpm_def kTempoMaxBpm_def
          kLocalTempoMinTimeDelta_def kLocalTempoMinBpmDelta_def)
qed

lemma estimate_zeroSession_two_windows:
  "estimate zeroSession (replicate 15872 0) \<lparr>interpolate = False, localTempo = True\<rparr> =
     Inr \<lparr>resultBpm = 30,
          tempoMap = [\<lparr>timeSeconds = 0, bpm = 20\<rparr>, \<lparr>timeSeconds = 1486077 / 1000000, bpm = 20\<rparr>]\<rparr>"
proof -
  let ?xs = "replicate 15872 (0::real)"
  let ?mel = "computeMelSpectrogram ?xs"
  have ne: "?xs \<noteq> []" by simp
  have tf: "totalFrames ?mel = 32" and len: "length (data ?mel) = 1280"
    using computeMelSpectrogram_shape [OF ne] by simp_all
  have pos: "0 < totalFrames ?mel" and len': "length (data ?mel) = 40 * nat (totalFrames ?mel)"
    using tf len by simp_all
  have gw: "numWindows (toSlidingWindows ?mel kWindowFrames kGlobalHopFrames False) = 1"
    unfolding kWindowFrames_def kGlobalHopFrames_def
      toSlidingWindows_core(1) [OF pos len', where H = 128 and zeroPad = False]
    using tf by simp
  note lw = local_windows_32_frames [OF tf len]
  note ws = windowSum_2 [of "[30, 30]", unfolded window_sum]
  have ma: "movingAverageSame [30, 30] 5 = [12, 12]"
    using ws [of 0] ws [of 1]
    by (simp add: movingAverageSame_def width5 upt_rec [of 0] upt_rec [of 1])
  have local: "localTempoMap zeroSession ?mel =
      Inr [\<lparr>timeSeconds = 0, bpm = 20\<rparr>, \<lparr>timeSeconds = 1486077 / 1000000, bpm = 20\<rparr>]"
    unfolding localTempoMap_def Let_def lw(1)
    using lw(2) predictionRows_zero [of 2] compress_two_points
    by (simp add: runModel_zeroSession ma kLocalSmoothingWindow_def kLocalHopFrames_def
          kFeatureFrameSeconds_def clampDouble_def kTempoMinBpm_def kTempoMaxBpm_def
          numeral_2_eq_2)
  show ?thesis
    unfolding estimate_reaches_model(2) [OF ne] gw local
    by (simp add: runModel_zeroSession averagePredictions_zero argmax_zeros
          classIndexToBpm_def clampDouble_def kTempoMinBpm_def kTempoMaxBpm_def)
qed

theorem tempoMap_invariants_witness:
  "estimate zeroSession (replicate 15872 0) \<lparr>interpolate = False, localTempo = True\<rparr> =
     Inr \<lparr>resultBpm = 30,
          tempoMap = [\<lparr>timeSeconds = 0, bpm = 20\<rparr>, \<lparr>timeSeconds = 1486077 / 1000000, bpm = 20\<rparr>]\<rparr> \<and>
   sorted_wrt (\<lambda>a b. timeSeconds a < timeSeconds b)
     [\<lparr>timeSeconds = 0, bpm = 20\<rparr>, \<lparr>timeSeconds = 1486077 / 1000000, bpm = (20::real)\<rparr>] \<and>
   successively (\<lambda>a b. 0.7 \<le> timeSeconds b - timeSeconds a \<or> 0.75 \<le> \<bar>bpm b - bpm a\<bar>)
     [\<lparr>timeSeconds = 0, bpm = 20\<rparr>, \<lparr>timeSeconds = 1486077 / 1000000, bpm = (20::real)\<rparr>]"
  using tempoMap_invariants [OF estimate_zeroSession_two_windows] estimate_zeroSession_two_windows
  by simp

section \<open>The ring buffers of the network driver\<close>

lemma wrapIndex_mod: "0 \<le> i \<Longrightarrow> 0 < d \<Longrightarrow> wrapIndex i d = i mod d"
  using pos_mod_sign [of d i]
  by (simp add: wrapIndex_def signed_modulo_int_def sgn_if Let_def not_less)

lemma mod_distinct:
  fixes u k D :: nat
  assumes "u < k" "k < u + D"
  shows "u mod D \<noteq> k mod D"
proof
  assume "u mod D = k mod D"
  then have "D dvd k - u" using assms(1) by (metis mod_eq_dvd_iff_nat less_imp_le)
  moreover have "0 < k - u" "k - u < D" using assms by linarith+
  ultimately show False by (auto dest: dvd_imp_le)
qed

lemma ring_run:
  fixes B :: "nat \<Rightarrow> 'r list" and I :: "nat \<Rightarrow> int" and d :: int
  assumes d: "1 \<le> d" and B0: "B 0 = replicate (nat d) z" and I0: "I 0 = 0"
    and step: "\<forall>k < n. \<exists>w. B (Suc k) = (B k)[nat (I k) := w] \<and>
                           I (Suc k) = (if I k = d - 1 then 0 else I k + 1)"
    and t: "t < n"
  shows "I t = int t mod d"
    and "I (Suc t) = (I t + 1) mod d"
    and "B (Suc t) ! nat ((I t + 1) mod d) =
           (if d - 1 \<le> int t then B (Suc (t - nat (d - 1))) ! nat (I (t - nat (d - 1))) else z)"
proof -
  define D where "D = nat d"
  have D: "0 < D" "d = int D" using d by (simp_all add: D_def)
  have inv: "k \<le> n \<Longrightarrow>
      I k = int (k mod D) \<and> length (B k) = D \<and>
      (\<forall>u < k. k \<le> u + D \<longrightarrow> B k ! (u mod D) = B (Suc u) ! (u mod D)) \<and>
      (\<forall>j. k \<le> j \<and> j < D \<longrightarrow> B k ! j = z)" for k
  proof (induction k)
    case 0
    show ?case using B0 I0 by (simp add: D_def)
  next
    case (Suc k)
    then have k: "k < n" and Ik: "I k = int (k mod D)" and len: "length (B k) = D"
      and old: "\<And>u. u < k \<Longrightarrow> k \<le> u + D \<Longrightarrow> B k ! (u mod D) = B (Suc u) ! (u mod D)"
      and fresh: "\<And>j. k \<le> j \<Longrightarrow> j < D \<Longrightarrow> B k ! j = z"
      by simp_all
    from step k obtain w where Bs: "B (Suc k) = (B k)[nat (I k) := w]"
      and Is: "I (Suc k) = (if I k = d - 1 then 0 else I k + 1)" by blast
    have Bs': "B (Suc k) = (B k)[k mod D := w]" using Bs Ik by simp
    have I': "I (Suc k) = int (Suc k mod D)"
    proof (cases "k mod D = D - 1")
      case True
      then have a: "Suc (k mod D) = D" using D(1) by linarith
      then have "Suc k mod D = 0" by (simp add: mod_Suc)
      moreover have "I k = int D - 1" unfolding Ik using a by linarith
      ultimately show ?thesis using Is D(2) by simp
    next
      case False
      then have a: "Suc (k mod D) \<noteq> D" by linarith
      then have "Suc k mod D = Suc (k mod D)" by (simp add: mod_Suc)
      moreover have "I k \<noteq> int D - 1" unfolding Ik using a by linarith
      ultimately show ?thesis using Is Ik D(2) by simp
    qed
    have len': "length (B (Suc k)) = D" using Bs' len by simp
    have old': "B (Suc k) ! (u mod D) = B (Suc u) ! (u mod D)" if "u < Suc k" "Suc k \<le> u + D" for u
    proof (cases "u = k")
      case True
      then show ?thesis by simp
    next
      case False
      then have u: "u < k" "k < u + D" using that by linarith+
      then have "u mod D \<noteq> k mod D" by (rule mod_distinct)
      then have "B (Suc k) ! (u mod D) = B k ! (u mod D)" unfolding Bs' by simp
      also have "\<dots> = B (Suc u) ! (u mod D)" using u by (intro old) simp_all
      finally show ?thesis .
    qed
    have fresh': "B (Suc k) ! j = z" if "Suc k \<le> j" "j < D" for j
    proof -
      have "k mod D = k" using that by simp
      then have "k mod D \<noteq> j" using that by simp
      then have "B (Suc k) ! j = B k ! j" unfolding Bs' by simp
      then show ?thesis using that fresh [of j] by simp
    qed
    show ?case using I' len' old' fresh' by blast
  qed
  have It: "I t = int (t mod D)" using inv [of t] t by simp
  have ISt: "I (Suc t) = int (Suc t mod D)" using inv [of "Suc t"] t by simp
  show "I t = int t mod d" using It D by (simp add: zmod_int)
  have next_slot: "(I t + 1) mod d = int (Suc t mod D)"
  proof -
    have "(I t + 1) mod d = (int t mod int D + 1) mod int D"
      unfolding It using D(2) by (simp add: zmod_int)
    also have "\<dots> = (int t + 1) mod int D" by (rule mod_add_left_eq)
    also have "\<dots> = int (Suc t mod D)" by (simp add: zmod_int add.commute)
    finally show ?thesis .
  qed
  show "I (Suc t) = (I t + 1) mod d" unfolding next_slot by (rule ISt)
  show "B (Suc t) ! nat ((I t + 1) mod d) =
           (if d - 1 \<le> int t then B (Suc (t - nat (d - 1))) ! nat (I (t - nat (d - 1))) else z)"
  proof (cases "d - 1 \<le> int t")
    case True
    define u where "u = t - nat (d - 1)"
    have u: "u < Suc t" "Suc t \<le> u + D" "Suc t = u + D"
      using True D by (simp_all add: u_def)
    have Iu: "I u = int (u mod D)" using inv [of u] t u by simp
    have "Suc t mod D = u mod D" using u(3) by simp
    moreover have "B (Suc t) ! (u mod D) = B (Suc u) ! (u mod D)"
      using inv [of "Suc t"] t u by simp
    ultimately show ?thesis
      unfolding next_slot using True Iu by (simp add: u_def)
  next
    case False
    then have "Suc t < D" using D by linarith
    then have "Suc t mod D = Suc t" "Suc t \<le> Suc t \<and> Suc t < D" by simp_all
    then have "B (Suc t) ! (Suc t mod D) = z" using inv [of "Suc t"] t by simp
    then show ?thesis unfolding next_slot using False by simp
  qed
qed

lemma frameInference_sized:
  assumes "length outContours = NUM_FREQ_IN" "length outNotes = NUM_FREQ_OUT" "length outOnsets = NUM_FREQ_OUT"
  shows "frameInference nets consts cnn inData outContours outNotes outOnsets =
     (let cnn2 = runModels nets consts
                   (cnn\<lparr> mInputArray := std_copy inData 0 (NUM_HARMONICS * NUM_FREQ_IN) (mInputArray cnn) 0 \<rparr>);
          noteSlot = slotAhead (mNotesCircularBuffer cnn2) (mNoteIdx cnn2) (mNumNoteStored consts);
          contourSlot = slotAhead (mContoursCircularBuffer cnn2) (mContourIdx cnn2) (mNumContourStored consts)
      in Inr (frameStep nets consts inData cnn,
              std_copy contourSlot 0 (length contourSlot) outContours 0,
              std_copy noteSlot 0 (length noteSlot) outNotes 0,
              std_copy (getOutputs (netOnsetOutput nets) (mCNNOnsetOutput cnn2)) 0 NUM_FREQ_OUT outOnsets 0))"
  using assms by (simp add: frameInference_def frameStep_def Let_def)

lemma runModels_frame:
  "mContourIdx (runModels nets consts cnn) = mContourIdx cnn"
  "mNoteIdx (runModels nets consts cnn) = mNoteIdx cnn"
  "mConcat2Idx (runModels nets consts cnn) = mConcat2Idx cnn"
  "\<exists>w. mContoursCircularBuffer (runModels nets consts cnn) =
        (mContoursCircularBuffer cnn)[nat (mContourIdx cnn) := w] \<and>
       (NUM_FREQ_IN \<le> length (mContoursCircularBuffer cnn ! nat (mContourIdx cnn)) \<longrightarrow>
        length w = length (mContoursCircularBuffer cnn ! nat (mContourIdx cnn)))"
  "\<exists>w. mNotesCircularBuffer (runModels nets consts cnn) =
        (mNotesCircularBuffer cnn)[nat (mNoteIdx cnn) := w] \<and>
       (NUM_FREQ_OUT \<le> length (mNotesCircularBuffer cnn ! nat (mNoteIdx cnn)) \<longrightarrow>
        length w = length (mNotesCircularBuffer cnn ! nat (mNoteIdx cnn)))"
  "\<exists>w. mConcat2CircularBuffer (runModels nets consts cnn) =
        (mConcat2CircularBuffer cnn)[nat (mConcat2Idx cnn) := w] \<and>
       (32 * NUM_FREQ_OUT \<le> length (mConcat2CircularBuffer cnn ! nat (mConcat2Idx cnn)) \<longrightarrow>
        length w = length (mConcat2CircularBuffer cnn ! nat (mConcat2Idx cnn)))"
  apply (simp_all add: runModels_def concatStep_def Let_def)
  apply (rule exI, rule conjI, rule refl, simp add: length_std_copy)+
  done

lemma runModels_concat:
  "mConcatArray (runModels nets consts cnn) =
     (let after = runModels nets consts cnn;
          slot = slotAhead (mConcat2CircularBuffer after) (mConcat2Idx cnn) (mNumConcat2Stored consts);
          noteOut = getOutputs (netNote nets) (mCNNNote after)
      in fold (\<lambda>i arr. std_copy slot (i * 32) ((i + 1) * 32)
                             (arr[i * 33 := noteOut ! i]) (i * 33 + 1))
                [0 ..< NUM_FREQ_OUT] (mConcatArray cnn))"
  by (simp add: runModels_def concatStep_def Let_def)

lemma frameStep_frame:
  "mContourIdx (frameStep nets consts inData cnn) =
     (if mContourIdx cnn = mNumContourStored consts - 1 then 0 else mContourIdx cnn + 1)"
  "mNoteIdx (frameStep nets consts inData cnn) =
     (if mNoteIdx cnn = mNumNoteStored consts - 1 then 0 else mNoteIdx cnn + 1)"
  "mConcat2Idx (frameStep nets consts inData cnn) =
     (if mConcat2Idx cnn = mNumConcat2Stored consts - 1 then 0 else mConcat2Idx cnn + 1)"
  "mContoursCircularBuffer (frameStep nets consts inData cnn) =
     mContoursCircularBuffer (runModels nets consts
        (cnn\<lparr> mInputArray := std_copy inData 0 (NUM_HARMONICS * NUM_FREQ_IN) (mInputArray cnn) 0 \<rparr>))"
  "mNotesCircularBuffer (frameStep nets consts inData cnn) =
     mNotesCircularBuffer (runModels nets consts
        (cnn\<lparr> mInputArray := std_copy inData 0 (NUM_HARMONICS * NUM_FREQ_IN) (mInputArray cnn) 0 \<rparr>))"
  "mConcat2CircularBuffer (frameStep nets consts inData cnn) =
     mConcat2CircularBuffer (runModels nets consts
        (cnn\<lparr> mInputArray := std_copy inData 0 (NUM_HARMONICS * NUM_FREQ_IN) (mInputArray cnn) 0 \<rparr>))"
  by (simp_all add: frameStep_def frameInference_def Let_def NUM_FREQ_IN_def NUM_FREQ_OUT_def runModels_frame)

lemma ring_rows:
  fixes B :: "nat \<Rightarrow> 'r list list" and i :: "nat \<Rightarrow> nat"
  assumes B0: "B 0 = replicate D (replicate K z)"
    and step: "\<forall>k < n. \<exists>w. B (Suc k) = (B k)[i k := w] \<and>
                 (K \<le> length (B k ! i k) \<longrightarrow> length w = length (B k ! i k))"
    and t: "t \<le> n"
  shows "\<forall>r \<in> set (B t). length r = K"
  using t
proof (induction t)
  case 0
  show ?case by (simp add: B0)
next
  case (Suc t)
  then have IH: "\<forall>r \<in> set (B t). length r = K" and tn: "t < n" by simp_all
  from step tn obtain w where w: "B (Suc t) = (B t)[i t := w]"
    "K \<le> length (B t ! i t) \<longrightarrow> length w = length (B t ! i t)" by blast
  show ?case
  proof (cases "i t < length (B t)")
    case True
    then have "length (B t ! i t) = K" using IH by simp
    then have "length w = K" using w(2) by simp
    then show ?thesis using IH set_update_subset_insert [of "B t" "i t" w] unfolding w(1) by auto
  next
    case False
    then have "(B t)[i t := w] = B t" by (intro list_update_beyond) simp
    then show ?thesis using IH unfolding w(1) by simp
  qed
qed

lemma stateAfter_0: "stateAfter nets consts cnn inputs 0 = cnn"
  by (simp add: stateAfter_def)

lemma stateAfter_Suc:
  "k < length inputs \<Longrightarrow>
   stateAfter nets consts cnn inputs (Suc k) =
     frameStep nets consts (inputs ! k) (stateAfter nets consts cnn inputs k)"
  by (simp add: stateAfter_def take_Suc_conv_app_nth)

lemma ring_schedule:
  fixes B :: "nat \<Rightarrow> real list list" and I :: "nat \<Rightarrow> int" and d :: int and W :: "nat \<Rightarrow> real list"
  assumes d: "1 \<le> d" and B0: "B 0 = replicate (nat d) (replicate K 0)" and I0: "I 0 = 0"
    and step: "\<forall>k < n. B (Suc k) = (B k)[nat (I k) := std_copy (W k) 0 K (B k ! nat (I k)) 0] \<and>
                       I (Suc k) = (if I k = d - 1 then 0 else I k + 1)"
    and t: "t < n"
  shows "I t = int t mod d"
    and "I (Suc t) = (I t + 1) mod d"
    and "wrapIndex (I t + 1) d = (I t + 1) mod d"
    and "slotAhead (B (Suc t)) (I t) d =
           (if d - 1 \<le> int t then B (Suc (t - nat (d - 1))) ! nat (I (t - nat (d - 1)))
            else replicate K 0)"
    and "d - 1 \<le> int t \<Longrightarrow>
           B (Suc (t - nat (d - 1))) ! nat (I (t - nat (d - 1))) =
           map (\<lambda>i. W (t - nat (d - 1)) ! i) [0 ..< K]"
    and "length (slotAhead (B (Suc t)) (I t) d) = K"
proof -
  have step1: "\<forall>k < n. \<exists>w. B (Suc k) = (B k)[nat (I k) := w] \<and>
                           I (Suc k) = (if I k = d - 1 then 0 else I k + 1)"
    using step by blast
  have step2: "\<forall>k < n. \<exists>w. B (Suc k) = (B k)[nat (I k) := w] \<and>
                 (K \<le> length (B k ! nat (I k)) \<longrightarrow> length w = length (B k ! nat (I k)))"
  proof (intro allI impI)
    fix k assume "k < n"
    then have "B (Suc k) = (B k)[nat (I k) := std_copy (W k) 0 K (B k ! nat (I k)) 0]"
      using step by blast
    then show "\<exists>w. B (Suc k) = (B k)[nat (I k) := w] \<and>
                 (K \<le> length (B k ! nat (I k)) \<longrightarrow> length w = length (B k ! nat (I k)))"
      by (intro exI [of _ "std_copy (W k) 0 K (B k ! nat (I k)) 0"]) (simp add: length_std_copy)
  qed
  have len: "length (B k) = nat d" if "k \<le> n" for k
    using that
  proof (induction k)
    case 0 show ?case by (simp add: B0)
  next
    case (Suc k) then show ?case using step by simp
  qed
  have rows: "\<forall>r \<in> set (B k). length r = K" if "k \<le> n" for k
    using ring_rows [OF B0 step2 that] .
  have head: "I k = int k mod d" if "k < n" for k
    using ring_run(1) [OF d B0 I0 step1 that] .
  show h1: "I t = int t mod d" by (rule head [OF t])
  show "I (Suc t) = (I t + 1) mod d" by (rule ring_run(2) [OF d B0 I0 step1 t])
  have nonneg: "0 \<le> I t" unfolding h1 using d by simp
  show w: "wrapIndex (I t + 1) d = (I t + 1) mod d"
    by (rule wrapIndex_mod) (use nonneg d in simp_all)
  show s: "slotAhead (B (Suc t)) (I t) d =
           (if d - 1 \<le> int t then B (Suc (t - nat (d - 1))) ! nat (I (t - nat (d - 1)))
            else replicate K 0)"
    unfolding slotAhead_def w by (rule ring_run(3) [OF d B0 I0 step1 t])
  have "nat ((I t + 1) mod d) < nat d" using d by simp
  then have "B (Suc t) ! nat ((I t + 1) mod d) \<in> set (B (Suc t))"
    using len [of "Suc t"] t by simp
  then show "length (slotAhead (B (Suc t)) (I t) d) = K"
    unfolding slotAhead_def w using rows [of "Suc t"] t by simp
  show "B (Suc (t - nat (d - 1))) ! nat (I (t - nat (d - 1))) =
           map (\<lambda>i. W (t - nat (d - 1)) ! i) [0 ..< K]" if "d - 1 \<le> int t"
  proof -
    define u where "u = t - nat (d - 1)"
    have u: "u < n" using t by (simp add: u_def)
    have iu: "nat (I u) < length (B u)"
      unfolding head [OF u] using len [of u] u d by simp
    then have "length (B u ! nat (I u)) = K" using rows [of u] u by simp
    moreover have "B (Suc u) ! nat (I u) = std_copy (W u) 0 K (B u ! nat (I u)) 0"
      using step u iu by simp
    ultimately show ?thesis unfolding u_def [symmetric] by (simp add: std_copy_whole)
  qed
qed

lemma frameStep_buffers:
  "mContoursCircularBuffer (frameStep nets consts inData cnn) =
     (mContoursCircularBuffer cnn)[nat (mContourIdx cnn) :=
        std_copy (getOutputs (netContour nets) (mCNNContour (frameStep nets consts inData cnn)))
          0 NUM_FREQ_IN (mContoursCircularBuffer cnn ! nat (mContourIdx cnn)) 0]"
  "mNotesCircularBuffer (frameStep nets consts inData cnn) =
     (mNotesCircularBuffer cnn)[nat (mNoteIdx cnn) :=
        std_copy (getOutputs (netNote nets) (mCNNNote (frameStep nets consts inData cnn)))
          0 NUM_FREQ_OUT (mNotesCircularBuffer cnn ! nat (mNoteIdx cnn)) 0]"
  "mConcat2CircularBuffer (frameStep nets consts inData cnn) =
     (mConcat2CircularBuffer cnn)[nat (mConcat2Idx cnn) :=
        std_copy (getOutputs (netOnsetInput nets) (mCNNOnsetInput (frameStep nets consts inData cnn)))
          0 (32 * NUM_FREQ_OUT) (mConcat2CircularBuffer cnn ! nat (mConcat2Idx cnn)) 0]"
  by (simp_all add: frameStep_def frameInference_def Let_def NUM_FREQ_IN_def NUM_FREQ_OUT_def
        runModels_def concatStep_def)

lemma frameStep_concat:
  "mConcatArray (frameStep nets consts inData cnn) =
     fold (\<lambda>i arr.
             std_copy (slotAhead (mConcat2CircularBuffer (frameStep nets consts inData cnn))
                          (mConcat2Idx cnn) (mNumConcat2Stored consts))
               (i * 32) ((i + 1) * 32)
               (arr[i * 33 := getOutputs (netNote nets) (mCNNNote (frameStep nets consts inData cnn)) ! i])
               (i * 33 + 1))
          [0 ..< NUM_FREQ_OUT] (mConcatArray cnn)"
  by (simp add: frameStep_def frameInference_def Let_def NUM_FREQ_IN_def NUM_FREQ_OUT_def
        runModels_def concatStep_def)

lemma reset_rings:
  "mContoursCircularBuffer (reset nets consts cnn) =
     replicate (nat (mNumContourStored consts)) (replicate NUM_FREQ_IN 0)"
  "mNotesCircularBuffer (reset nets consts cnn) =
     replicate (nat (mNumNoteStored consts)) (replicate NUM_FREQ_OUT 0)"
  "mConcat2CircularBuffer (reset nets consts cnn) =
     replicate (nat (mNumConcat2Stored consts)) (replicate (32 * NUM_FREQ_OUT) 0)"
  "mContourIdx (reset nets consts cnn) = 0"
  "mNoteIdx (reset nets consts cnn) = 0"
  "mConcat2Idx (reset nets consts cnn) = 0"
  by (simp_all add: reset_def)

lemma frameInference_rows:
  assumes "length outContours = NUM_FREQ_IN" "length outNotes = NUM_FREQ_OUT" "length outOnsets = NUM_FREQ_OUT"
  shows "frameInference nets consts cnn inData outContours outNotes outOnsets =
     Inr (frameStep nets consts inData cnn,
          std_copy (slotAhead (mContoursCircularBuffer (frameStep nets consts inData cnn))
                      (mContourIdx cnn) (mNumContourStored consts))
            0 (length (slotAhead (mContoursCircularBuffer (frameStep nets consts inData cnn))
                      (mContourIdx cnn) (mNumContourStored consts))) outContours 0,
          std_copy (slotAhead (mNotesCircularBuffer (frameStep nets consts inData cnn))
                      (mNoteIdx cnn) (mNumNoteStored consts))
            0 (length (slotAhead (mNotesCircularBuffer (frameStep nets consts inData cnn))
                      (mNoteIdx cnn) (mNumNoteStored consts))) outNotes 0,
          std_copy (getOutputs (netOnsetOutput nets) (mCNNOnsetOutput (frameStep nets consts inData cnn)))
            0 NUM_FREQ_OUT outOnsets 0)"
  using assms
  by (simp add: frameInference_def frameStep_def Let_def NUM_FREQ_IN_def NUM_FREQ_OUT_def runModels_frame)

lemma std_copy_row: "length src = n \<Longrightarrow> length dst = n \<Longrightarrow> std_copy src 0 (length src) dst 0 = src"
  using map_nth [of src] by (simp add: std_copy_def)

lemma frameStep_contour:
  "mCNNContour (frameStep nets cs inData cnn) =
     forward (netContour nets) (mCNNContour cnn)
       (std_copy inData 0 (NUM_HARMONICS * NUM_FREQ_IN) (mInputArray cnn) 0)"
  by (simp add: frameStep_def frameInference_def Let_def NUM_FREQ_IN_def NUM_FREQ_OUT_def
        runModels_def concatStep_def)

lemma echo_first_contour:
  "getOutputs (netContour echoNets)
     (mCNNContour (stateAfter echoNets smallDepths (reset echoNets smallDepths blankCNN)
        [constFrame 1, constFrame 2, constFrame 3] (Suc 0))) = constFrame 1"
proof -
  have "mInputArray (reset echoNets smallDepths blankCNN) = replicate (NUM_HARMONICS * NUM_FREQ_IN) 0"
    by (simp add: reset_def)
  then have "std_copy (constFrame 1) 0 (NUM_HARMONICS * NUM_FREQ_IN)
               (mInputArray (reset echoNets smallDepths blankCNN)) 0 =
             map (\<lambda>i. constFrame 1 ! i) [0 ..< NUM_HARMONICS * NUM_FREQ_IN]"
    by (simp add: std_copy_whole)
  also have "\<dots> = constFrame 1"
    using map_nth [of "constFrame 1"] by (simp add: constFrame_def)
  finally show ?thesis
    by (simp add: stateAfter_Suc stateAfter_0 frameStep_contour echoNets_def echoNet_def)
qed

text \<open>
  Claim C2. Let the driver be reset and then run on a sequence of input frames, with all
  three depths at least 1, and let \<open>s k\<close> be its state after \<open>k\<close> frames. For the
  contour, note and concat2 ring buffers, each of its depth \<open>d\<close>: before frame \<open>t\<close> the
  head is \<open>t mod d\<close> and after the frame it is the old head plus one modulo \<open>d\<close>. The
  frame inference returns the contour and note slots at index \<open>(head + 1) mod d\<close> as its
  output rows, and \<^verbatim>\<open>_concat\<close> interleaves the note outputs with the concat2 slot at that
  index. Each slot read is the slot that frame \<open>t - (d - 1)\<close> wrote at its head, which holds
  the outputs of the sub-network at that frame, or the zero row of \<^verbatim>\<open>reset\<close> when fewer
  than \<open>d - 1\<close> frames have run.
\<close>

theorem ring_buffers_aligned:
  fixes nets :: "'n cnn_nets" and cs :: cnn_consts and inputs :: "real list list" and t :: nat
    and initial :: "'n BasicPitchCNN"
  assumes depths: "1 \<le> mNumContourStored cs" "1 \<le> mNumNoteStored cs"
      "1 \<le> mNumConcat2Stored cs"
    and t: "t < length inputs"
  defines "s \<equiv> stateAfter nets cs (reset nets cs initial) inputs"
  defines "dC \<equiv> mNumContourStored cs" and "dN \<equiv> mNumNoteStored cs"
    and "dO \<equiv> mNumConcat2Stored cs"
  defines "slotC \<equiv> mContoursCircularBuffer (s (Suc t)) ! nat ((mContourIdx (s t) + 1) mod dC)"
    and "slotN \<equiv> mNotesCircularBuffer (s (Suc t)) ! nat ((mNoteIdx (s t) + 1) mod dN)"
    and "slotO \<equiv> mConcat2CircularBuffer (s (Suc t)) ! nat ((mConcat2Idx (s t) + 1) mod dO)"
  shows "(mContourIdx (s t) = int t mod dC \<and> mContourIdx (s (Suc t)) = (mContourIdx (s t) + 1) mod dC) \<and>
         (mNoteIdx (s t) = int t mod dN \<and> mNoteIdx (s (Suc t)) = (mNoteIdx (s t) + 1) mod dN) \<and>
         (mConcat2Idx (s t) = int t mod dO \<and> mConcat2Idx (s (Suc t)) = (mConcat2Idx (s t) + 1) mod dO) \<and>
         (\<forall>outContours outNotes outOnsets.
            length outContours = NUM_FREQ_IN \<and> length outNotes = NUM_FREQ_OUT \<and>
            length outOnsets = NUM_FREQ_OUT \<longrightarrow>
            frameInference nets cs (s t) (inputs ! t) outContours outNotes outOnsets =
              Inr (s (Suc t), slotC, slotN,
                   map (\<lambda>i. getOutputs (netOnsetOutput nets) (mCNNOnsetOutput (s (Suc t))) ! i)
                     [0 ..< NUM_FREQ_OUT])) \<and>
         mConcatArray (s (Suc t)) =
           fold (\<lambda>i arr. std_copy slotO (i * 32) ((i + 1) * 32)
                   (arr[i * 33 := getOutputs (netNote nets) (mCNNNote (s (Suc t))) ! i]) (i * 33 + 1))
             [0 ..< NUM_FREQ_OUT] (mConcatArray (s t)) \<and>
         slotC = (if dC - 1 \<le> int t
                  then mContoursCircularBuffer (s (Suc (t - nat (dC - 1)))) ! nat (mContourIdx (s (t - nat (dC - 1))))
                  else replicate NUM_FREQ_IN 0) \<and>
         slotN = (if dN - 1 \<le> int t
                  then mNotesCircularBuffer (s (Suc (t - nat (dN - 1)))) ! nat (mNoteIdx (s (t - nat (dN - 1))))
                  else replicate NUM_FREQ_OUT 0) \<and>
         slotO = (if dO - 1 \<le> int t
                  then mConcat2CircularBuffer (s (Suc (t - nat (dO - 1)))) ! nat (mConcat2Idx (s (t - nat (dO - 1))))
                  else replicate (32 * NUM_FREQ_OUT) 0) \<and>
         (dC - 1 \<le> int t \<longrightarrow>
            slotC = map (\<lambda>i. getOutputs (netContour nets) (mCNNContour (s (Suc (t - nat (dC - 1))))) ! i)
                      [0 ..< NUM_FREQ_IN]) \<and>
         (dN - 1 \<le> int t \<longrightarrow>
            slotN = map (\<lambda>i. getOutputs (netNote nets) (mCNNNote (s (Suc (t - nat (dN - 1))))) ! i)
                      [0 ..< NUM_FREQ_OUT]) \<and>
         (dO - 1 \<le> int t \<longrightarrow>
            slotO = map (\<lambda>i. getOutputs (netOnsetInput nets) (mCNNOnsetInput (s (Suc (t - nat (dO - 1))))) ! i)
                      [0 ..< 32 * NUM_FREQ_OUT])"
proof -
  have s0: "s 0 = reset nets cs initial" by (simp add: s_def stateAfter_0)
  have sS: "s (Suc k) = frameStep nets cs (inputs ! k) (s k)" if "k < length inputs" for k
    unfolding s_def by (rule stateAfter_Suc [OF that])
  have stepC: "\<forall>k < length inputs.
      mContoursCircularBuffer (s (Suc k)) = (mContoursCircularBuffer (s k))[nat (mContourIdx (s k)) :=
        std_copy (getOutputs (netContour nets) (mCNNContour (s (Suc k)))) 0 NUM_FREQ_IN
          (mContoursCircularBuffer (s k) ! nat (mContourIdx (s k))) 0] \<and>
      mContourIdx (s (Suc k)) = (if mContourIdx (s k) = dC - 1 then 0 else mContourIdx (s k) + 1)"
    using frameStep_buffers(1) [of nets cs] frameStep_frame(1) [of nets cs]
    by (simp add: sS dC_def)
  have stepN: "\<forall>k < length inputs.
      mNotesCircularBuffer (s (Suc k)) = (mNotesCircularBuffer (s k))[nat (mNoteIdx (s k)) :=
        std_copy (getOutputs (netNote nets) (mCNNNote (s (Suc k)))) 0 NUM_FREQ_OUT
          (mNotesCircularBuffer (s k) ! nat (mNoteIdx (s k))) 0] \<and>
      mNoteIdx (s (Suc k)) = (if mNoteIdx (s k) = dN - 1 then 0 else mNoteIdx (s k) + 1)"
    using frameStep_buffers(2) [of nets cs] frameStep_frame(2) [of nets cs]
    by (simp add: sS dN_def)
  have stepO: "\<forall>k < length inputs.
      mConcat2CircularBuffer (s (Suc k)) = (mConcat2CircularBuffer (s k))[nat (mConcat2Idx (s k)) :=
        std_copy (getOutputs (netOnsetInput nets) (mCNNOnsetInput (s (Suc k)))) 0 (32 * NUM_FREQ_OUT)
          (mConcat2CircularBuffer (s k) ! nat (mConcat2Idx (s k))) 0] \<and>
      mConcat2Idx (s (Suc k)) = (if mConcat2Idx (s k) = dO - 1 then 0 else mConcat2Idx (s k) + 1)"
    using frameStep_buffers(3) [of nets cs] frameStep_frame(3) [of nets cs]
    by (simp add: sS dO_def)
  have dC: "1 \<le> dC" and dN: "1 \<le> dN" and dO: "1 \<le> dO"
    using depths by (simp_all add: dC_def dN_def dO_def)
  have BC: "mContoursCircularBuffer (s 0) = replicate (nat dC) (replicate NUM_FREQ_IN 0)"
    and BN: "mNotesCircularBuffer (s 0) = replicate (nat dN) (replicate NUM_FREQ_OUT 0)"
    and BO: "mConcat2CircularBuffer (s 0) = replicate (nat dO) (replicate (32 * NUM_FREQ_OUT) 0)"
    and IC: "mContourIdx (s 0) = 0" and IN: "mNoteIdx (s 0) = 0" and IO: "mConcat2Idx (s 0) = 0"
    unfolding s0 dC_def dN_def dO_def by (rule reset_rings)+
  note C = ring_schedule [where B = "\<lambda>k. mContoursCircularBuffer (s k)" and I = "\<lambda>k. mContourIdx (s k)",
      OF dC BC IC stepC t]
  note N = ring_schedule [where B = "\<lambda>k. mNotesCircularBuffer (s k)" and I = "\<lambda>k. mNoteIdx (s k)",
      OF dN BN IN stepN t]
  note O = ring_schedule [where B = "\<lambda>k. mConcat2CircularBuffer (s k)" and I = "\<lambda>k. mConcat2Idx (s k)",
      OF dO BO IO stepO t]
  have aC: "slotAhead (mContoursCircularBuffer (s (Suc t))) (mContourIdx (s t)) (mNumContourStored cs) = slotC"
    unfolding slotC_def slotAhead_def dC_def [symmetric] C(3) ..
  have aN: "slotAhead (mNotesCircularBuffer (s (Suc t))) (mNoteIdx (s t)) (mNumNoteStored cs) = slotN"
    unfolding slotN_def slotAhead_def dN_def [symmetric] N(3) ..
  have aO: "slotAhead (mConcat2CircularBuffer (s (Suc t))) (mConcat2Idx (s t)) (mNumConcat2Stored cs) = slotO"
    unfolding slotO_def slotAhead_def dO_def [symmetric] O(3) ..
  have lC: "length slotC = NUM_FREQ_IN" using C(6) unfolding dC_def aC .
  have lN: "length slotN = NUM_FREQ_OUT" using N(6) unfolding dN_def aN .
  have run: "frameInference nets cs (s t) (inputs ! t) outContours outNotes outOnsets =
              Inr (s (Suc t), slotC, slotN,
                   map (\<lambda>i. getOutputs (netOnsetOutput nets) (mCNNOnsetOutput (s (Suc t))) ! i)
                     [0 ..< NUM_FREQ_OUT])"
    if "length outContours = NUM_FREQ_IN" "length outNotes = NUM_FREQ_OUT" "length outOnsets = NUM_FREQ_OUT"
    for outContours outNotes outOnsets
    unfolding frameInference_rows [OF that] sS [OF t, symmetric] aC aN
    using that lC lN map_nth [of slotC] map_nth [of slotN] by (simp add: std_copy_whole)
  have cat: "mConcatArray (s (Suc t)) =
           fold (\<lambda>i arr. std_copy slotO (i * 32) ((i + 1) * 32)
                   (arr[i * 33 := getOutputs (netNote nets) (mCNNNote (s (Suc t))) ! i]) (i * 33 + 1))
             [0 ..< NUM_FREQ_OUT] (mConcatArray (s t))"
    using frameStep_concat [of nets cs "inputs ! t" "s t"]
    unfolding sS [OF t, symmetric] aO .
  show ?thesis
  proof (intro conjI allI impI)
    show "mContourIdx (s t) = int t mod dC" by (rule C(1))
    show "mContourIdx (s (Suc t)) = (mContourIdx (s t) + 1) mod dC" by (rule C(2))
    show "mNoteIdx (s t) = int t mod dN" by (rule N(1))
    show "mNoteIdx (s (Suc t)) = (mNoteIdx (s t) + 1) mod dN" by (rule N(2))
    show "mConcat2Idx (s t) = int t mod dO" by (rule O(1))
    show "mConcat2Idx (s (Suc t)) = (mConcat2Idx (s t) + 1) mod dO" by (rule O(2))
    show "mConcatArray (s (Suc t)) =
           fold (\<lambda>i arr. std_copy slotO (i * 32) ((i + 1) * 32)
                   (arr[i * 33 := getOutputs (netNote nets) (mCNNNote (s (Suc t))) ! i]) (i * 33 + 1))
             [0 ..< NUM_FREQ_OUT] (mConcatArray (s t))" by (rule cat)
    show "slotC = (if dC - 1 \<le> int t
                  then mContoursCircularBuffer (s (Suc (t - nat (dC - 1)))) ! nat (mContourIdx (s (t - nat (dC - 1))))
                  else replicate NUM_FREQ_IN 0)"
      using C(4) unfolding aC [unfolded dC_def [symmetric]] .
    show "slotN = (if dN - 1 \<le> int t
                  then mNotesCircularBuffer (s (Suc (t - nat (dN - 1)))) ! nat (mNoteIdx (s (t - nat (dN - 1))))
                  else replicate NUM_FREQ_OUT 0)"
      using N(4) unfolding aN [unfolded dN_def [symmetric]] .
    show "slotO = (if dO - 1 \<le> int t
                  then mConcat2CircularBuffer (s (Suc (t - nat (dO - 1)))) ! nat (mConcat2Idx (s (t - nat (dO - 1))))
                  else replicate (32 * NUM_FREQ_OUT) 0)"
      using O(4) unfolding aO [unfolded dO_def [symmetric]] .
  next
    fix outContours outNotes outOnsets :: "real list"
    assume "length outContours = NUM_FREQ_IN \<and> length outNotes = NUM_FREQ_OUT \<and>
            length outOnsets = NUM_FREQ_OUT"
    then show "frameInference nets cs (s t) (inputs ! t) outContours outNotes outOnsets =
              Inr (s (Suc t), slotC, slotN,
                   map (\<lambda>i. getOutputs (netOnsetOutput nets) (mCNNOnsetOutput (s (Suc t))) ! i)
                     [0 ..< NUM_FREQ_OUT])"
      using run by blast
  next
    assume a: "dC - 1 \<le> int t"
    show "slotC = map (\<lambda>i. getOutputs (netContour nets) (mCNNContour (s (Suc (t - nat (dC - 1))))) ! i)
                      [0 ..< NUM_FREQ_IN]"
      using C(4) C(5) [OF a] a unfolding aC [unfolded dC_def [symmetric]] by simp
  next
    assume a: "dN - 1 \<le> int t"
    show "slotN = map (\<lambda>i. getOutputs (netNote nets) (mCNNNote (s (Suc (t - nat (dN - 1))))) ! i)
                      [0 ..< NUM_FREQ_OUT]"
      using N(4) N(5) [OF a] a unfolding aN [unfolded dN_def [symmetric]] by simp
  next
    assume a: "dO - 1 \<le> int t"
    show "slotO = map (\<lambda>i. getOutputs (netOnsetInput nets) (mCNNOnsetInput (s (Suc (t - nat (dO - 1))))) ! i)
                      [0 ..< 32 * NUM_FREQ_OUT]"
      using O(4) O(5) [OF a] a unfolding aO [unfolded dO_def [symmetric]] by simp
  qed
qed

text \<open>Depths 3, 2 and 1, three constant frames, frame \<open>t = 2\<close>: the contour row
  returned is the first frame, written two frames earlier.\<close>

theorem ring_buffers_aligned_witness:
  "let s = stateAfter echoNets smallDepths (reset echoNets smallDepths blankCNN)
             [constFrame 1, constFrame 2, constFrame 3]
   in mContourIdx (s 2) = 2 \<and> mContourIdx (s 3) = 0 \<and>
      mNoteIdx (s 2) = 0 \<and> mNoteIdx (s 3) = 1 \<and>
      mConcat2Idx (s 2) = 0 \<and> mConcat2Idx (s 3) = 0 \<and>
      mContoursCircularBuffer (s 3) ! 0 = replicate NUM_FREQ_IN 1 \<and>
      frameInference echoNets smallDepths (s 2) (constFrame 3)
          (replicate NUM_FREQ_IN 0) (replicate NUM_FREQ_OUT 0) (replicate NUM_FREQ_OUT 0) =
        Inr (s 3, replicate NUM_FREQ_IN 1, mNotesCircularBuffer (s 3) ! 1,
             map (\<lambda>i. getOutputs (netOnsetOutput echoNets) (mCNNOnsetOutput (s 3)) ! i)
               [0 ..< NUM_FREQ_OUT])"
proof -
  define s where "s = stateAfter echoNets smallDepths (reset echoNets smallDepths blankCNN)
             [constFrame 1, constFrame 2, constFrame 3]"
  have d: "mNumContourStored smallDepths = 3" "mNumNoteStored smallDepths = 2"
      "mNumConcat2Stored smallDepths = 1"
    by (simp_all add: smallDepths_def)
  have c: "map (\<lambda>i. constFrame 1 ! i) [0 ..< NUM_FREQ_IN] = replicate NUM_FREQ_IN 1"
    by (rule nth_equalityI) (simp_all add: constFrame_def NUM_FREQ_IN_def NUM_HARMONICS_def)
  have e: "getOutputs (netContour echoNets) (mCNNContour (s (Suc 0))) = constFrame 1"
    unfolding s_def by (rule echo_first_contour)
  note T = ring_buffers_aligned [where cs = smallDepths and t = 2 and nets = echoNets
        and initial = blankCNN and inputs = "[constFrame 1, constFrame 2, constFrame 3]",
        folded s_def, unfolded d]
  have T': "(mContourIdx (s 2) = 2 \<and> mContourIdx (s 3) = 0) \<and>
      (mNoteIdx (s 2) = 0 \<and> mNoteIdx (s 3) = 1) \<and>
      (mConcat2Idx (s 2) = 0 \<and> mConcat2Idx (s 3) = 0)"
    using T [THEN conjunct1] T [THEN conjunct2, THEN conjunct1]
      T [THEN conjunct2, THEN conjunct2, THEN conjunct1] by simp
  have slotC: "mContoursCircularBuffer (s 3) ! 0 = replicate NUM_FREQ_IN 1"
    using T [THEN conjunct2, THEN conjunct2, THEN conjunct2, THEN conjunct2, THEN conjunct2,
             THEN conjunct2, THEN conjunct2, THEN conjunct2, THEN conjunct1] T'
    by (simp add: e c)
  have run: "frameInference echoNets smallDepths (s 2) (constFrame 3)
          (replicate NUM_FREQ_IN 0) (replicate NUM_FREQ_OUT 0) (replicate NUM_FREQ_OUT 0) =
        Inr (s 3, replicate NUM_FREQ_IN 1, mNotesCircularBuffer (s 3) ! 1,
             map (\<lambda>i. getOutputs (netOnsetOutput echoNets) (mCNNOnsetOutput (s 3)) ! i)
               [0 ..< NUM_FREQ_OUT])"
    using T [THEN conjunct2, THEN conjunct2, THEN conjunct2, THEN conjunct1, rule_format,
             of "replicate NUM_FREQ_IN 0" "replicate NUM_FREQ_OUT 0" "replicate NUM_FREQ_OUT 0"]
      T' slotC
    by simp
  show ?thesis
    unfolding Let_def s_def [symmetric] using T' slotC run by simp
qed

section \<open>The command line on an empty input file\<close>





lemma printProgress_keeps:
  "fst (printProgress plat s p w) = Inr ()"
  "stderr (snd (printProgress plat s p w)) = stderr w"
  "files (snd (printProgress plat s p w)) = files w"
  by (simp_all add: printProgress_def doP_def)











end
